theory Spec2Isabelle
  imports Complex_Main "HOL-Library.Multiset" "HOL-Library.Product_Lexorder"
begin

section \<open>tcpy\_scanner: a shallow embedding of \<^verbatim>\<open>src/tcpy_scanner.py\<close>\<close>

text \<open>
  The theory follows the Python source class by class.  Conventions:
  \<^item> Python floats that hold times and rates are exact rationals (\<open>rat\<close>); the properties
    proved are about comparisons and bookkeeping, not about rounding.
  \<^item> Python's unbounded integers are \<open>int\<close>.
  \<^item> An exception that leaves a function is a value \<open>Inl e\<close> of the result type
    \<open>error + 'a\<close>; \<^verbatim>\<open>sys.exit(n)\<close> is the exception \<open>SystemExit n\<close>.
  \<^item> Probe records are Python objects shared between the deque, the descriptor index and
    local variables, so they live in an explicit store \<open>objs\<close> and are passed by reference.
  \<^item> \<^verbatim>\<open>print\<close> calls and the debug reply log are not modelled.
  \<^item> A leading underscore of a Python name is dropped (\<^verbatim>\<open>_get_targets\<close> is \<open>get_targets\<close>).
\<close>

unbundle bit_operations_syntax

subsection \<open>Exceptions\<close>

datatype error =
    SystemExit int
  | IndexError
  | ValueError
  | KeyError
  | TypeError
  | AttributeError
  | ZeroDivisionError
  | OverflowError
  | SocketError
  | BlockingIOError int
  | OSError int
  | GenericException

subsection \<open>\<^verbatim>\<open>collections.deque\<close> primitives\<close>

text \<open>The deque is a list whose head is the left end.  The three primitives raise
  \<open>IndexError\<close> on an empty deque, as Python's do.\<close>

definition deque_popleft :: "'a list \<Rightarrow> error + ('a \<times> 'a list)" where
  "deque_popleft q = (case q of [] \<Rightarrow> Inl IndexError | x # xs \<Rightarrow> Inr (x, xs))"

definition deque_pop :: "'a list \<Rightarrow> error + ('a \<times> 'a list)" where
  "deque_pop q = (if q = [] then Inl IndexError else Inr (last q, butlast q))"

definition deque_first :: "'a list \<Rightarrow> error + 'a" where
  "deque_first q = (case q of [] \<Rightarrow> Inl IndexError | x # xs \<Rightarrow> Inr x)"

text \<open>\<^verbatim>\<open>list.remove(x)\<close> and \<^verbatim>\<open>deque.remove(x)\<close>: remove the first occurrence,
  \<open>ValueError\<close> when there is none.\<close>

definition py_remove :: "'a \<Rightarrow> 'a list \<Rightarrow> error + 'a list" where
  "py_remove x xs = (if x \<in> set xs then Inr (remove1 x xs) else Inl ValueError)"

subsection \<open>ProbeStateTcp and ProbeStateContainer\<close>

text \<open>A socket is represented by its file descriptor.  \<open>probe_id\<close> is \<^verbatim>\<open>None\<close> in
  the source between \<^verbatim>\<open>__init__\<close> and \<^verbatim>\<open>add_probe_state\<close>, which the constructor
  calls itself; the placeholder here is \<open>0\<close>.\<close>

record ProbeStateTcp =
  target_ip :: string
  target_port :: int
  probe_index :: nat
  probe_sent_time :: "rat option"
  probes_sent :: int
  socket :: "nat option"
  deleted :: bool
  probe_id :: nat

text \<open>The poller is the list of registered descriptors (\<^verbatim>\<open>SelectPoller.fd_list\<close>; the
  OS pollers keep the same set).  What \<^verbatim>\<open>poll\<close> reports comes from the environment.\<close>

record ProbeStateContainer =
  objs :: "nat \<Rightarrow> ProbeStateTcp"
  probe_states :: "nat list"
  socket_list :: "nat list"
  probe_states_by_fd :: "nat \<rightharpoonup> nat"
  count :: int
  next_probe_id :: nat
  poll_type :: string
  poller :: "nat list"

definition upd_obj :: "nat \<Rightarrow> (ProbeStateTcp \<Rightarrow> ProbeStateTcp) \<Rightarrow> ProbeStateContainer \<Rightarrow> ProbeStateContainer" where
  "upd_obj r f c = c\<lparr>objs := (objs c)(r := f (objs c r))\<rparr>"

definition poller_register :: "nat \<Rightarrow> ProbeStateContainer \<Rightarrow> ProbeStateContainer" where
  "poller_register fd c = c\<lparr>poller := poller c @ [fd]\<rparr>"

definition poller_unregister :: "nat \<Rightarrow> ProbeStateContainer \<Rightarrow> ProbeStateContainer" where
  "poller_unregister fd c = (if fd \<in> set (poller c) then c\<lparr>poller := remove1 fd (poller c)\<rparr> else c)"

definition add_probe_state :: "nat \<Rightarrow> ProbeStateContainer \<Rightarrow> ProbeStateContainer" where
  "add_probe_state r c =
     (let c1 = upd_obj r (\<lambda>ps. ps\<lparr>probe_id := next_probe_id c\<rparr>) c
      in c1\<lparr>next_probe_id := next_probe_id c + 1,
             count := count c + 1,
             probe_states := r # probe_states c\<rparr>)"

text \<open>\<^verbatim>\<open>ProbeStateTcp.__init__\<close>: the new object is allocated at the fresh address
  \<open>next_probe_id c\<close> and adds itself to the container.\<close>

definition ProbeStateTcp_init :: "string \<Rightarrow> int \<Rightarrow> nat \<Rightarrow> ProbeStateContainer \<Rightarrow> nat \<times> ProbeStateContainer" where
  "ProbeStateTcp_init ip port idx c =
     (let r = next_probe_id c;
          ps = \<lparr>target_ip = ip, target_port = port, probe_index = idx, probe_sent_time = None,
                probes_sent = 0, socket = None, deleted = False, probe_id = 0\<rparr>
      in (r, add_probe_state r (c\<lparr>objs := (objs c)(r := ps)\<rparr>)))"

definition delete_socket :: "nat \<Rightarrow> ProbeStateContainer \<Rightarrow> error + ProbeStateContainer" where
  "delete_socket r c =
     (case socket (objs c r) of
        None \<Rightarrow> Inr c
      | Some fd \<Rightarrow>
          (let c1 = poller_unregister fd c in
           case py_remove fd (socket_list c1) of
             Inl e \<Rightarrow> Inl e
           | Inr sl \<Rightarrow>
               (if probe_states_by_fd c1 fd = None then Inl KeyError
                else Inr (upd_obj r (\<lambda>ps. ps\<lparr>socket := None\<rparr>)
                            (c1\<lparr>socket_list := sl,
                                probe_states_by_fd := (probe_states_by_fd c1)(fd := None)\<rparr>)))))"

definition schedule_delete :: "nat \<Rightarrow> ProbeStateContainer \<Rightarrow> error + ProbeStateContainer" where
  "schedule_delete r c =
     (case delete_socket r c of
        Inl e \<Rightarrow> Inl e
      | Inr c1 \<Rightarrow> Inr (upd_obj r (\<lambda>ps. ps\<lparr>deleted := True\<rparr>) c1))"

definition set_socket :: "nat \<Rightarrow> nat \<Rightarrow> ProbeStateContainer \<Rightarrow> error + ProbeStateContainer" where
  "set_socket r fd c =
     (case (if socket (objs c r) \<noteq> None then delete_socket r c else Inr c) of
        Inl e \<Rightarrow> Inl e
      | Inr c1 \<Rightarrow>
          (let c2 = upd_obj r (\<lambda>ps. ps\<lparr>socket := Some fd\<rparr>) c1;
               c3 = c2\<lparr>socket_list := socket_list c2 @ [fd],
                       probe_states_by_fd := (probe_states_by_fd c2)(fd \<mapsto> r)\<rparr>
           in if poll_type c3 = ''epoll'' \<or> poll_type c3 = ''poll'' \<or> poll_type c3 = ''select''
              then Inr (poller_register fd c3)
              else Inl GenericException))"

definition delete_probe_state :: "nat \<Rightarrow> ProbeStateContainer \<Rightarrow> error + ProbeStateContainer" where
  "delete_probe_state r c =
     (case delete_socket r c of
        Inl e \<Rightarrow> Inl e
      | Inr c1 \<Rightarrow>
          (case py_remove r (probe_states c1) of
             Inl e \<Rightarrow> Inl e
           | Inr q \<Rightarrow> Inr (c1\<lparr>count := count c1 - 1, probe_states := q\<rparr>)))"

definition popleft :: "ProbeStateContainer \<Rightarrow> error + (nat option \<times> ProbeStateContainer)" where
  "popleft c =
     (if length (probe_states c) = 0 then Inr (None, c)
      else case deque_popleft (probe_states c) of
             Inl e \<Rightarrow> Inl e
           | Inr (r, q) \<Rightarrow> Inr (Some r, c\<lparr>count := count c - 1, probe_states := q\<rparr>))"

definition pop :: "ProbeStateContainer \<Rightarrow> error + (nat option \<times> ProbeStateContainer)" where
  "pop c =
     (if length (probe_states c) = 0 then Inr (None, c)
      else case deque_pop (probe_states c) of
             Inl e \<Rightarrow> Inl e
           | Inr (r, q) \<Rightarrow> Inr (Some r, c\<lparr>count := count c - 1, probe_states := q\<rparr>))"

text \<open>\<^verbatim>\<open>ProbeStateContainer.next\<close> (\<open>next\<close> is a keyword here).\<close>

definition next_probe_state :: "ProbeStateContainer \<Rightarrow> error + (nat option \<times> ProbeStateContainer)" where
  "next_probe_state c =
     (if length (probe_states c) = 0 then Inr (None, c)
      else case deque_popleft (probe_states c) of
             Inl e \<Rightarrow> Inl e
           | Inr (r, q) \<Rightarrow> Inr (Some r, c\<lparr>probe_states := q @ [r]\<rparr>))"

definition peekleft :: "ProbeStateContainer \<Rightarrow> error + nat option" where
  "peekleft c =
     (if length (probe_states c) = 0 then Inr None
      else case deque_first (probe_states c) of
             Inl e \<Rightarrow> Inl e
           | Inr r \<Rightarrow> Inr (Some r))"

text \<open>\<^verbatim>\<open>ProbeStateContainer.sort\<close>.  \<^verbatim>\<open>sort_func\<close> returns the tuple
  \<^verbatim>\<open>(time_key, probe_id)\<close>; Python compares tuples lexicographically, which is the order
  of \<open>Product_Lexorder\<close>.  \<^verbatim>\<open>sorted\<close> is a stable sort, and so is \<open>sort_key\<close>; the result
  of a stable sort is determined by the keys.  The per-host interval is \<^verbatim>\<open>None\<close> until
  \<^verbatim>\<open>set_rtt\<close> is called, and adding \<^verbatim>\<open>None\<close> to a float raises \<open>TypeError\<close>.\<close>

definition sort_func :: "rat \<Rightarrow> rat \<Rightarrow> ProbeStateTcp \<Rightarrow> rat \<times> nat" where
  "sort_func inter_packet_interval_per_host now ps =
     (let time_key = (case probe_sent_time ps of
                        None \<Rightarrow> 0
                      | Some t \<Rightarrow> t + inter_packet_interval_per_host - now);
          time_key = (if deleted ps then - 1000 else time_key)
      in (time_key, probe_id ps))"

definition sort_probe_states :: "rat option \<Rightarrow> rat \<Rightarrow> ProbeStateContainer \<Rightarrow> error + ProbeStateContainer" where
  "sort_probe_states inter_packet_interval_per_host now c =
     (case inter_packet_interval_per_host of
        None \<Rightarrow>
          (if list_ex (\<lambda>r. probe_sent_time (objs c r) \<noteq> None) (probe_states c)
           then Inl TypeError
           else Inr (c\<lparr>probe_states := sort_key (\<lambda>r. sort_func 0 now (objs c r)) (probe_states c)\<rparr>))
      | Some ipi \<Rightarrow>
          Inr (c\<lparr>probe_states := sort_key (\<lambda>r. sort_func ipi now (objs c r)) (probe_states c)\<rparr>))"

text \<open>The records of the queue, left to right.\<close>

definition queue_records :: "ProbeStateContainer \<Rightarrow> ProbeStateTcp list" where
  "queue_records c = map (objs c) (probe_states c)"

text \<open>An example registry: record 0 is tombstoned, record 1 is live and was last sent at
  time 0; the live record is at the left end.\<close>

definition example_record :: "nat \<Rightarrow> rat option \<Rightarrow> int \<Rightarrow> bool \<Rightarrow> ProbeStateTcp" where
  "example_record i t n d =
     \<lparr>target_ip = ''10.0.0.1'', target_port = 80 + int i, probe_index = i, probe_sent_time = t,
      probes_sent = n, socket = None, deleted = d, probe_id = i\<rparr>"

definition example_container :: "ProbeStateContainer" where
  "example_container =
     \<lparr>objs = (\<lambda>i. if i = 0 then example_record 0 (Some 0) 1 True
                  else example_record i (Some 0) 1 False),
      probe_states = [1, 0], socket_list = [], probe_states_by_fd = Map.empty,
      count = 2, next_probe_id = 2, poll_type = ''poll'', poller = []\<rparr>"

subsection \<open>Python string helpers\<close>

text \<open>Strings are byte strings here, so the model covers ASCII text.  \<^verbatim>\<open>str.split(sep)\<close>
  for a one-character separator.\<close>

fun split_on :: "char \<Rightarrow> string \<Rightarrow> string list" where
  "split_on sep [] = [[]]"
| "split_on sep (x # xs) =
     (if x = sep then [] # split_on sep xs
      else (case split_on sep xs of
              [] \<Rightarrow> [[x]]
            | p # ps \<Rightarrow> (x # p) # ps))"

text \<open>\<^verbatim>\<open>str.isspace\<close> and the characters \<^verbatim>\<open>str.strip()\<close> removes, for the code points
  below 256.\<close>

definition py_isspace :: "char \<Rightarrow> bool" where
  "py_isspace ch = (ch \<in> set [CHR 0x09, CHR 0x0A, CHR 0x0B, CHR 0x0C, CHR 0x0D,
                              CHR 0x1C, CHR 0x1D, CHR 0x1E, CHR 0x1F, CHR 0x20,
                              CHR 0x85, CHR 0xA0])"

definition py_strip :: "string \<Rightarrow> string" where
  "py_strip s = rev (dropWhile py_isspace (rev (dropWhile py_isspace s)))"

definition is_digit :: "char \<Rightarrow> bool" where
  "is_digit ch = (48 \<le> (of_char ch :: nat) \<and> (of_char ch :: nat) \<le> 57)"

definition digit_val :: "char \<Rightarrow> nat" where
  "digit_val ch = of_char ch - 48"

text \<open>\<^verbatim>\<open>int(s)\<close> for a string: surrounding whitespace is dropped, then an optional sign,
  then decimal digits in which single underscores may separate digits; anything else is a
  \<open>ValueError\<close>.  The whitespace of \<^verbatim>\<open>int\<close> is not that of \<^verbatim>\<open>str.strip\<close>: a
  character above 127 that is a space counts, and below that only the six of C's
  \<^verbatim>\<open>isspace\<close>, so the separators \<open>0x1C\<close> to \<open>0x1F\<close> do not
  (\<^verbatim>\<open>int('\\x1c5')\<close> is a \<open>ValueError\<close>).\<close>

definition py_int_isspace :: "char \<Rightarrow> bool" where
  "py_int_isspace ch = (ch \<in> set [CHR 0x09, CHR 0x0A, CHR 0x0B, CHR 0x0C, CHR 0x0D, CHR 0x20,
                                  CHR 0x85, CHR 0xA0])"

definition py_int_strip :: "string \<Rightarrow> string" where
  "py_int_strip s = rev (dropWhile py_int_isspace (rev (dropWhile py_int_isspace s)))"

fun digits_value :: "nat \<Rightarrow> string \<Rightarrow> nat option" where
  "digits_value acc [] = Some acc"
| "digits_value acc (ch # cs) =
     (if is_digit ch then digits_value (10 * acc + digit_val ch) cs
      else if ch = CHR ''_'' then
        (case cs of
           [] \<Rightarrow> None
         | d # ds \<Rightarrow> if is_digit d then digits_value (10 * acc + digit_val d) ds else None)
      else None)"

definition py_int_digits :: "string \<Rightarrow> nat option" where
  "py_int_digits s =
     (case s of
        [] \<Rightarrow> None
      | ch # cs \<Rightarrow> if is_digit ch then digits_value (digit_val ch) cs else None)"

definition py_int :: "string \<Rightarrow> error + int" where
  "py_int s =
     (case py_int_strip s of
        [] \<Rightarrow> Inl ValueError
      | ch # cs \<Rightarrow>
          if ch = CHR ''-'' then
            (case py_int_digits cs of None \<Rightarrow> Inl ValueError | Some n \<Rightarrow> Inr (- int n))
          else if ch = CHR ''+'' then
            (case py_int_digits cs of None \<Rightarrow> Inl ValueError | Some n \<Rightarrow> Inr (int n))
          else
            (case py_int_digits (ch # cs) of None \<Rightarrow> Inl ValueError | Some n \<Rightarrow> Inr (int n)))"

text \<open>\<^verbatim>\<open>int(x)\<close> for a float: truncation towards zero.\<close>

definition py_int_of_float :: "rat \<Rightarrow> int" where
  "py_int_of_float x = (if 0 \<le> x then \<lfloor>x\<rfloor> else \<lceil>x\<rceil>)"

subsection \<open>The port popularity table\<close>

text \<open>\<^verbatim>\<open>port_popularity_nmap\<close> is one list literal of 8344 ports in the source (line 721).
  It is given here in consecutive pieces of 128 ports, which are then concatenated.\<close>

definition port_popularity_nmap_00 :: "int list" where
  "port_popularity_nmap_00 =
    [80, 23, 443, 21, 22, 25, 3389, 110, 445, 139, 143, 53, 135, 3306, 8080, 1723,
     111, 995, 993, 5900, 1025, 587, 8888, 199, 1720, 465, 548, 113, 81, 6001, 10000, 514,
     5060, 179, 1026, 2000, 8443, 8000, 32768, 554, 26, 1433, 49152, 2001, 515, 8008, 49154, 1027,
     5666, 646, 5000, 5631, 631, 49153, 8081, 2049, 88, 79, 5800, 106, 2121, 1110, 49155, 6000,
     513, 990, 5357, 427, 49156, 543, 544, 5101, 144, 7, 389, 8009, 3128, 444, 9999, 5009,
     7070, 5190, 3000, 5432, 1900, 3986, 13, 1029, 9, 5051, 6646, 49157, 1028, 873, 1755, 2717,
     4899, 9100, 119, 37, 1000, 3001, 5001, 82, 10010, 1030, 9090, 2107, 1024, 2103, 6004, 1801,
     5050, 19, 8031, 1041, 255, 1049, 1048, 2967, 1053, 3703, 1056, 1065, 1064, 1054, 17, 808]"

definition port_popularity_nmap_01 :: "int list" where
  "port_popularity_nmap_01 =
    [3689, 1031, 1044, 1071, 5901, 100, 9102, 8010, 2869, 1039, 5120, 4001, 9000, 2105, 636, 1038,
     2601, 1, 7000, 1066, 1069, 625, 311, 280, 254, 4000, 1993, 1761, 5003, 2002, 2005, 1998,
     1032, 1050, 6112, 3690, 1521, 2161, 6002, 1080, 2401, 4045, 902, 7937, 787, 1058, 2383, 32771,
     1033, 1040, 1059, 50000, 5555, 10001, 1494, 593, 2301, 3, 1, 3268, 7938, 1234, 1022, 1074,
     8002, 1036, 1035, 9001, 1037, 464, 497, 1935, 6666, 2003, 6543, 1352, 24, 3269, 1111, 407,
     500, 20, 2006, 3260, 15000, 1218, 1034, 4444, 264, 2004, 33, 1042, 42510, 999, 3052, 1023,
     1068, 222, 7100, 888, 4827, 1999, 563, 1717, 2008, 992, 32770, 32772, 7001, 8082, 2007, 740,
     5550, 2009, 5801, 1043, 512, 2701, 7019, 50001, 1700, 4662, 2065, 2010, 42, 9535, 2602, 3333]"

definition port_popularity_nmap_02 :: "int list" where
  "port_popularity_nmap_02 =
    [161, 5100, 5002, 2604, 4002, 6059, 1047, 8192, 8193, 2702, 6789, 9595, 1051, 9594, 9593, 16993,
     16992, 5226, 5225, 32769, 3283, 1052, 8194, 1055, 1062, 9415, 8701, 8652, 8651, 8089, 65389, 65000,
     64680, 64623, 55600, 55555, 52869, 35500, 33354, 23502, 20828, 1311, 1060, 4443, 730, 731, 709, 1067,
     13782, 5902, 366, 9050, 1002, 85, 5500, 5431, 1864, 1863, 8085, 51103, 49999, 45100, 10243, 49,
     3495, 6667, 90, 475, 27000, 1503, 6881, 1500, 8021, 340, 78, 5566, 8088, 2222, 9071, 8899,
     6005, 9876, 1501, 5102, 32774, 32773, 9101, 5679, 163, 648, 146, 1666, 901, 83, 9207, 8001,
     8083, 5004, 3476, 8084, 5214, 14238, 12345, 912, 30, 2605, 2030, 6, 541, 8007, 3005, 4,
     1248, 2500, 880, 306, 4242, 1097, 9009, 2525, 1086, 1088, 8291, 52822, 6101, 900, 7200, 2809]"

definition port_popularity_nmap_03 :: "int list" where
  "port_popularity_nmap_03 =
    [395, 800, 32775, 12000, 1083, 211, 987, 705, 20005, 711, 13783, 6969, 3071, 5269, 5222, 1085,
     1046, 5987, 5989, 5988, 2190, 11967, 8600, 3766, 7627, 8087, 30000, 9010, 7741, 14000, 3367, 1099,
     1098, 3031, 2718, 6580, 15002, 4129, 6901, 3827, 3580, 2144, 9900, 8181, 3801, 1718, 2811, 9080,
     2135, 1045, 2399, 3017, 10002, 1148, 9002, 8873, 2875, 9011, 5718, 8086, 3998, 2607, 11110, 4126,
     5911, 5910, 9618, 2381, 1096, 3300, 3351, 1073, 8333, 3784, 5633, 15660, 6123, 3211, 1078, 3659,
     3551, 2260, 2160, 2100, 16001, 3325, 3323, 1104, 9968, 9503, 9502, 9485, 9290, 9220, 8994, 8649,
     8222, 7911, 7625, 7106, 65129, 63331, 6156, 6129, 60020, 5962, 5961, 5960, 5959, 5925, 5877, 5825,
     5810, 58080, 57294, 50800, 50006, 50003, 49160, 49159, 49158, 48080, 40193, 34573, 34572, 34571, 3404, 33899]"

definition port_popularity_nmap_04 :: "int list" where
  "port_popularity_nmap_04 =
    [3301, 32782, 32781, 31038, 30718, 28201, 27715, 25734, 24800, 22939, 21571, 20221, 20031, 19842, 19801, 19101,
     17988, 1783, 16018, 16016, 15003, 14442, 13456, 10629, 10628, 10626, 10621, 10617, 10616, 10566, 10025, 10024,
     10012, 1169, 5030, 5414, 1057, 6788, 1947, 1094, 1075, 1108, 4003, 1081, 1093, 4449, 1687, 1840,
     1100, 1063, 1061, 1107, 1106, 9500, 20222, 7778, 1077, 1310, 2119, 2492, 1070, 20000, 8400, 1272,
     6389, 7777, 1072, 1079, 1082, 8402, 89, 691, 1001, 32776, 1999, 212, 2020, 6003, 7002, 2998,
     50002, 3372, 898, 5510, 32, 2033, 4165, 3061, 5903, 99, 749, 425, 43, 5405, 6106, 13722,
     6502, 7007, 458, 9666, 8100, 3737, 5298, 1152, 8090, 2191, 3011, 1580, 5200, 3851, 3371, 3370,
     3369, 7402, 5054, 3918, 3077, 7443, 3493, 3828, 1186, 2179, 1183, 19315, 19283, 3995, 5963, 1124]"

definition port_popularity_nmap_05 :: "int list" where
  "port_popularity_nmap_05 =
    [8500, 1089, 10004, 2251, 1087, 5280, 3871, 3030, 62078, 9091, 4111, 1334, 3261, 2522, 5859, 1247,
     9944, 9943, 9877, 9110, 8654, 8254, 8180, 8011, 7512, 7435, 7103, 61900, 61532, 5922, 5915, 5904,
     5822, 56738, 55055, 51493, 50636, 50389, 49175, 49165, 49163, 3546, 32784, 27355, 27353, 27352, 24444, 19780,
     18988, 16012, 15742, 10778, 4006, 2126, 4446, 3880, 1782, 1296, 9998, 9040, 32779, 1021, 32777, 2021,
     32778, 616, 666, 700, 5802, 4321, 545, 1524, 1112, 49400, 84, 38292, 2040, 32780, 3006, 2111,
     1084, 1600, 2048, 2638, 6699, 9111, 16080, 6547, 6007, 1533, 5560, 2106, 1443, 667, 720, 2034,
     555, 801, 6025, 3221, 3826, 9200, 2608, 4279, 7025, 11111, 3527, 1151, 8200, 8300, 6689, 9878,
     10009, 8800, 5730, 2394, 2393, 2725, 5061, 6566, 9081, 5678, 3800, 4550, 5080, 1201, 3168, 3814]"

definition port_popularity_nmap_06 :: "int list" where
  "port_popularity_nmap_06 =
    [1862, 1114, 6510, 3905, 8383, 3914, 3971, 3809, 5033, 7676, 3517, 4900, 3869, 9418, 2909, 3878,
     8042, 1091, 1090, 3920, 6567, 1138, 3945, 1175, 10003, 3390, 3889, 1131, 8292, 5087, 1119, 1117,
     4848, 7800, 16000, 3324, 3322, 5221, 4445, 9917, 9575, 9099, 9003, 8290, 8099, 8093, 8045, 7921,
     7920, 7496, 6839, 6792, 6779, 6692, 6565, 60443, 5952, 5950, 5907, 5906, 5862, 5850, 5815, 5811,
     57797, 56737, 5544, 55056, 5440, 54328, 54045, 52848, 52673, 50500, 50300, 49176, 49167, 49161, 44501, 44176,
     41511, 40911, 32785, 32783, 30951, 27356, 26214, 25735, 19350, 18101, 18040, 17877, 16113, 15004, 14441, 12265,
     12174, 10215, 10180, 4567, 6100, 4004, 4005, 8022, 9898, 7999, 1271, 1199, 3003, 1122, 2323, 4224,
     2022, 617, 777, 417, 714, 6346, 981, 722, 1009, 4998, 70, 1076, 5999, 10082, 765, 301]"

definition port_popularity_nmap_07 :: "int list" where
  "port_popularity_nmap_07 =
    [524, 668, 2041, 6009, 1417, 1434, 259, 44443, 1984, 2068, 7004, 1007, 4343, 416, 2038, 6006,
     109, 4125, 1461, 9103, 911, 726, 1010, 2046, 2035, 7201, 687, 2013, 481, 125, 6669, 6668,
     903, 1455, 683, 1011, 2043, 2047, 31337, 256, 9929, 5998, 406, 44442, 783, 843, 2042, 2045,
     4040, 6060, 6051, 1145, 3916, 9443, 9444, 1875, 7272, 4252, 4200, 7024, 1556, 13724, 1141, 1233,
     8765, 1137, 3963, 5938, 9191, 3808, 8686, 3981, 2710, 3852, 3849, 3944, 3853, 9988, 1163, 4164,
     3820, 6481, 3731, 5081, 40000, 8097, 4555, 3863, 1287, 4430, 7744, 1812, 7913, 1166, 1164, 1165,
     8019, 10160, 4658, 7878, 3304, 3307, 1259, 1092, 7278, 3872, 10008, 7725, 3410, 1971, 3697, 3859,
     3514, 4949, 4147, 7900, 5353, 3931, 8675, 1277, 3957, 1213, 2382, 6600, 3700, 3007, 4080, 1113]"

definition port_popularity_nmap_08 :: "int list" where
  "port_popularity_nmap_08 =
    [3969, 1132, 1309, 3848, 7281, 3907, 3972, 3968, 1126, 5223, 1217, 3870, 3941, 8293, 1719, 1300,
     2099, 6068, 3013, 3050, 1174, 3684, 2170, 3792, 1216, 5151, 7080, 22222, 4143, 5868, 8889, 12006,
     1121, 3119, 8015, 10023, 3824, 1154, 20002, 3888, 4009, 5063, 3376, 1185, 1198, 1192, 1972, 1130,
     1149, 4096, 6500, 8294, 3990, 3993, 8016, 3846, 3929, 1187, 5074, 8766, 1102, 2800, 9941, 9914,
     9815, 9673, 9643, 9621, 9501, 9409, 9198, 9197, 9098, 8996, 8987, 8877, 8676, 8648, 8540, 8481,
     8385, 8189, 8098, 8095, 8050, 7929, 7770, 7749, 7438, 7241, 7123, 7051, 7050, 6896, 6732, 6711,
     65310, 6520, 6504, 6247, 6203, 61613, 60642, 60146, 60123, 5981, 5940, 59202, 59201, 59200, 5918, 5914,
     59110, 5909, 5905, 5899, 58838, 5869, 58632, 58630, 5823, 5818, 5812, 5807, 58002, 58001, 57665, 55576]"

definition port_popularity_nmap_09 :: "int list" where
  "port_popularity_nmap_09 =
    [55020, 53535, 5339, 53314, 53313, 53211, 52853, 52851, 52850, 52849, 52847, 5279, 52735, 52710, 52660, 5242,
     5212, 51413, 51191, 5040, 50050, 49401, 49236, 49195, 49186, 49171, 49168, 49164, 4875, 47544, 46996, 46200,
     44709, 41523, 41064, 40811, 3994, 39659, 39376, 39136, 38188, 38185, 37839, 35513, 33554, 33453, 32835, 32822,
     32816, 32803, 32792, 32791, 30704, 30005, 29831, 29672, 28211, 27357, 26470, 23796, 23052, 2196, 21792, 19900,
     18264, 18018, 17595, 16851, 16800, 16705, 15402, 15001, 12452, 12380, 12262, 12215, 12059, 12021, 10873, 10058,
     10034, 10022, 10011, 2910, 1594, 1658, 1583, 3162, 2920, 26000, 2366, 4600, 1688, 1322, 2557, 1095,
     1839, 2288, 1123, 5968, 9600, 1244, 1641, 2200, 1105, 6550, 5501, 1328, 2968, 1805, 1914, 1974,
     31727, 3400, 1301, 1147, 1721, 1236, 2501, 2012, 6222, 1220, 1109, 1347, 502, 701, 2232, 2241]"

definition port_popularity_nmap_10 :: "int list" where
  "port_popularity_nmap_10 =
    [4559, 710, 10005, 5680, 623, 913, 1103, 780, 930, 803, 725, 639, 540, 102, 5010, 1222,
     953, 8118, 9992, 1270, 27, 123, 86, 447, 1158, 442, 18000, 419, 931, 874, 856, 250,
     475, 2044, 441, 210, 6008, 7003, 5803, 1008, 556, 6103, 829, 3299, 55, 713, 1550, 709,
     2628, 223, 3025, 87, 57, 10083, 5520, 980, 251, 1013, 9152, 1212, 2433, 1516, 333, 2011,
     748, 1350, 1526, 7010, 1241, 127, 157, 220, 1351, 2067, 684, 77, 4333, 674, 943, 904,
     840, 825, 792, 732, 1020, 1006, 657, 557, 610, 1547, 523, 996, 2025, 602, 3456, 862,
     600, 2903, 257, 1522, 1353, 6662, 998, 660, 729, 730, 731, 782, 1357, 3632, 3399, 6050,
     2201, 971, 969, 905, 846, 839, 823, 822, 795, 790, 778, 757, 659, 225, 1015, 1014]"

definition port_popularity_nmap_11 :: "int list" where
  "port_popularity_nmap_11 =
    [1012, 655, 786, 6017, 6670, 690, 388, 44334, 754, 5011, 98, 411, 1525, 3999, 740, 12346,
     802, 1337, 1127, 2112, 1414, 2600, 621, 606, 59, 928, 924, 922, 921, 918, 878, 864,
     859, 806, 805, 728, 252, 1005, 1004, 641, 758, 669, 38037, 715, 1413, 2104, 1229, 3817,
     6063, 6062, 6055, 6052, 6030, 6021, 6015, 6010, 3220, 6115, 3940, 2340, 8006, 4141, 3810, 1565,
     3511, 5986, 5985, 2723, 9202, 4036, 4035, 2312, 3652, 3280, 4243, 4298, 4297, 4294, 4262, 4234,
     4220, 4206, 22555, 9300, 7121, 1927, 4433, 5070, 2148, 1168, 9979, 7998, 4414, 1823, 3653, 1223,
     8201, 4876, 3240, 2644, 4020, 2436, 3906, 4375, 4024, 5581, 5580, 9694, 6251, 7345, 7325, 7320,
     7300, 3121, 5473, 5475, 3600, 3943, 4912, 2142, 1976, 1975, 5202, 5201, 4016, 5111, 9911, 10006]"

definition port_popularity_nmap_12 :: "int list" where
  "port_popularity_nmap_12 =
    [3923, 3930, 1221, 2973, 3909, 5814, 14001, 3080, 4158, 3526, 1911, 5066, 2711, 2187, 3788, 3796,
     3922, 2292, 16161, 3102, 4881, 3979, 3670, 4174, 3483, 2631, 1750, 3897, 7500, 5553, 5554, 9875,
     4570, 3860, 3712, 8052, 2083, 8883, 2271, 1208, 3319, 3935, 3430, 1215, 3962, 3368, 3964, 1128,
     5557, 4010, 9400, 1605, 3291, 7400, 5005, 1699, 1195, 5053, 3813, 1712, 3002, 3765, 3806, 43000,
     2371, 3532, 3799, 3790, 3599, 3850, 4355, 4358, 4357, 4356, 5433, 3928, 4713, 4374, 3961, 9022,
     3911, 3396, 7628, 3200, 1753, 3967, 2505, 5133, 3658, 8471, 1314, 2558, 6161, 4025, 3089, 9021,
     30001, 8472, 5014, 9990, 1159, 1157, 1308, 5723, 3443, 4161, 1135, 9211, 9210, 4090, 7789, 6619,
     9628, 12121, 4454, 3680, 3167, 3902, 3901, 3890, 3842, 16900, 4700, 4687, 8980, 1196, 4407, 3520]"

definition port_popularity_nmap_13 :: "int list" where
  "port_popularity_nmap_13 =
    [3812, 5012, 10115, 1615, 2902, 4118, 2706, 2095, 2096, 3363, 5137, 3795, 8005, 10007, 3515, 8003,
     3847, 3503, 5252, 27017, 2197, 4120, 1180, 5722, 1134, 1883, 1249, 3311, 3837, 2804, 4558, 4190,
     2463, 1204, 4056, 1184, 19333, 9333, 3913, 3672, 4342, 4877, 3586, 8282, 1861, 1752, 9592, 1701,
     6085, 2081, 4058, 2115, 8900, 4328, 2958, 2957, 7071, 3899, 2531, 2691, 5052, 1638, 3419, 2551,
     4029, 3603, 1336, 2082, 1143, 3602, 1176, 4100, 3486, 6077, 4800, 2062, 1918, 12001, 12002, 9084,
     7072, 1156, 2313, 3952, 4999, 5023, 2069, 28017, 27019, 27018, 3439, 6324, 1188, 1125, 3908, 7501,
     8232, 1722, 2988, 10500, 1136, 1162, 10020, 22128, 1211, 3530, 12009, 9005, 3057, 3956, 1191, 3519,
     5235, 1144, 4745, 1901, 1807, 2425, 5912, 3210, 32767, 5015, 5013, 3622, 4039, 10101, 5233, 5152]"

definition port_popularity_nmap_14 :: "int list" where
  "port_popularity_nmap_14 =
    [3983, 3982, 9616, 4369, 3728, 3621, 2291, 5114, 7101, 1315, 2087, 5234, 1635, 3263, 4121, 4602,
     2224, 3949, 9131, 3310, 3937, 2253, 3882, 3831, 2376, 2375, 3876, 3362, 3663, 3334, 47624, 1825,
     3868, 4302, 5721, 1279, 2606, 1173, 22125, 17500, 12005, 6113, 1973, 3793, 3637, 8954, 3742, 9667,
     41795, 41794, 4300, 8445, 12865, 3365, 4665, 3190, 3577, 3823, 2261, 2262, 2812, 1190, 22350, 3374,
     4135, 2598, 2567, 1167, 8470, 8116, 3830, 8880, 2734, 3505, 3388, 3669, 1871, 4325, 8025, 1958,
     3681, 3014, 8999, 4415, 3414, 4101, 6503, 9700, 3683, 1150, 18333, 4376, 3991, 3989, 3992, 2302,
     3415, 1179, 3946, 2203, 4192, 4418, 2712, 25565, 4065, 3915, 2080, 3103, 2265, 8202, 2304, 8060,
     4119, 4401, 1560, 3904, 4534, 1835, 1116, 8023, 8474, 3879, 4087, 4112, 6350, 9950, 3506, 3948]"

definition port_popularity_nmap_15 :: "int list" where
  "port_popularity_nmap_15 =
    [3825, 2325, 1800, 1153, 6379, 3839, 5672, 4689, 47806, 3975, 3980, 4113, 2847, 2070, 3425, 6628,
     3997, 3513, 3656, 2335, 1182, 1954, 3996, 4599, 2391, 3479, 5021, 5020, 1558, 1924, 4545, 2991,
     6065, 1290, 1559, 1317, 5423, 1707, 5055, 9975, 9971, 9919, 9915, 9912, 9910, 9908, 9901, 9844,
     9830, 9826, 9825, 9823, 9814, 9812, 9777, 9745, 9683, 9680, 9679, 9674, 9665, 9661, 9654, 9648,
     9620, 9619, 9613, 9583, 9527, 9513, 9493, 9478, 9464, 9454, 9364, 9351, 9183, 9170, 9133, 9130,
     9128, 9125, 9065, 9061, 9044, 9037, 9013, 9004, 8925, 8898, 8887, 8882, 8879, 8878, 8865, 8843,
     8801, 8798, 8790, 8772, 8756, 8752, 8736, 8680, 8673, 8658, 8655, 8644, 8640, 8621, 8601, 8562,
     8539, 8531, 8530, 8515, 8484, 8479, 8477, 8455, 8454, 8453, 8452, 8451, 8409, 8339, 8308, 8295]"

definition port_popularity_nmap_16 :: "int list" where
  "port_popularity_nmap_16 =
    [8273, 8268, 8255, 8248, 8245, 8144, 8133, 8110, 8092, 8064, 8037, 8029, 8018, 8014, 7975, 7895,
     7854, 7853, 7852, 7830, 7813, 7788, 7780, 7772, 7771, 7688, 7685, 7654, 7637, 7600, 7555, 7553,
     7456, 7451, 7231, 7218, 7184, 7119, 7104, 7102, 7092, 7068, 7067, 7043, 7033, 6973, 6972, 6956,
     6942, 6922, 6920, 6897, 6877, 6780, 6734, 6725, 6710, 6709, 6650, 6647, 6644, 6606, 65514, 65488,
     6535, 65311, 65048, 64890, 64727, 64726, 64551, 64507, 64438, 64320, 6412, 64127, 64080, 63803, 63675, 6349,
     63423, 6323, 63156, 6310, 63105, 6309, 62866, 6274, 6273, 62674, 6259, 62570, 62519, 6250, 62312, 62188,
     62080, 62042, 62006, 61942, 61851, 61827, 61734, 61722, 61669, 61617, 61616, 61516, 61473, 61402, 6126, 6120,
     61170, 61169, 61159, 60989, 6091, 6090, 60794, 60789, 60783, 60782, 60753, 60743, 60728, 60713, 6067, 60628]"

definition port_popularity_nmap_17 :: "int list" where
  "port_popularity_nmap_17 =
    [60621, 60612, 60579, 60544, 60504, 60492, 60485, 60403, 60401, 60377, 60279, 60243, 60227, 60177, 60111, 60086,
     60055, 60003, 60002, 60000, 59987, 59841, 59829, 59810, 59778, 5975, 5974, 5971, 59684, 5966, 5958, 59565,
     5954, 5953, 59525, 59510, 59509, 59504, 5949, 59499, 5948, 5945, 5939, 5936, 5934, 59340, 5931, 5927,
     5926, 5924, 5923, 59239, 5921, 5920, 59191, 5917, 59160, 59149, 59122, 59107, 5908, 59087, 58991, 58970,
     58908, 5888, 5887, 5881, 5878, 5875, 5874, 58721, 5871, 58699, 58634, 58622, 58610, 5860, 5858, 58570,
     58562, 5854, 5853, 5852, 5849, 58498, 5848, 58468, 5845, 58456, 58446, 58430, 5840, 5839, 5838, 58374,
     5836, 5834, 5831, 58310, 58305, 5827, 5826, 58252, 5824, 5821, 5820, 5817, 58164, 58109, 58107, 5808,
     58072, 5806, 5804, 57999, 57988, 57928, 57923, 57896, 57891, 57733, 57730, 57702, 57681, 57678, 57576, 57479]"

definition port_popularity_nmap_18 :: "int list" where
  "port_popularity_nmap_18 =
    [57398, 57387, 5737, 57352, 57350, 5734, 57347, 57335, 5732, 57325, 57123, 5711, 57103, 57020, 56975, 56973,
     56827, 56822, 56810, 56725, 56723, 56681, 5667, 56668, 5665, 56591, 56535, 56507, 56293, 56259, 5622, 5621,
     5620, 5612, 5611, 56055, 56016, 55948, 55910, 55907, 55901, 55781, 55773, 55758, 55721, 55684, 55652, 55635,
     55579, 55569, 55568, 55556, 5552, 55527, 55479, 55426, 55400, 55382, 55350, 55312, 55227, 55187, 55183, 55000,
     54991, 54987, 54907, 54873, 54741, 54722, 54688, 54658, 54605, 5458, 5457, 54551, 54514, 5444, 5442, 5441,
     54323, 54321, 54276, 54263, 54235, 54127, 54101, 54075, 53958, 53910, 53852, 53827, 53782, 5377, 53742, 5370,
     53690, 53656, 53639, 53633, 53491, 5347, 53469, 53460, 53370, 53361, 53319, 53240, 53212, 53189, 53178, 53085,
     52948, 5291, 52893, 52675, 52665, 5261, 5259, 52573, 52506, 52477, 52391, 52262, 52237, 52230, 52226, 52225]"

definition port_popularity_nmap_19 :: "int list" where
  "port_popularity_nmap_19 =
    [5219, 52173, 52071, 52046, 52025, 52003, 52002, 52001, 52000, 51965, 51961, 51909, 51906, 51809, 51800, 51772,
     51771, 51658, 51582, 51515, 51488, 51485, 51484, 5147, 51460, 51423, 51366, 51351, 51343, 51300, 5125, 51240,
     51235, 51234, 51233, 5122, 5121, 51139, 51118, 51067, 51037, 51020, 51011, 50997, 5098, 5096, 5095, 50945,
     5090, 50903, 5088, 50887, 50854, 50849, 50836, 50835, 50834, 50833, 50831, 50815, 50809, 50787, 50733, 50692,
     50585, 50577, 50576, 50545, 50529, 50513, 50356, 50277, 50258, 50246, 50224, 50205, 50202, 50198, 50189, 5017,
     5016, 50101, 50040, 50019, 50016, 49927, 49803, 49765, 49762, 49751, 49678, 49603, 49597, 49522, 49521, 49520,
     49519, 49500, 49498, 49452, 49398, 49372, 49352, 4931, 49302, 49275, 49241, 49235, 49232, 49228, 49216, 49213,
     49211, 49204, 49203, 49202, 49201, 49197, 49196, 49191, 49190, 49189, 49179, 49173, 49172, 49170, 49169, 49166]"

definition port_popularity_nmap_20 :: "int list" where
  "port_popularity_nmap_20 =
    [49132, 49048, 4903, 49002, 48973, 48967, 48966, 48925, 48813, 48783, 48682, 48648, 48631, 4860, 4859, 48434,
     48356, 4819, 48167, 48153, 48127, 48083, 48067, 48009, 47969, 47966, 4793, 47860, 47858, 47850, 4778, 47777,
     4771, 4770, 47700, 4767, 47634, 4760, 47595, 47581, 47567, 47448, 47372, 47348, 47267, 47197, 4712, 47119,
     47029, 47012, 46992, 46813, 46593, 4649, 4644, 46436, 46418, 46372, 46310, 46182, 46171, 46115, 4609, 4606,
     46069, 46034, 45960, 45864, 45777, 45697, 45624, 45602, 45463, 45438, 45413, 4530, 45226, 45220, 4517, 4516,
     45164, 45136, 45050, 45038, 44981, 44965, 4476, 4471, 44711, 44704, 4464, 44628, 44616, 44541, 44505, 44479,
     44431, 44410, 44380, 44200, 44119, 44101, 44004, 4388, 43868, 4384, 43823, 43734, 43690, 43654, 43425, 43242,
     43231, 43212, 43143, 43139, 43103, 43027, 43018, 43002, 42990, 42906, 42735, 42685, 42679, 42675, 42632, 42590]"

definition port_popularity_nmap_21 :: "int list" where
  "port_popularity_nmap_21 =
    [42575, 42560, 42559, 42452, 42449, 42322, 42276, 42251, 42158, 42127, 42035, 42001, 41808, 41773, 41632, 41551,
     41442, 41398, 41348, 41345, 41342, 41318, 41281, 41250, 41142, 41123, 40951, 40834, 40812, 40754, 40732, 40712,
     40628, 40614, 40513, 40489, 40457, 40400, 40393, 40306, 40011, 40005, 40003, 40002, 40001, 39917, 39895, 39883,
     39869, 39795, 39774, 39763, 39732, 39630, 39489, 39482, 39433, 39380, 39293, 39265, 39117, 39067, 38936, 38805,
     38780, 38764, 38761, 38570, 38561, 38546, 38481, 38446, 38358, 38331, 38313, 38270, 38224, 38205, 38194, 38029,
     37855, 37789, 37777, 37674, 37647, 37614, 37607, 37522, 37393, 37218, 37185, 37174, 37151, 37121, 36983, 36962,
     36950, 36914, 36824, 36823, 36748, 36710, 36694, 36677, 36659, 36552, 36530, 36508, 36436, 36368, 36275, 36256,
     36105, 36104, 36046, 35986, 35929, 35906, 35901, 35900, 35879, 35731, 35593, 35553, 35506, 35401, 35393, 35392]"

definition port_popularity_nmap_22 :: "int list" where
  "port_popularity_nmap_22 =
    [35349, 35272, 35217, 35131, 35116, 35050, 35033, 34875, 34833, 34783, 34765, 34728, 34683, 34510, 34507, 34401,
     34381, 34341, 34317, 34189, 34096, 34036, 34021, 33895, 33889, 33882, 33879, 33841, 33605, 33604, 33550, 33523,
     33522, 33444, 33395, 33367, 33337, 33335, 33327, 33277, 33203, 33200, 33192, 33175, 33124, 33087, 33070, 33017,
     33011, 33000, 32976, 32961, 32960, 32944, 32932, 32911, 32910, 32908, 32905, 32904, 32898, 32897, 32888, 32871,
     32869, 32868, 32858, 32842, 32837, 32820, 32815, 32814, 32807, 32799, 32798, 32797, 32790, 32789, 32788, 32765,
     32764, 32261, 32260, 32219, 32200, 32102, 32088, 32031, 32022, 32006, 31728, 31657, 31522, 31438, 31386, 31339,
     31072, 31058, 31033, 30896, 30705, 30659, 30644, 30599, 30519, 30299, 30195, 30087, 29810, 29507, 29243, 29152,
     29045, 28967, 28924, 28851, 28850, 28717, 28567, 28374, 28142, 28114, 27770, 27537, 27521, 27372, 27351, 27350]"

definition port_popularity_nmap_23 :: "int list" where
  "port_popularity_nmap_23 =
    [27316, 27204, 27087, 27075, 27074, 27055, 27016, 27015, 26972, 26669, 26417, 26340, 26007, 26001, 25847, 25717,
     25703, 25486, 25473, 25445, 25327, 25288, 25262, 25260, 25174, 24999, 24616, 24552, 24416, 24392, 24218, 23953,
     23887, 23723, 23451, 23430, 23382, 23342, 23296, 23270, 23228, 23219, 23040, 23017, 22969, 22959, 22882, 22769,
     22727, 22719, 22711, 22563, 22341, 22290, 22223, 22200, 22177, 22100, 22063, 22022, 21915, 21891, 21728, 21634,
     21631, 21473, 21078, 21011, 20990, 20940, 20934, 20883, 20734, 20473, 20280, 20228, 20227, 20226, 20225, 20224,
     20223, 20180, 20179, 20147, 20127, 20125, 20118, 20111, 20106, 20102, 20089, 20085, 20080, 20076, 20052, 20039,
     20032, 20021, 20017, 20011, 19996, 19995, 19852, 19715, 19634, 19612, 19501, 19464, 19403, 19353, 19201, 19200,
     19130, 19010, 18962, 18910, 18887, 18874, 18669, 18569, 18517, 18505, 18439, 18380, 18337, 18336, 18231, 18148]"

definition port_popularity_nmap_24 :: "int list" where
  "port_popularity_nmap_24 =
    [18080, 18015, 18012, 17997, 17985, 17969, 17867, 17860, 17802, 17801, 17715, 17702, 17701, 17700, 17413, 17409,
     17255, 17251, 17129, 17089, 17070, 17017, 17016, 16901, 16845, 16797, 16725, 16724, 16723, 16464, 16372, 16349,
     16297, 16286, 16283, 16273, 16270, 16048, 15915, 15758, 15730, 15722, 15677, 15670, 15646, 15645, 15631, 15550,
     15448, 15344, 15317, 15275, 15191, 15190, 15145, 15050, 15005, 14916, 14891, 14827, 14733, 14693, 14545, 14534,
     14444, 14443, 14418, 14254, 14237, 14218, 14147, 13899, 13846, 13784, 13766, 13730, 13723, 13695, 13580, 13502,
     13359, 13340, 13318, 13306, 13265, 13264, 13261, 13250, 13229, 13194, 13193, 13192, 13188, 13167, 13149, 13142,
     13140, 13132, 13130, 13093, 13017, 12962, 12955, 12892, 12891, 12766, 12702, 12699, 12414, 12340, 12296, 12275,
     12271, 12251, 12243, 12240, 12225, 12192, 12171, 12156, 12146, 12137, 12132, 12097, 12096, 12090, 12080, 12077]"

definition port_popularity_nmap_25 :: "int list" where
  "port_popularity_nmap_25 =
    [12034, 12031, 12019, 11940, 11863, 11862, 11813, 11735, 11697, 11552, 11401, 11296, 11288, 11250, 11224, 11200,
     11180, 11100, 11089, 11033, 11032, 11031, 11026, 11019, 11007, 11003, 10900, 10878, 10852, 10842, 10754, 10699,
     10602, 10601, 10567, 10565, 10556, 10555, 10554, 10553, 10552, 10551, 10550, 10535, 10529, 10509, 10494, 10443,
     10414, 10387, 10357, 10347, 10338, 10280, 10255, 10246, 10245, 10238, 10093, 10064, 10045, 10042, 10035, 10019,
     10018, 1327, 2330, 2580, 2700, 1584, 9020, 3281, 2439, 1250, 1607, 1736, 1330, 2270, 2728, 2888,
     3803, 5250, 1645, 1303, 3636, 1251, 1243, 1291, 1297, 1200, 1811, 4442, 1118, 8401, 2101, 2889,
     1694, 1730, 1912, 1745, 2250, 1306, 2997, 2449, 1262, 4007, 1101, 1268, 1735, 1858, 1264, 1711,
     3118, 4601, 1321, 1598, 1305, 1632, 9995, 1307, 1981, 2532, 1808, 2435, 1194, 1622, 1239, 1799]"

definition port_popularity_nmap_26 :: "int list" where
  "port_popularity_nmap_26 =
    [2882, 1683, 3063, 3062, 1340, 4447, 1806, 6888, 2438, 1261, 5969, 9343, 2583, 2031, 3798, 2269,
     20001, 2622, 11001, 1207, 2850, 21201, 2908, 3936, 3023, 2280, 2623, 7099, 2372, 1318, 1339, 1276,
     11000, 48619, 3497, 1209, 1331, 1240, 3856, 2987, 2326, 25001, 25000, 1792, 3919, 1299, 2984, 1715,
     1703, 1677, 2086, 1708, 1228, 3787, 5502, 1620, 1316, 1569, 1210, 1691, 1282, 2124, 1791, 2150,
     9909, 4022, 1324, 2584, 2300, 9287, 2806, 1566, 1713, 1592, 3749, 1302, 1709, 3485, 2418, 2472,
     24554, 3146, 2134, 2898, 9161, 9160, 2930, 1319, 3811, 2456, 2901, 6579, 2550, 8403, 31416, 22273,
     7005, 66, 32786, 32787, 706, 635, 6105, 400, 47, 830, 4008, 5977, 1989, 1444, 3985, 678,
     27001, 591, 642, 446, 1441, 54320, 11, 769, 983, 979, 973, 967, 965, 961, 942, 935]"

definition port_popularity_nmap_27 :: "int list" where
  "port_popularity_nmap_27 =
    [926, 925, 914, 863, 858, 844, 834, 817, 815, 811, 809, 789, 779, 743, 1019, 1507,
     1492, 509, 762, 5632, 578, 1495, 5308, 52, 219, 525, 1420, 665, 620, 3064, 3045, 653,
     158, 716, 861, 9991, 3049, 1366, 1364, 833, 91, 1680, 3398, 750, 615, 603, 6110, 101,
     989, 27010, 510, 810, 1139, 4199, 76, 847, 649, 707, 68, 449, 664, 75, 104, 629,
     1652, 682, 577, 985, 984, 974, 958, 952, 949, 946, 923, 916, 899, 897, 894, 889,
     835, 824, 814, 807, 804, 798, 733, 727, 237, 12, 10, 501, 122, 440, 771, 1663,
     828, 860, 695, 634, 538, 1359, 1358, 1517, 1370, 3900, 492, 268, 27374, 605, 8076, 1651,
     1178, 6401, 761, 5145, 50, 2018, 1349, 2014, 7597, 2120, 1445, 1402, 1465, 9104, 627, 4660]"

definition port_popularity_nmap_28 :: "int list" where
  "port_popularity_nmap_28 =
    [7273, 950, 1384, 1388, 760, 92, 831, 5978, 4557, 45, 112, 456, 1214, 3086, 702, 6665,
     1404, 651, 5300, 6347, 5400, 1389, 647, 448, 1356, 5232, 1484, 450, 1991, 1988, 1523, 1400,
     1399, 221, 1385, 5191, 1346, 2024, 2430, 988, 962, 948, 945, 941, 938, 936, 929, 927,
     919, 906, 883, 881, 875, 872, 870, 866, 855, 851, 850, 841, 836, 826, 820, 819,
     816, 813, 791, 745, 736, 735, 724, 719, 343, 334, 300, 28, 249, 230, 16, 1018,
     1016, 658, 1474, 696, 630, 663, 2307, 1552, 609, 741, 353, 638, 1551, 661, 491, 640,
     507, 673, 632, 1354, 9105, 6143, 676, 214, 14141, 182, 69, 27665, 1475, 97, 633, 560,
     799, 7009, 2015, 628, 751, 4480, 1403, 8123, 1527, 723, 1466, 1486, 1650, 991, 832, 137]"

definition port_popularity_nmap_29 :: "int list" where
  "port_popularity_nmap_29 =
    [1348, 685, 1762, 6701, 994, 4500, 194, 180, 1539, 1379, 51, 886, 2064, 1405, 1435, 11371,
     1401, 1369, 402, 103, 1372, 704, 854, 8892, 47557, 624, 1387, 3397, 1996, 1995, 1997, 18182,
     18184, 3264, 3292, 13720, 9107, 9106, 201, 1381, 35, 6588, 5530, 3141, 670, 970, 968, 964,
     963, 960, 959, 951, 947, 944, 939, 933, 909, 895, 891, 879, 869, 868, 867, 837,
     821, 812, 797, 796, 794, 788, 756, 734, 721, 718, 708, 703, 60, 40, 253, 231,
     14, 1017, 1003, 656, 975, 2026, 1497, 553, 511, 611, 689, 1668, 1664, 15, 561, 997,
     505, 1496, 637, 213, 1412, 1515, 692, 694, 681, 680, 644, 675, 1467, 454, 622, 1476,
     1373, 770, 262, 654, 1535, 58, 177, 26208, 677, 1519, 1398, 3457, 401, 412, 493, 13713]"

definition port_popularity_nmap_30 :: "int list" where
  "port_popularity_nmap_30 =
    [94, 1498, 871, 1390, 6145, 133, 362, 118, 193, 115, 1549, 7008, 608, 1426, 1436, 38,
     74, 73, 71, 601, 136, 4144, 129, 16444, 1446, 4132, 308, 1528, 1365, 1393, 1394, 1493,
     138, 5997, 397, 29, 31, 44, 2627, 6147, 1510, 568, 350, 2053, 6146, 6544, 1763, 3531,
     399, 1537, 1992, 1355, 1454, 261, 887, 200, 1376, 1424, 6111, 1410, 1409, 686, 5301, 5302,
     1513, 747, 9051, 1499, 7006, 1439, 1438, 8770, 853, 196, 93, 410, 462, 619, 1529, 1990,
     1994, 1986, 1386, 18183, 18181, 6700, 1442, 95, 6400, 1432, 1548, 486, 1422, 114, 1397, 6142,
     1827, 626, 422, 688, 206, 202, 204, 1483, 7634, 774, 699, 2023, 776, 672, 1545, 2431,
     697, 982, 978, 972, 966, 957, 956, 934, 920, 915, 908, 907, 892, 890, 885, 884]"

definition port_popularity_nmap_31 :: "int list" where
  "port_popularity_nmap_31 =
    [882, 877, 876, 865, 857, 852, 849, 842, 838, 827, 818, 793, 785, 784, 755, 746,
     738, 737, 717, 34, 336, 325, 303, 276, 273, 236, 235, 233, 181, 604, 1362, 712,
     1437, 2027, 1368, 1531, 645, 65301, 260, 536, 764, 698, 607, 1667, 1662, 1661, 404, 224,
     418, 176, 848, 315, 466, 403, 1456, 1479, 355, 763, 1472, 453, 759, 437, 2432, 120,
     415, 1544, 1511, 1538, 346, 173, 54, 56, 265, 1462, 13701, 1518, 1457, 117, 1470, 13715,
     13714, 267, 1419, 1418, 1407, 380, 518, 65, 391, 392, 413, 1391, 614, 1408, 162, 108,
     4987, 1502, 598, 582, 487, 530, 1509, 72, 4672, 189, 209, 270, 7464, 408, 191, 1459,
     5714, 5717, 5713, 564, 767, 583, 1395, 192, 1448, 428, 4133, 1416, 773, 1458, 526, 1363]"

definition port_popularity_nmap_32 :: "int list" where
  "port_popularity_nmap_32 =
    [742, 1464, 1427, 1482, 569, 571, 6141, 351, 3984, 5490, 2, 13718, 373, 17300, 910, 148,
     7326, 271, 423, 1451, 480, 1430, 1429, 781, 383, 2564, 613, 612, 652, 5303, 1383, 128,
     19150, 1453, 190, 1505, 1371, 533, 27009, 27007, 27005, 27003, 27002, 744, 1423, 1374, 141, 1440,
     1396, 352, 96, 48, 552, 570, 217, 528, 452, 451, 2766, 2108, 132, 1993, 1987, 130,
     18187, 216, 3421, 142, 13721, 67, 15151, 364, 1411, 205, 6548, 124, 116, 5193, 258, 485,
     599, 149, 1469, 775, 2019, 516, 986, 977, 976, 955, 954, 937, 932, 8, 896, 893,
     845, 768, 766, 739, 337, 329, 326, 305, 295, 294, 293, 289, 288, 277, 238, 234,
     229, 228, 226, 522, 2028, 150, 572, 596, 420, 460, 1543, 358, 361, 470, 360, 457]"

definition port_popularity_nmap_33 :: "int list" where
  "port_popularity_nmap_33 =
    [643, 322, 168, 753, 369, 185, 43188, 1541, 1540, 752, 496, 662, 1449, 1480, 1473, 184,
     1672, 1671, 1670, 435, 434, 1532, 1360, 174, 472, 1361, 17007, 414, 535, 432, 479, 473,
     151, 1542, 438, 1488, 1508, 618, 316, 1367, 439, 284, 542, 370, 2016, 248, 1491, 44123,
     41230, 7173, 5670, 18136, 3925, 7088, 1425, 17755, 17756, 4072, 5841, 2102, 4123, 2989, 10051, 10050,
     31029, 3726, 9978, 9925, 6061, 6058, 6057, 6056, 6054, 6053, 6049, 6048, 6047, 6046, 6045, 6044,
     6043, 6042, 6041, 6040, 6039, 6038, 6037, 6036, 6035, 6034, 6033, 6032, 6031, 6029, 6028, 6027,
     6026, 6024, 6023, 6022, 6020, 6019, 6018, 6016, 6014, 6013, 6012, 6011, 36462, 5793, 3423, 3424,
     4095, 3646, 3510, 3722, 3651, 14500, 3865, 15345, 3763, 38422, 3877, 9092, 5344, 2341, 6116, 2157]"

definition port_popularity_nmap_34 :: "int list" where
  "port_popularity_nmap_34 =
    [165, 6936, 8041, 4888, 4889, 3074, 2165, 4389, 5770, 5769, 16619, 11876, 11877, 3741, 3633, 3840,
     3717, 3716, 3590, 2805, 4537, 9762, 5007, 5006, 5358, 4879, 6114, 4185, 2784, 3724, 2596, 2595,
     4417, 4845, 22321, 22289, 3219, 1338, 36411, 3861, 5166, 3674, 1785, 534, 6602, 47001, 5363, 8912,
     2231, 5747, 5748, 11208, 7236, 4049, 4050, 22347, 63, 3233, 3359, 4177, 48050, 3111, 3427, 5321,
     5320, 3702, 2907, 8991, 8990, 2054, 4847, 9802, 9800, 4368, 5990, 3563, 5744, 5743, 12321, 12322,
     9206, 9204, 9205, 9201, 9203, 2949, 2948, 6626, 8199, 4145, 3482, 2216, 13708, 3786, 3375, 7566,
     2539, 2387, 3317, 2410, 2255, 3883, 4299, 4296, 4295, 4293, 4292, 4291, 4290, 4289, 4288, 4287,
     4286, 4285, 4284, 4283, 4282, 4281, 4280, 4278, 4277, 4276, 4275, 4274, 4273, 4272, 4271, 4270]"

definition port_popularity_nmap_35 :: "int list" where
  "port_popularity_nmap_35 =
    [4269, 4268, 4267, 4266, 4265, 4264, 4263, 4261, 4260, 4259, 4258, 4257, 4256, 4255, 4254, 4253,
     4251, 4250, 4249, 4248, 4247, 4246, 4245, 4244, 4241, 4240, 4239, 4238, 4237, 4236, 4235, 4233,
     4232, 4231, 4230, 4229, 4228, 4227, 4226, 4225, 4223, 4222, 4221, 4219, 4218, 4217, 4216, 4215,
     4214, 4213, 4212, 4211, 4210, 4209, 4208, 4207, 4205, 4204, 4203, 4202, 4201, 2530, 5164, 28200,
     3845, 3541, 4052, 21590, 1796, 25793, 8699, 8182, 4991, 2474, 5780, 3676, 24249, 1631, 6672, 6673,
     3601, 5046, 3509, 1852, 2386, 8473, 7802, 4789, 3555, 12013, 12012, 3752, 3245, 3231, 16666, 6678,
     17184, 9086, 9598, 3073, 2074, 1956, 2610, 3738, 2994, 2993, 2802, 1885, 14149, 13786, 10100, 9284,
     14150, 10107, 4032, 2821, 3207, 14154, 24323, 2771, 5646, 2426, 18668, 2554, 4188, 3654, 8034, 5675]"

definition port_popularity_nmap_36 :: "int list" where
  "port_popularity_nmap_36 =
    [15118, 4031, 2529, 2248, 1142, 19194, 433, 3534, 3664, 2537, 519, 2655, 4184, 1506, 3098, 7887,
     37654, 1979, 9629, 2357, 1889, 3314, 3313, 4867, 2696, 3217, 6306, 1189, 5281, 8953, 1910, 13894,
     372, 3720, 1382, 2542, 3584, 4034, 145, 27999, 3791, 21800, 2670, 3492, 24678, 34249, 39681, 1846,
     5197, 5462, 5463, 2862, 2977, 2978, 3468, 2675, 3474, 4422, 12753, 13709, 2573, 3012, 4307, 4725,
     3346, 3686, 4070, 9555, 4711, 4323, 4322, 10200, 7727, 3608, 3959, 2405, 3858, 3857, 24322, 6118,
     4176, 6442, 8937, 17224, 17225, 33434, 1906, 22351, 2158, 5153, 3885, 24465, 3040, 20167, 8066, 474,
     2739, 3308, 590, 3309, 7902, 7901, 7903, 20046, 5582, 5583, 7872, 13716, 13717, 13705, 6252, 2915,
     1965, 3459, 3160, 3754, 3243, 10261, 7932, 7933, 5450, 11971, 379, 7548, 1832, 3805, 3805, 16789]"

definition port_popularity_nmap_37 :: "int list" where
  "port_popularity_nmap_37 =
    [8320, 8321, 4423, 2296, 7359, 7358, 7357, 7356, 7355, 7354, 7353, 7352, 7351, 7350, 7349, 7348,
     7347, 7346, 7344, 7343, 7342, 7341, 7340, 7339, 7338, 7337, 7336, 7335, 7334, 7333, 7332, 7331,
     7330, 7329, 7328, 7327, 7324, 7323, 7322, 7321, 7319, 7318, 7317, 7316, 7315, 7314, 7313, 7312,
     7311, 7310, 7309, 7308, 7307, 7306, 7305, 7304, 7303, 7302, 7301, 8140, 5196, 5195, 6130, 5474,
     5471, 5472, 5470, 4146, 3713, 5048, 31457, 7631, 3544, 41121, 11600, 3696, 3696, 3549, 1380, 22951,
     22800, 3521, 2060, 6083, 9668, 3552, 1814, 1977, 2576, 2729, 24680, 13710, 13712, 25900, 2403, 2402,
     2470, 5203, 3579, 2306, 1450, 7015, 7012, 7011, 22763, 2156, 2493, 4019, 4018, 4017, 4015, 2392,
     3175, 32249, 1627, 10104, 2609, 5406, 3251, 4094, 3241, 6514, 6418, 3734, 2679, 4953, 5008, 2880]"

definition port_popularity_nmap_38 :: "int list" where
  "port_popularity_nmap_38 =
    [8243, 8280, 26133, 8555, 5629, 3547, 5639, 5638, 5637, 5115, 3723, 4950, 3895, 3894, 3491, 3318,
     6419, 3185, 243, 3212, 9536, 1925, 11171, 8404, 8405, 8989, 6787, 6483, 3867, 3866, 1860, 1870,
     5306, 3816, 7588, 6786, 2084, 11165, 11161, 11163, 11162, 11164, 3708, 4850, 7677, 16959, 247, 3478,
     5349, 3854, 5397, 7411, 9612, 11173, 9293, 5027, 5026, 5705, 8778, 527, 1312, 8808, 6144, 4157,
     4156, 3249, 7471, 3615, 2154, 45966, 17235, 3018, 38800, 2737, 156, 3807, 2876, 1759, 7981, 3606,
     3647, 3438, 4683, 9306, 9312, 7016, 33334, 3413, 3834, 3835, 2440, 6121, 2568, 17185, 7982, 2290,
     2569, 2863, 1964, 4738, 2132, 17777, 16162, 6551, 3230, 4538, 3884, 9282, 9281, 4882, 5146, 580,
     1967, 2659, 2409, 5416, 2657, 3380, 5417, 2658, 5161, 5162, 10162, 10161, 33656, 7560, 2599, 2704]"

definition port_popularity_nmap_39 :: "int list" where
  "port_popularity_nmap_39 =
    [2703, 4170, 7734, 9522, 3158, 4426, 4786, 2721, 1608, 3516, 4988, 4408, 1847, 36423, 2826, 2827,
     3556, 6456, 6455, 3874, 3611, 2629, 2630, 166, 5059, 3110, 1733, 40404, 2257, 2278, 4750, 4303,
     3688, 4751, 5794, 4752, 7626, 16950, 3273, 3896, 3635, 1959, 4753, 2857, 4163, 1659, 2905, 2904,
     2733, 4936, 5032, 3048, 28240, 2320, 4742, 22335, 5043, 4105, 1257, 3841, 43210, 4366, 5163, 11106,
     5434, 6444, 6445, 5634, 5636, 5635, 6343, 4546, 3242, 5568, 4057, 24666, 21221, 6488, 6484, 6486,
     6485, 6487, 6443, 6480, 6489, 2603, 4787, 2367, 9212, 9213, 5445, 45824, 8351, 13711, 4076, 5099,
     2316, 3588, 5093, 9450, 8056, 8055, 8054, 8059, 8058, 8057, 8053, 3090, 3255, 2254, 2479, 2477,
     2478, 3496, 3495, 2089, 38865, 9026, 9025, 9024, 9023, 3480, 1905, 3550, 7801, 2189, 5361, 32635]"

definition port_popularity_nmap_40 :: "int list" where
  "port_popularity_nmap_40 =
    [3782, 3432, 3978, 6629, 3143, 7784, 2342, 2309, 2705, 2310, 2384, 6315, 5343, 9899, 5168, 5167,
     3927, 266, 2577, 5307, 3838, 19007, 7708, 37475, 7701, 5435, 3499, 2719, 3352, 25576, 3942, 1644,
     3755, 5574, 5573, 7542, 1129, 4079, 3038, 4033, 9401, 9402, 20012, 20013, 30832, 1606, 5410, 5422,
     5409, 9801, 7743, 14034, 14033, 4952, 3452, 2760, 3153, 23272, 2578, 5156, 8554, 7401, 3771, 3138,
     3137, 3500, 6900, 363, 3455, 1698, 13217, 2752, 3863, 3864, 10201, 6568, 2377, 3677, 520, 2258,
     4124, 8051, 2223, 3194, 4041, 48653, 8270, 5693, 25471, 2416, 9208, 7810, 7870, 2249, 7473, 4664,
     4590, 2777, 2776, 2057, 6148, 3296, 4410, 4684, 8230, 5842, 1431, 12109, 4756, 4336, 324, 323,
     3019, 39, 2225, 4733, 30100, 2999, 3422, 107, 1232, 3418, 3537, 5, 8184, 3789, 5231, 4731]"

definition port_popularity_nmap_41 :: "int list" where
  "port_popularity_nmap_41 =
    [4373, 45045, 3974, 12302, 2373, 6084, 16665, 16385, 18635, 18634, 10253, 7227, 3572, 3032, 5786, 2346,
     2348, 2347, 2349, 45002, 3553, 43191, 5313, 3707, 3706, 3736, 32811, 1942, 44553, 35001, 35002, 35005,
     35006, 35003, 35004, 532, 2214, 5569, 3142, 2332, 3768, 2774, 2773, 6099, 2167, 2714, 2713, 3533,
     4037, 2457, 1953, 9345, 21553, 2408, 2736, 2188, 18104, 1813, 469, 1596, 3178, 5430, 5676, 2177,
     4841, 5028, 7980, 3166, 3554, 3566, 3843, 5677, 7040, 2589, 8153, 10055, 5464, 2497, 4354, 9222,
     5083, 5082, 45825, 2612, 5689, 6209, 2523, 2490, 2468, 3543, 7794, 4193, 4951, 3951, 4093, 7747,
     7997, 8117, 6140, 4329, 320, 319, 597, 3453, 4457, 2303, 5360, 4487, 409, 344, 1460, 5716,
     5715, 9640, 7663, 7798, 7797, 4352, 15999, 34962, 34963, 34964, 4749, 8032, 4182, 4182, 1283, 1778]"

definition port_popularity_nmap_42 :: "int list" where
  "port_popularity_nmap_42 =
    [3248, 2722, 2039, 3650, 3133, 2618, 4168, 10631, 1392, 3910, 6716, 47809, 4690, 9280, 6163, 2315,
     3607, 5630, 4455, 4456, 1587, 28001, 5134, 13224, 13223, 5507, 2443, 4150, 7172, 3710, 9889, 6464,
     7787, 6771, 6770, 3055, 2487, 16310, 16311, 3540, 34379, 34378, 2972, 7633, 6355, 188, 2790, 32400,
     4351, 3934, 3933, 4659, 1819, 5586, 5863, 9318, 318, 5318, 2634, 4416, 5078, 3189, 3010, 15740,
     1603, 2787, 4390, 468, 4869, 4868, 3177, 3347, 6124, 2350, 3208, 2520, 2441, 3109, 3557, 281,
     1916, 4313, 5312, 4066, 345, 9630, 9631, 6817, 3582, 9279, 9278, 3587, 4747, 2178, 5112, 3135,
     5443, 7880, 1980, 6086, 3254, 4012, 9597, 3253, 2274, 2299, 8444, 6655, 44322, 44321, 5351, 5350,
     5172, 4172, 1332, 2256, 8129, 8128, 4097, 8161, 2665, 2664, 6162, 4189, 1333, 3735, 586, 6581]"

definition port_popularity_nmap_43 :: "int list" where
  "port_popularity_nmap_43 =
    [6582, 4681, 4312, 4989, 7216, 3348, 7680, 8276, 3095, 6657, 30002, 7237, 3435, 2246, 1675, 31400,
     4311, 6671, 6679, 3034, 40853, 11103, 3274, 3355, 3078, 3075, 3076, 8070, 2484, 2483, 3891, 1571,
     1830, 1630, 8997, 8102, 2482, 2481, 5155, 5575, 3718, 22005, 22004, 22003, 22002, 2524, 1829, 2237,
     3977, 3976, 3303, 19191, 3433, 5724, 2400, 7629, 6640, 2389, 30999, 2447, 3673, 7430, 7429, 7426,
     7431, 7428, 7427, 9390, 35357, 7728, 8004, 5045, 8688, 1258, 5757, 5729, 5767, 5766, 5755, 5768,
     4743, 9008, 9007, 3187, 20014, 4089, 3434, 4840, 4843, 3100, 314, 3154, 9994, 9993, 4304, 2428,
     2199, 2198, 2185, 4428, 4429, 4162, 4395, 2056, 5402, 3340, 3339, 3341, 3338, 7275, 7274, 7277,
     7276, 4359, 2077, 9966, 4732, 3320, 11175, 11174, 11172, 13706, 3523, 429, 2697, 18186, 3442, 3441]"

definition port_popularity_nmap_44 :: "int list" where
  "port_popularity_nmap_44 =
    [29167, 36602, 7030, 1894, 28000, 126, 4420, 2184, 3780, 49001, 4128, 8711, 10810, 45001, 5415, 4453,
     359, 3266, 36424, 2868, 7724, 396, 2645, 23402, 23400, 23401, 3016, 21010, 5215, 4663, 4803, 2338,
     15126, 5209, 3406, 3405, 5627, 4088, 2210, 2244, 2817, 10111, 10110, 1242, 5299, 2252, 3649, 6421,
     6420, 1617, 48001, 48002, 48003, 48005, 48004, 48000, 61, 4134, 38412, 20048, 7393, 4021, 178, 8457,
     550, 2058, 2075, 2076, 3165, 6133, 2614, 2585, 4702, 4701, 2586, 3203, 3204, 16361, 16367, 16360,
     16368, 4159, 170, 2293, 4703, 8981, 3409, 7549, 171, 20049, 1155, 537, 3196, 3195, 2411, 2788,
     4127, 6777, 6778, 1879, 5421, 3440, 2128, 21846, 21849, 21847, 21848, 395, 154, 155, 4425, 2328,
     3129, 3641, 3640, 1970, 2486, 2485, 6842, 6841, 3149, 3148, 3150, 3151, 1406, 218, 10116, 10114]"

definition port_popularity_nmap_45 :: "int list" where
  "port_popularity_nmap_45 =
    [2219, 2735, 10117, 10113, 2220, 3725, 5229, 4350, 6513, 4335, 4334, 5681, 1676, 2971, 4409, 3131,
     4441, 1612, 1616, 1613, 1614, 13785, 11104, 11105, 3829, 11095, 3507, 3213, 7474, 3886, 4043, 2730,
     377, 378, 3024, 2738, 2738, 2528, 4844, 4842, 5979, 1888, 2093, 2094, 20034, 2163, 3159, 6317,
     4361, 2895, 3753, 2343, 3015, 1790, 3950, 6363, 9286, 9285, 7282, 6446, 2273, 33060, 2388, 9119,
     3733, 32801, 4421, 7420, 9903, 6622, 5354, 7742, 2305, 2791, 8115, 3122, 2855, 2871, 4554, 2171,
     2172, 2173, 2174, 3343, 7392, 3958, 3358, 46, 6634, 8503, 3924, 2488, 10544, 10543, 10541, 10540,
     10542, 4691, 8666, 1576, 4986, 6997, 3732, 4688, 7871, 9632, 7869, 2593, 3764, 5237, 4668, 4173,
     4667, 8077, 4310, 7606, 5136, 4069, 21554, 7391, 9445, 2180, 3180, 2621, 4551, 3008, 7013, 7014]"

definition port_popularity_nmap_46 :: "int list" where
  "port_popularity_nmap_46 =
    [5362, 6601, 1512, 5356, 6074, 5726, 5364, 5725, 6076, 6075, 2175, 3132, 5359, 2176, 5022, 4679,
     4680, 6509, 2266, 6382, 2230, 6390, 6370, 6360, 393, 2311, 8787, 18, 8786, 47000, 19788, 1960,
     9596, 4603, 4151, 4552, 11211, 3569, 4883, 3571, 2944, 2945, 2272, 7720, 5157, 3445, 2427, 2727,
     2363, 46999, 2789, 13930, 3232, 2688, 3235, 5598, 3115, 3117, 3116, 3331, 3332, 3302, 3330, 3558,
     8809, 3570, 4153, 2591, 4179, 4171, 3276, 4360, 4458, 7421, 49000, 7073, 3836, 5282, 8384, 36700,
     4686, 269, 9255, 6201, 2544, 2516, 2864, 5092, 2243, 4902, 313, 3691, 2453, 4345, 44900, 36444,
     3565, 36443, 4894, 3747, 3746, 5044, 6471, 3079, 4913, 4741, 10805, 3487, 3068, 8162, 4083, 4082,
     4081, 7026, 1983, 2289, 1629, 1628, 1634, 8101, 6482, 5254, 5058, 4044, 3591, 3592, 1903, 5062]"

definition port_popularity_nmap_47 :: "int list" where
  "port_popularity_nmap_47 =
    [6087, 2090, 2465, 2466, 6200, 8208, 8207, 8204, 31620, 8205, 8206, 3278, 2145, 2143, 2147, 2146,
     3767, 46336, 10933, 4341, 1969, 10809, 12300, 8191, 517, 4670, 7365, 3028, 3027, 3029, 1203, 1886,
     11430, 374, 2212, 3407, 2816, 2779, 2815, 2780, 3373, 3739, 3815, 4347, 11796, 3970, 4547, 1764,
     2395, 4372, 4432, 9747, 4371, 3360, 3361, 4331, 40023, 27504, 2294, 5253, 7697, 35354, 186, 30260,
     4566, 584, 5696, 6623, 6620, 6621, 2502, 3112, 36865, 2918, 4661, 31016, 26262, 26263, 3642, 48048,
     5309, 3155, 4166, 27442, 6583, 3215, 3214, 8901, 19020, 4160, 3094, 3093, 3777, 1937, 1938, 1939,
     1940, 2097, 1936, 1810, 6244, 6243, 6242, 6241, 4107, 19541, 3529, 3528, 5230, 4327, 5883, 2205,
     7095, 3794, 3473, 3472, 7181, 5034, 3627, 8091, 1578, 5673, 5049, 4880, 3258, 2828, 3719, 7478]"

definition port_popularity_nmap_48 :: "int list" where
  "port_popularity_nmap_48 =
    [7280, 1636, 1637, 3775, 24321, 499, 3205, 1950, 1949, 3226, 8148, 5047, 4075, 17223, 21000, 3504,
     3206, 2632, 529, 4073, 32034, 18769, 2527, 4593, 4791, 7031, 33435, 4740, 4739, 4068, 20202, 4737,
     9214, 2215, 3743, 2088, 7410, 5728, 45054, 3614, 8020, 11751, 2202, 6697, 4744, 1884, 3699, 6714,
     1611, 7202, 4569, 3508, 24386, 16995, 16994, 16994, 1674, 1673, 7128, 4746, 17234, 9215, 4486, 484,
     5057, 5056, 7624, 2980, 4109, 49150, 215, 23005, 23004, 23003, 23002, 23001, 23000, 2716, 3560, 5597,
     134, 38001, 38000, 4067, 1428, 2480, 5029, 8067, 5069, 3156, 3139, 244, 7675, 7673, 7672, 7674,
     2637, 4139, 3783, 3657, 11320, 8615, 585, 48128, 2239, 3596, 2055, 3186, 19000, 5165, 3420, 17220,
     17221, 19998, 2404, 2079, 4152, 4604, 25604, 5742, 5741, 4553, 2799, 4801, 4802, 2063, 14143, 14142]"

definition port_popularity_nmap_49 :: "int list" where
  "port_popularity_nmap_49 =
    [4061, 4062, 4063, 4064, 31948, 31949, 2276, 2275, 1881, 2078, 3660, 3661, 1920, 1919, 9085, 424,
     1933, 1934, 9089, 9088, 3667, 3666, 12003, 12004, 3539, 3538, 3267, 385, 3494, 4594, 4595, 4596,
     3898, 9614, 4169, 5674, 2374, 5105, 8313, 44323, 5628, 2570, 2113, 4591, 4592, 5228, 5224, 5227,
     2207, 4484, 3037, 2209, 2448, 3101, 382, 381, 3209, 7510, 2206, 2690, 2208, 7738, 5565, 5317,
     3329, 3612, 5316, 3449, 2029, 1985, 10125, 2597, 3634, 8231, 3250, 43438, 4884, 4117, 2467, 4148,
     7397, 22370, 8807, 3921, 4306, 10860, 3740, 1161, 2641, 7630, 3804, 4197, 11108, 9954, 6791, 3623,
     3769, 3036, 5315, 5305, 3542, 5304, 11720, 2517, 3179, 2979, 2356, 3745, 18262, 2186, 35356, 3436,
     2152, 2123, 1452, 4729, 3761, 3136, 9339, 30400, 6267, 6269, 6268, 3757, 4755, 4754, 4026, 5117]"

definition port_popularity_nmap_50 :: "int list" where
  "port_popularity_nmap_50 =
    [9277, 2947, 3386, 2217, 37483, 16002, 5687, 2072, 1909, 9122, 9123, 4131, 3912, 3229, 1880, 5688,
     4332, 10800, 4985, 3108, 3475, 6080, 4790, 23053, 6081, 8190, 7017, 7283, 4730, 2159, 3429, 2660,
     14145, 3484, 3762, 3222, 8322, 1421, 1859, 31765, 2914, 3051, 38201, 8881, 4340, 8074, 2678, 2677,
     4110, 2731, 286, 3402, 3272, 1514, 3382, 1904, 1902, 3648, 2975, 574, 8502, 3488, 9217, 4130,
     7726, 5556, 7244, 41111, 4411, 4084, 2242, 4396, 4901, 7545, 7544, 27008, 27006, 27004, 5579, 2884,
     3035, 1193, 5618, 7018, 2673, 4086, 8043, 8044, 3192, 3729, 1855, 1856, 1784, 24922, 1887, 7164,
     4349, 7394, 16021, 16020, 6715, 4915, 4122, 3216, 14250, 3152, 1776, 36524, 4320, 4727, 3225, 2819,
     4038, 6417, 347, 3047, 2495, 10081, 38202, 2515, 2514, 4353, 38472, 10102, 4085, 3953, 4788, 3088]"

definition port_popularity_nmap_51 :: "int list" where
  "port_popularity_nmap_51 =
    [3134, 3639, 4309, 2755, 1928, 5075, 26486, 5401, 3759, 43440, 1926, 1982, 1798, 9981, 4536, 4535,
     1504, 592, 1267, 6935, 2036, 6316, 2221, 44818, 34980, 2380, 2379, 6107, 1772, 8416, 8417, 8266,
     4023, 3629, 9617, 3679, 3727, 4942, 4941, 4940, 43439, 3628, 3620, 5116, 3259, 4666, 4669, 3819,
     37601, 5084, 5085, 3383, 5599, 5600, 5601, 3665, 1818, 3044, 1295, 7962, 7117, 121, 17754, 6636,
     6635, 20480, 23333, 3585, 6322, 6321, 4091, 4092, 140, 6656, 3693, 11623, 11723, 13218, 3682, 3218,
     9083, 3197, 3198, 394, 2526, 7700, 7707, 2916, 2917, 4370, 6515, 12010, 5398, 3564, 4346, 1378,
     1893, 3525, 3638, 2228, 6632, 3392, 3671, 6159, 3462, 3461, 3464, 3465, 3460, 3463, 3123, 34567,
     8149, 6703, 6702, 2263, 3477, 3524, 6160, 17729, 3711, 45678, 2168, 3328, 38462, 3932, 3295, 2164]"

definition port_popularity_nmap_52 :: "int list" where
  "port_popularity_nmap_52 =
    [3395, 2874, 3246, 3247, 4191, 4028, 3489, 4556, 5684, 13929, 31685, 9987, 4060, 13819, 13820, 13821,
     13818, 13822, 2420, 7547, 3685, 2193, 4427, 1930, 8913, 7021, 7020, 5719, 5245, 6326, 6320, 6325,
     3522, 44544, 13400, 6088, 3568, 8567, 3567, 5567, 7165, 4142, 3161, 5352, 195, 1172, 5993, 3199,
     3574, 4059, 1177, 3624, 19999, 21212, 246, 5107, 14002, 7171, 3448, 3336, 3335, 3337, 198, 197,
     3447, 5031, 4605, 2464, 2227, 3223, 1335, 2226, 33333, 2762, 2761, 3227, 3228, 33331, 2861, 2860,
     2098, 4301, 3252, 547, 546, 6785, 8750, 4330, 3776, 24850, 8805, 2763, 4167, 2092, 3444, 8415,
     3714, 1278, 5700, 3668, 7569, 365, 8894, 8893, 8891, 8890, 11202, 3988, 1160, 3938, 6117, 6624,
     6625, 2073, 461, 3578, 11109, 2229, 1775, 2764, 3678, 6511, 1133, 29999, 2594, 3881, 3498, 8732]"

definition port_popularity_nmap_53 :: "int list" where
  "port_popularity_nmap_53 =
    [5777, 3394, 3393, 2298, 2297, 9388, 9387, 3120, 3297, 1898, 8442, 9888, 4183, 4673, 3778, 5271,
     3127, 1932, 4451, 2563, 4452, 9346, 7022, 3631, 3630, 105, 3271, 2699, 3004, 2129, 4187, 3113,
     2314, 8380, 8377, 8376, 8379, 8378, 3818, 41797, 41796, 38002, 3364, 3366, 2824, 2823, 3609, 4055,
     4054, 4053, 2654, 19220, 9093, 3183, 2565, 4078, 4774, 2153, 17222, 7551, 7563, 3072, 4047, 9695,
     4846, 5992, 5683, 4692, 3191, 3417, 7169, 3973, 46998, 16384, 3947, 47100, 6970, 2491, 7023, 10321,
     42508, 3822, 2417, 2555, 3257, 3256, 22343, 64, 7215, 20003, 4450, 3751, 3605, 2534, 3490, 4419,
     7689, 7574, 3377, 3779, 44444, 3039, 2415, 2183, 26257, 3576, 3575, 2976, 7168, 8501, 164, 3384,
     7550, 45514, 356, 2617, 3730, 6688, 6687, 6690, 7683, 2052, 3481, 4136, 4137, 9087, 172, 1729]"

definition port_popularity_nmap_54 :: "int list" where
  "port_popularity_nmap_54 =
    [4980, 7229, 7228, 24754, 2897, 7279, 2512, 2513, 4870, 22305, 5787, 6633, 131, 15555, 4051, 4785,
     43441, 5784, 7546, 3887, 5194, 1743, 2891, 3770, 1377, 4316, 4314, 3099, 1572, 1891, 1892, 3349,
     18241, 18243, 18242, 18185, 5505, 562, 531, 3772, 5065, 5064, 2182, 3893, 2921, 2922, 4074, 4140,
     4115, 3056, 3616, 3559, 4970, 4969, 3114, 3157, 3750, 12168, 2122, 7129, 7162, 7167, 5270, 1197,
     9060, 3106, 5247, 5246, 3290, 4728, 8998, 8610, 8609, 3756, 8614, 8613, 8612, 8611, 1872, 3583,
     24676, 4377, 5079, 4378, 1734, 3545, 7262, 3675, 2552, 22537, 3709, 14414, 5251, 1882, 42509, 2318,
     4326, 1563, 7163, 1554, 7161, 595, 348, 282, 8026, 5249, 5248, 5154, 10880, 3626, 4990, 3107,
     6410, 6409, 6408, 6407, 6406, 6405, 6404, 4677, 581, 4671, 2964, 2965, 28589, 47808, 3966, 2446]"

definition port_popularity_nmap_55 :: "int list" where
  "port_popularity_nmap_55 =
    [1854, 1961, 2444, 2277, 4175, 3188, 3043, 9380, 3692, 5682, 2155, 4104, 4103, 4102, 3593, 2845,
     2844, 4186, 2218, 4678, 2017, 2913, 7648, 4914, 7687, 6501, 9750, 3344, 1896, 4568, 10128, 6768,
     6767, 3182, 1313, 3181, 2059, 3604, 6300, 10129, 3695, 6301, 2494, 2625, 48129, 8195, 2574, 5750,
     13823, 13216, 4027, 5068, 25955, 25954, 6946, 3411, 24577, 5429, 4621, 6784, 4676, 4675, 4784, 3785,
     5425, 5424, 4305, 3960, 3408, 5584, 5585, 1943, 3124, 6508, 6507, 4155, 1120, 1929, 4324, 10439,
     6506, 6505, 6122, 4971, 3387, 152, 2635, 2169, 6696, 2204, 3512, 2071, 10260, 35100, 3277, 3502,
     2066, 2238, 4413, 20057, 2992, 2050, 3965, 10990, 31020, 4685, 1140, 7508, 16003, 5913, 4071, 3104,
     3437, 5067, 33123, 1146, 44600, 2264, 7543, 2419, 32896, 2317, 3821, 4937, 1520, 11367, 4154, 3617]"

definition port_popularity_nmap_56 :: "int list" where
  "port_popularity_nmap_56 =
    [20999, 1170, 1171, 27876, 4485, 4704, 7235, 3087, 45000, 4405, 4404, 4406, 4402, 4403, 4400, 5727,
     11489, 2192, 4077, 4448, 3581, 5150, 13702, 3863, 3864, 3451, 386, 8211, 7166, 3518, 27782, 3176,
     9292, 3174, 9295, 9294, 3426, 8423, 3140, 7570, 421, 2114, 6344, 2581, 2582, 11321, 384, 23546,
     1834, 1115, 4165, 1557, 3758, 7847, 5086, 4849, 2037, 1447, 3312, 187, 4488, 2336, 387, 208,
     207, 203, 3454, 10548, 4674, 38203, 3239, 3236, 3237, 3238, 4573, 2758, 10252, 2759, 8121, 2754,
     8122, 3184, 539, 6082, 18888, 9952, 9951, 7846, 7845, 6549, 5456, 5455, 5454, 4851, 5072, 3939,
     2247, 1206, 3715, 2646, 3054, 5671, 8040, 376, 2640, 30004, 30003, 5192, 4393, 4392, 4391, 4394,
     1931, 5506, 8301, 4563, 35355, 4011, 7799, 3265, 9209, 693, 36001, 9956, 9955, 6627, 3234, 2667]"

definition port_popularity_nmap_57 :: "int list" where
  "port_popularity_nmap_57 =
    [2668, 3613, 4804, 2887, 3416, 3833, 9216, 2846, 17555, 2786, 3316, 3021, 3026, 4878, 3917, 4362,
     7775, 3224, 23457, 23456, 4549, 4431, 2295, 3573, 5073, 3760, 3357, 3954, 3705, 3704, 2692, 6769,
     7170, 2521, 2085, 3096, 2810, 2859, 3431, 9389, 3655, 5106, 5103, 7509, 6801, 4013, 5540, 2476,
     2475, 2334, 12007, 12008, 6868, 4046, 18463, 32483, 4030, 8793, 2259, 62, 1955, 3781, 3619, 3618,
     28119, 4726, 4502, 4597, 4598, 3598, 3597, 3125, 4149, 9953, 23294, 2933, 2934, 5783, 5782, 5785,
     5781, 15363, 48049, 2339, 5265, 5264, 1181, 3446, 3428, 15998, 3091, 2133, 3774, 317, 3832, 508,
     3721, 1619, 1716, 2279, 3412, 2327, 6558, 2130, 1760, 5413, 2396, 2923, 3378, 3466, 2504, 2720,
     4871, 7395, 3926, 1727, 1326, 2518, 1890, 2781, 565, 4984, 3342, 21845, 1963, 2851, 3748, 1739]"

definition port_popularity_nmap_58 :: "int list" where
  "port_popularity_nmap_58 =
    [1269, 2455, 2547, 2548, 2546, 13882, 7779, 2695, 312, 2996, 2893, 1589, 2649, 1224, 1345, 3625,
     2538, 3321, 175, 1868, 4344, 1853, 3058, 3802, 78, 2770, 3270, 575, 1771, 4839, 4838, 4837,
     671, 430, 431, 2745, 2648, 3356, 1957, 2820, 1978, 2927, 2499, 2437, 2138, 2110, 1797, 1737,
     483, 390, 1867, 1624, 1833, 2879, 2767, 2768, 2943, 1568, 2489, 1237, 2741, 2742, 8804, 1588,
     6069, 1869, 2642, 20670, 594, 2885, 2669, 476, 2798, 3083, 3082, 3081, 2361, 5104, 1758, 7491,
     1728, 5428, 1946, 559, 1610, 3144, 1922, 2726, 6149, 1838, 4014, 1274, 2647, 4106, 6102, 4548,
     19540, 1866, 6965, 6966, 6964, 6963, 1751, 1625, 5453, 2709, 7967, 3354, 566, 4178, 2986, 1226,
     1836, 1654, 2838, 1692, 3644, 6071, 477, 478, 2507, 1923, 3193, 2653, 2636, 1621, 3379, 2533]"

definition port_popularity_nmap_59 :: "int list" where
  "port_popularity_nmap_59 =
    [2892, 2452, 1684, 2333, 22000, 1553, 3536, 11201, 2775, 2942, 2941, 2940, 2939, 2938, 2613, 426,
     4116, 4412, 1966, 3065, 1225, 1705, 1618, 1660, 2545, 2676, 3687, 2756, 1599, 2832, 2831, 2830,
     2829, 5461, 2974, 498, 1626, 3595, 160, 153, 3326, 1714, 3172, 3173, 3171, 3170, 3169, 2235,
     6108, 169, 5399, 2471, 558, 2308, 1681, 2385, 3562, 5024, 5025, 5427, 3391, 3744, 1646, 3275,
     3698, 2390, 1793, 1647, 1697, 1693, 1695, 1696, 2919, 9599, 2423, 3844, 2959, 2818, 1817, 521,
     3147, 3163, 2886, 283, 2837, 2543, 2928, 2240, 1343, 2321, 3467, 9753, 1530, 2872, 1595, 2900,
     1341, 2935, 3059, 2724, 3385, 2765, 368, 2461, 2462, 1253, 2680, 3009, 2434, 2694, 2351, 2353,
     2354, 1788, 2352, 3662, 2355, 2091, 1732, 8183, 1678, 2588, 2924, 2687, 5071, 1777, 2899, 494]"

definition port_popularity_nmap_60 :: "int list" where
  "port_popularity_nmap_60 =
    [3875, 2937, 5437, 5436, 3469, 3285, 1293, 5272, 2865, 321, 1280, 1779, 6432, 1230, 2843, 3033,
     2566, 1562, 3085, 3892, 1246, 1564, 8160, 1633, 9997, 9996, 7511, 5236, 3955, 2956, 2954, 2953,
     5310, 2951, 2936, 6951, 2413, 2407, 1597, 1570, 2398, 1809, 1575, 1754, 1748, 22001, 3855, 2368,
     8764, 6653, 5314, 2267, 3244, 2661, 2364, 506, 2322, 2498, 3305, 183, 650, 2329, 5991, 1463,
     159, 8450, 1917, 1921, 2839, 2503, 25903, 25901, 25902, 2556, 2672, 1690, 2360, 2671, 1669, 1665,
     1286, 4138, 2592, 61441, 61439, 61440, 2983, 5465, 1843, 1842, 1841, 2061, 1329, 2451, 3701, 3066,
     2442, 5771, 2450, 489, 8834, 1285, 3262, 2881, 2883, 43189, 6064, 1591, 1744, 405, 2397, 2683,
     3062, 2162, 1288, 2286, 2236, 167, 1685, 1831, 2981, 467, 1574, 2743, 19398, 2469, 2460, 1477]"

definition port_popularity_nmap_61 :: "int list" where
  "port_popularity_nmap_61 =
    [1478, 5720, 3535, 1582, 1731, 679, 2684, 2686, 2681, 2685, 1952, 9397, 9344, 2952, 2579, 2561,
     1235, 367, 8665, 471, 2926, 1815, 7786, 8033, 1581, 7979, 1534, 490, 3070, 349, 1824, 2511,
     1897, 6070, 2118, 2117, 1231, 24003, 24004, 24006, 24000, 3594, 24002, 24001, 24005, 5418, 2698, 8763,
     1820, 1899, 2587, 8911, 8910, 1593, 2535, 4181, 2559, 3069, 2620, 1298, 2540, 2541, 2125, 1487,
     2283, 2284, 2285, 2281, 2282, 2813, 5355, 2814, 2795, 1555, 1968, 2611, 245, 4042, 1682, 1485,
     2560, 2841, 2370, 2842, 2840, 398, 2424, 1773, 1649, 287, 2656, 2213, 2822, 1289, 3471, 3470,
     3042, 4114, 6962, 6961, 1567, 2808, 1706, 2406, 2508, 2506, 1623, 13160, 2166, 2866, 2982, 1275,
     1573, 4348, 1828, 3084, 1609, 2853, 3589, 147, 3501, 1643, 1642, 1245, 43190, 2962, 2963, 576]"

definition port_popularity_nmap_62 :: "int list" where
  "port_popularity_nmap_62 =
    [2549, 1579, 1585, 503, 1907, 3202, 3548, 3060, 2652, 2633, 16991, 495, 1602, 1490, 2793, 18881,
     2854, 2319, 2233, 3345, 2454, 8130, 8131, 2127, 2970, 2932, 3164, 1710, 11319, 27345, 2801, 1284,
     2995, 3797, 2966, 2590, 549, 1725, 2337, 3130, 5813, 25008, 25007, 25006, 25005, 25004, 25003, 25002,
     25009, 6850, 1344, 1604, 8733, 2572, 1260, 1586, 1726, 6999, 6998, 2140, 2139, 2141, 1577, 4180,
     4827, 1877, 2715, 19412, 19410, 19411, 5404, 5403, 2985, 1803, 2744, 6790, 2575, 12172, 1789, 35000,
     1281, 14937, 14936, 263, 375, 5094, 1816, 2245, 1238, 2778, 9321, 2643, 2421, 488, 1850, 2458,
     41, 2519, 6109, 1774, 2833, 3862, 3381, 1590, 2626, 1738, 2732, 19539, 2849, 2358, 1786, 1787,
     1657, 2429, 1747, 1746, 5408, 5407, 2359, 24677, 1874, 2946, 2509, 1873, 2747, 2751, 2750, 2748]"

definition port_popularity_nmap_63 :: "int list" where
  "port_popularity_nmap_63 =
    [2749, 9396, 3067, 1848, 9374, 2510, 2615, 1689, 4682, 3350, 24242, 3401, 3294, 3293, 5503, 5504,
     5746, 5745, 2344, 7437, 3353, 2689, 3873, 1561, 1915, 2792, 10103, 26260, 26261, 589, 1948, 2666,
     26489, 26487, 2769, 2674, 6066, 1876, 2835, 2834, 2782, 16309, 2969, 2867, 2797, 2950, 1822, 1342,
     5135, 2650, 2109, 2051, 2912, 309, 1865, 3289, 1804, 3286, 1740, 2211, 2707, 1273, 2181, 2553,
     2896, 2858, 3610, 2651, 1325, 2445, 1265, 3053, 1292, 1878, 4098, 1780, 1795, 4099, 1821, 2151,
     1227, 436, 2287, 32636, 1489, 1263, 5419, 3041, 2496, 3287, 6073, 2234, 242, 1844, 2362, 11112,
     1941, 3046, 1945, 6072, 2960, 5426, 2753, 3298, 1702, 1256, 1254, 1266, 2562, 1656, 1655, 579,
     1255, 1415, 2365, 2345, 6104, 8132, 1908, 3282, 1857, 1679, 2870, 3458, 5420, 772, 3645, 551]"

definition port_popularity_nmap_64 :: "int list" where
  "port_popularity_nmap_64 =
    [1686, 3773, 4379, 1851, 3022, 2807, 2890, 1837, 2955, 3145, 1471, 1468, 40841, 40842, 40843, 1724,
     2422, 6253, 455, 2746, 3201, 5984, 2324, 3288, 5412, 2137, 1648, 1802, 4308, 2459, 48556, 2757,
     1757, 1294, 7174, 1944, 371, 504, 1741, 2931, 3020, 17219, 3903, 1768, 1767, 1766, 1765, 2856,
     1640, 1639, 1794, 3987, 2571, 2412, 3315, 2116, 3061, 2836, 3450, 3105, 1756, 9283, 2906, 588,
     1202, 1375, 2803, 2536, 1252, 2619, 1323, 2990, 1304, 2961, 6402, 6403, 3561, 1770, 1769, 2877,
     10288, 2911, 2032, 2663, 2662, 1962, 310, 357, 354, 482, 2414, 2852, 1951, 1704, 3327, 573,
     567, 2708, 2131, 2772, 3643, 2812, 1749, 5042, 1913, 2624, 1826, 2136, 2616, 9164, 9163, 9162,
     1781, 2929, 1320, 2848, 2268, 459, 1536, 2639, 6831, 10080, 1845, 1653, 1849, 463, 2740, 2473]"

definition port_popularity_nmap_65 :: "int list" where
  "port_popularity_nmap_65 =
    [2783, 1481, 2785, 2331, 7107, 1219, 3279, 5411, 2796, 2149, 7781, 1205, 4108, 4885, 1546, 2894,
     1601, 2878, 5605, 5604, 5602, 5603, 3284, 1742]"

definition port_popularity_nmap :: "int list" where
  "port_popularity_nmap =
     concat
      [port_popularity_nmap_00, port_popularity_nmap_01, port_popularity_nmap_02, port_popularity_nmap_03,
       port_popularity_nmap_04, port_popularity_nmap_05, port_popularity_nmap_06, port_popularity_nmap_07,
       port_popularity_nmap_08, port_popularity_nmap_09, port_popularity_nmap_10, port_popularity_nmap_11,
       port_popularity_nmap_12, port_popularity_nmap_13, port_popularity_nmap_14, port_popularity_nmap_15,
       port_popularity_nmap_16, port_popularity_nmap_17, port_popularity_nmap_18, port_popularity_nmap_19,
       port_popularity_nmap_20, port_popularity_nmap_21, port_popularity_nmap_22, port_popularity_nmap_23,
       port_popularity_nmap_24, port_popularity_nmap_25, port_popularity_nmap_26, port_popularity_nmap_27,
       port_popularity_nmap_28, port_popularity_nmap_29, port_popularity_nmap_30, port_popularity_nmap_31,
       port_popularity_nmap_32, port_popularity_nmap_33, port_popularity_nmap_34, port_popularity_nmap_35,
       port_popularity_nmap_36, port_popularity_nmap_37, port_popularity_nmap_38, port_popularity_nmap_39,
       port_popularity_nmap_40, port_popularity_nmap_41, port_popularity_nmap_42, port_popularity_nmap_43,
       port_popularity_nmap_44, port_popularity_nmap_45, port_popularity_nmap_46, port_popularity_nmap_47,
       port_popularity_nmap_48, port_popularity_nmap_49, port_popularity_nmap_50, port_popularity_nmap_51,
       port_popularity_nmap_52, port_popularity_nmap_53, port_popularity_nmap_54, port_popularity_nmap_55,
       port_popularity_nmap_56, port_popularity_nmap_57, port_popularity_nmap_58, port_popularity_nmap_59,
       port_popularity_nmap_60, port_popularity_nmap_61, port_popularity_nmap_62, port_popularity_nmap_63,
       port_popularity_nmap_64, port_popularity_nmap_65]"

subsection \<open>ScannerTCP\<close>

text \<open>A readiness event: the bits the classifier tests (\<^verbatim>\<open>SelectPoller.POLLIN\<close>,
  \<^verbatim>\<open>SelectPoller.POLLOUT\<close>, \<^verbatim>\<open>select.POLLERR\<close>, \<^verbatim>\<open>select.POLLHUP\<close>,
  \<^verbatim>\<open>select.EPOLLRDHUP\<close>).\<close>

record event =
  pollin :: bool
  pollout :: bool
  pollerr :: bool
  pollhup :: bool
  epollrdhup :: bool

text \<open>The fields of \<^verbatim>\<open>ScannerBase.__init__\<close> and \<^verbatim>\<open>ScannerTCP.__init__\<close> that the
  modelled methods read or write.  \<open>sleep_total_raw\<close> is \<^verbatim>\<open>_sleep_total\<close>; the last two
  fields are the attributes that \<^verbatim>\<open>start_scan\<close> creates when it finishes.\<close>

record ScannerTCP =
  bandwidth_bits_per_second :: "int option"
  max_probes :: int
  probes :: "int list"
  inter_packet_interval :: rat
  inter_packet_interval_per_host :: "rat option"
  bytes_sent :: int
  target_source :: "string option"
  target_list_unprocessed :: "string list"
  target_filename :: "string option"
  target_ports_unprocessed :: "string option"
  scan_start_time_internal :: "rat option"
  scan_start_time :: "rat option"
  probes_sent_count :: int
  replies :: int
  packet_rate :: "int option"
  host_count :: int
  next_recv_time :: rat
  recv_interval :: rat
  blocklist :: "string list"
  count_in_queue :: "nat \<rightharpoonup> int"
  sleep_reasons :: "string \<rightharpoonup> int"
  sleep_total_raw :: rat
  packet_overhead :: int
  payload_len_estimate :: int
  host_count_high_water :: int
  host_count_low_water :: int
  show_closed_ports :: bool
  probe_state_ready_last_result :: "bool option"
  probe_states_container :: ProbeStateContainer
  poll_result_count :: int
  poll_deleted_packet_count :: int
  warned_about_unreachable_network :: "string list"
  warned_about_socket_events :: "event list"
  scan_duration :: "rat option"
  scan_rate_bits_per_second :: "int option"

text \<open>\<^verbatim>\<open>ProbeStateContainer.__new__\<close> on first use.  The poll type \<^verbatim>\<open>auto\<close> is resolved
  from \<^verbatim>\<open>sys.platform\<close>; an unknown platform leaves it at \<^verbatim>\<open>auto\<close>, which
  \<^verbatim>\<open>set_poll_type\<close> rejects.\<close>

definition container_set_poll_type :: "string \<Rightarrow> string \<Rightarrow> ProbeStateContainer \<Rightarrow> error + ProbeStateContainer" where
  "container_set_poll_type platform pt c =
     (let pt1 = (if pt = ''auto'' then
                   (if platform = ''linux'' \<or> platform = ''linux2'' then ''poll''
                    else if platform = ''darwin'' then ''poll''
                    else if platform = ''win32'' then ''select''
                    else pt)
                 else pt)
      in if pt1 = ''epoll'' \<or> pt1 = ''poll'' \<or> pt1 = ''select''
         then Inr (c\<lparr>poll_type := pt1, poller := []\<rparr>)
         else Inl GenericException)"

definition ProbeStateContainer_new :: "string \<Rightarrow> error + ProbeStateContainer" where
  "ProbeStateContainer_new platform =
     container_set_poll_type platform ''auto''
       \<lparr>objs = (\<lambda>r. \<lparr>target_ip = [], target_port = 0, probe_index = 0, probe_sent_time = None,
                      probes_sent = 0, socket = None, deleted = False, probe_id = 0\<rparr>),
        probe_states = [], socket_list = [], probe_states_by_fd = Map.empty,
        count = 0, next_probe_id = 0, poll_type = ''auto'', poller = []\<rparr>"

text \<open>\<^verbatim>\<open>set_inter_packet_interval\<close>; the bandwidth is never \<^verbatim>\<open>None\<close> when it is
  called from the constructor or from \<^verbatim>\<open>set_bandwidth\<close>.\<close>

definition set_inter_packet_interval :: "ScannerTCP \<Rightarrow> error + ScannerTCP" where
  "set_inter_packet_interval s =
     (if packet_overhead s = 0 then Inl (SystemExit 0)
      else case bandwidth_bits_per_second s of
             None \<Rightarrow> Inl (SystemExit 0)
           | Some bw \<Rightarrow>
               if bw = 0 then Inl (SystemExit 0)
               else Inr (s\<lparr>inter_packet_interval :=
                            8 * of_int (payload_len_estimate s + packet_overhead s) / of_int bw\<rparr>))"

text \<open>\<^verbatim>\<open>ScannerTCP.__init__\<close> after \<^verbatim>\<open>ScannerBase.__init__\<close>, given \<^verbatim>\<open>sys.platform\<close> and
  the clock reading taken for \<^verbatim>\<open>next_recv_time\<close>.\<close>

definition ScannerTCP_init :: "string \<Rightarrow> rat \<Rightarrow> error + ScannerTCP" where
  "ScannerTCP_init platform now =
     (case ProbeStateContainer_new platform of
        Inl e \<Rightarrow> Inl e
      | Inr c \<Rightarrow>
          set_inter_packet_interval
            \<lparr>bandwidth_bits_per_second = Some 32000,
             max_probes = 3,
             probes = [],
             inter_packet_interval = 0,
             inter_packet_interval_per_host = None,
             bytes_sent = 0,
             target_source = None,
             target_list_unprocessed = [],
             target_filename = None,
             target_ports_unprocessed = None,
             scan_start_time_internal = None,
             scan_start_time = None,
             probes_sent_count = 0,
             replies = 0,
             packet_rate = None,
             host_count = 0,
             next_recv_time = now,
             recv_interval = 1 / 10,
             blocklist = [],
             count_in_queue = Map.empty,
             sleep_reasons = Map.empty,
             sleep_total_raw = 0,
             packet_overhead = (if platform = ''win32'' then 54 else 74),
             payload_len_estimate = 0,
             host_count_high_water = 100,
             host_count_low_water = 90,
             show_closed_ports = False,
             probe_state_ready_last_result = None,
             probe_states_container = c,
             poll_result_count = 0,
             poll_deleted_packet_count = 0,
             warned_about_unreachable_network = [],
             warned_about_socket_events = [],
             scan_duration = None,
             scan_rate_bits_per_second = None\<rparr>)"

subsection \<open>\<^verbatim>\<open>set_probes\<close> and \<^verbatim>\<open>expand_port_list\<close>\<close>

text \<open>The loop that fills \<^verbatim>\<open>popularity_dict\<close>: a later occurrence of a port in the table
  overwrites the index of an earlier one.\<close>

fun popularity_loop :: "int list \<Rightarrow> nat \<Rightarrow> (int \<rightharpoonup> nat) \<Rightarrow> (int \<rightharpoonup> nat)" where
  "popularity_loop [] index d = d"
| "popularity_loop (port # ports) index d = popularity_loop ports (index + 1) (d(port \<mapsto> index))"

definition popularity_dict :: "int \<rightharpoonup> nat" where
  "popularity_dict = popularity_loop port_popularity_nmap 0 Map.empty"

definition port_sort :: "int \<Rightarrow> int" where
  "port_sort port = (case popularity_dict port of Some i \<Rightarrow> int i | None \<Rightarrow> 100000)"

text \<open>The ports one comma-separated token appends to \<^verbatim>\<open>self.probes\<close>.  A token with a
  dash splits into at least two pieces; only the first two are read.\<close>

definition ports_of_token :: "string \<Rightarrow> error + int list" where
  "ports_of_token ports_str =
     (if CHR ''-'' \<in> set ports_str then
        (case split_on CHR ''-'' ports_str of
           lo # hi # rest \<Rightarrow>
             (case py_int lo of
                Inl e \<Rightarrow> Inl e
              | Inr a \<Rightarrow>
                  (case py_int hi of
                     Inl e \<Rightarrow> Inl e
                   | Inr b \<Rightarrow> Inr [a..b]))
         | _ \<Rightarrow> Inl IndexError)
      else
        (case py_int ports_str of
           Inl e \<Rightarrow> Inl e
         | Inr p \<Rightarrow> Inr [p]))"

fun set_probes_loop :: "string list \<Rightarrow> int list \<Rightarrow> error + int list" where
  "set_probes_loop [] acc = Inr acc"
| "set_probes_loop (ports_str # rest) acc =
     (case ports_of_token ports_str of
        Inl e \<Rightarrow> Inl e
      | Inr ps \<Rightarrow> set_probes_loop rest (acc @ ps))"

definition set_probes :: "string \<Rightarrow> ScannerTCP \<Rightarrow> error + ScannerTCP" where
  "set_probes port_list_str s =
     (case set_probes_loop (split_on CHR '','' port_list_str) [] of
        Inl e \<Rightarrow> Inl e
      | Inr ps \<Rightarrow>
          Inr (s\<lparr>probes := sort_key port_sort ps,
                 target_ports_unprocessed := Some port_list_str\<rparr>))"

text \<open>\<^verbatim>\<open>expand_port_list\<close>, the helper that checks the range of every port.\<close>

definition port_in_range :: "int \<Rightarrow> bool" where
  "port_in_range p = (0 < p \<and> p < 65536)"

definition expand_port_token :: "string \<Rightarrow> error + int list" where
  "expand_port_token port =
     (if CHR ''-'' \<in> set port then
        (let port_range = split_on CHR ''-'' port in
         if length port_range \<noteq> 2 then Inl (SystemExit 0)
         else
           (case py_int (port_range ! 0) of
              Inl e \<Rightarrow> Inl e
            | Inr a \<Rightarrow>
                (case py_int (port_range ! 1) of
                   Inl e \<Rightarrow> Inl e
                 | Inr b \<Rightarrow>
                     if list_all port_in_range [a..b] then Inr [a..b] else Inl (SystemExit 0))))
      else
        (case py_int port of
           Inl e \<Rightarrow> Inl e
         | Inr p \<Rightarrow> if port_in_range p then Inr [p] else Inl (SystemExit 0)))"

fun expand_port_loop :: "string list \<Rightarrow> int list \<Rightarrow> error + int list" where
  "expand_port_loop [] ports_list = Inr ports_list"
| "expand_port_loop (port # rest) ports_list =
     (case expand_port_token port of
        Inl e \<Rightarrow> Inl e
      | Inr ps \<Rightarrow> expand_port_loop rest (ports_list @ ps))"

definition expand_port_list :: "string \<Rightarrow> error + int list" where
  "expand_port_list ports = expand_port_loop (split_on CHR '','' ports) []"

text \<open>The five ports of the example port specification.\<close>

definition sample_ports :: "int list" where
  "sample_ports = [80, 443, 8080, 8081, 8082]"

fun avoids :: "int list \<Rightarrow> int list \<Rightarrow> bool" where
  "avoids ps [] = True"
| "avoids ps (q # qs) = (q \<notin> set ps \<and> avoids ps qs)"

text \<open>The rank of one port, computed along the table: what the dictionary loop leaves
  at that key.\<close>

fun rank_from :: "int \<Rightarrow> int list \<Rightarrow> nat \<Rightarrow> nat option \<Rightarrow> nat option" where
  "rank_from p [] i r = r"
| "rank_from p (q # qs) i r = rank_from p qs (i + 1) (if p = q then Some i else r)"

text \<open>The table after its first 256 entries.\<close>

definition port_popularity_tail :: "int list" where
  "port_popularity_tail =
     concat
      [port_popularity_nmap_02,
       port_popularity_nmap_03,
       port_popularity_nmap_04,
       port_popularity_nmap_05,
       port_popularity_nmap_06,
       port_popularity_nmap_07,
       port_popularity_nmap_08,
       port_popularity_nmap_09,
       port_popularity_nmap_10,
       port_popularity_nmap_11,
       port_popularity_nmap_12,
       port_popularity_nmap_13,
       port_popularity_nmap_14,
       port_popularity_nmap_15,
       port_popularity_nmap_16,
       port_popularity_nmap_17,
       port_popularity_nmap_18,
       port_popularity_nmap_19,
       port_popularity_nmap_20,
       port_popularity_nmap_21,
       port_popularity_nmap_22,
       port_popularity_nmap_23,
       port_popularity_nmap_24,
       port_popularity_nmap_25,
       port_popularity_nmap_26,
       port_popularity_nmap_27,
       port_popularity_nmap_28,
       port_popularity_nmap_29,
       port_popularity_nmap_30,
       port_popularity_nmap_31,
       port_popularity_nmap_32,
       port_popularity_nmap_33,
       port_popularity_nmap_34,
       port_popularity_nmap_35,
       port_popularity_nmap_36,
       port_popularity_nmap_37,
       port_popularity_nmap_38,
       port_popularity_nmap_39,
       port_popularity_nmap_40,
       port_popularity_nmap_41,
       port_popularity_nmap_42,
       port_popularity_nmap_43,
       port_popularity_nmap_44,
       port_popularity_nmap_45,
       port_popularity_nmap_46,
       port_popularity_nmap_47,
       port_popularity_nmap_48,
       port_popularity_nmap_49,
       port_popularity_nmap_50,
       port_popularity_nmap_51,
       port_popularity_nmap_52,
       port_popularity_nmap_53,
       port_popularity_nmap_54,
       port_popularity_nmap_55,
       port_popularity_nmap_56,
       port_popularity_nmap_57,
       port_popularity_nmap_58,
       port_popularity_nmap_59,
       port_popularity_nmap_60,
       port_popularity_nmap_61,
       port_popularity_nmap_62,
       port_popularity_nmap_63,
       port_popularity_nmap_64,
       port_popularity_nmap_65]"

text \<open>A freshly constructed scanner on Linux.\<close>

definition example_scanner :: ScannerTCP where
  "example_scanner = projr (ScannerTCP_init ''linux'' 0)"

subsection \<open>TargetGenerator\<close>

text \<open>\<^verbatim>\<open>str(n)\<close> for a non-negative integer.\<close>

function str_nat :: "nat \<Rightarrow> string" where
  "str_nat n = (if n < 10 then [char_of (48 + n)]
                else str_nat (n div 10) @ [char_of (48 + n mod 10)])"
  by pat_completeness auto
termination
  by (relation "measure id") auto

declare str_nat.simps [simp del]

text \<open>One alternative of \<^verbatim>\<open>ip_regex\<close>:
  \<^verbatim>\<open>[0-9]|[1-9][0-9]|1[0-9]{2}|2[0-4][0-9]|25[0-5]\<close>, with the number it denotes.\<close>

definition octet_of :: "string \<Rightarrow> nat option" where
  "octet_of s =
     (case s of
        [a] \<Rightarrow> if is_digit a then Some (digit_val a) else None
      | [a, b] \<Rightarrow>
          if is_digit a \<and> a \<noteq> CHR ''0'' \<and> is_digit b
          then Some (10 * digit_val a + digit_val b) else None
      | [a, b, c] \<Rightarrow>
          if is_digit b \<and> is_digit c \<and>
             (a = CHR ''1'' \<or>
              (a = CHR ''2'' \<and> digit_val b \<le> 4) \<or>
              (a = CHR ''2'' \<and> b = CHR ''5'' \<and> digit_val c \<le> 5))
          then Some (100 * digit_val a + 10 * digit_val b + digit_val c) else None
      | _ \<Rightarrow> None)"

text \<open>The strings of \<^verbatim>\<open>ip_regex\<close>: four octets separated by dots.  No octet contains a
  dot, so the strings of the regular expression are those that split into four octets.\<close>

definition match_ip :: "string \<Rightarrow> (nat \<times> nat \<times> nat \<times> nat) option" where
  "match_ip s =
     (case split_on CHR ''.'' s of
        [p, q, r, t] \<Rightarrow>
          (case (octet_of p, octet_of q, octet_of r, octet_of t) of
             (Some a, Some b, Some c, Some d) \<Rightarrow> Some (a, b, c, d)
           | _ \<Rightarrow> None)
      | _ \<Rightarrow> None)"

text \<open>In Python \<^verbatim>\<open>$\<close> matches at the end of the string and also just before a newline
  that ends the string.\<close>

definition chop_newline :: "string \<Rightarrow> string" where
  "chop_newline s = (if s \<noteq> [] \<and> last s = CHR 0x0A then butlast s else s)"

definition anchored :: "(string \<Rightarrow> 'a option) \<Rightarrow> string \<Rightarrow> 'a option" where
  "anchored m s = (case m s of Some x \<Rightarrow> Some x | None \<Rightarrow> m (chop_newline s))"

text \<open>\<^verbatim>\<open>^ip_regex$\<close>, \<^verbatim>\<open>^ip_regex-ip_regex$\<close> and \<^verbatim>\<open>cidr_regex\<close> (whose group 1 is the
  netmask, one or two digits).\<close>

definition match_single_ip :: "string \<Rightarrow> (nat \<times> nat \<times> nat \<times> nat) option" where
  "match_single_ip = anchored match_ip"

definition match_range_body :: "string \<Rightarrow> ((nat \<times> nat \<times> nat \<times> nat) \<times> (nat \<times> nat \<times> nat \<times> nat)) option" where
  "match_range_body s =
     (case split_on CHR ''-'' s of
        [p, q] \<Rightarrow>
          (case (match_ip p, match_ip q) of
             (Some x, Some y) \<Rightarrow> Some (x, y)
           | _ \<Rightarrow> None)
      | _ \<Rightarrow> None)"

definition match_ip_range :: "string \<Rightarrow> ((nat \<times> nat \<times> nat \<times> nat) \<times> (nat \<times> nat \<times> nat \<times> nat)) option" where
  "match_ip_range = anchored match_range_body"

definition match_cidr_body :: "string \<Rightarrow> ((nat \<times> nat \<times> nat \<times> nat) \<times> string) option" where
  "match_cidr_body s =
     (case split_on CHR ''/'' s of
        [p, m] \<Rightarrow>
          (case match_ip p of
             Some x \<Rightarrow>
               if (length m = 1 \<or> length m = 2) \<and> list_all is_digit m then Some (x, m) else None
           | None \<Rightarrow> None)
      | _ \<Rightarrow> None)"

definition match_cidr :: "string \<Rightarrow> ((nat \<times> nat \<times> nat \<times> nat) \<times> string) option" where
  "match_cidr = anchored match_cidr_body"

text \<open>The \<^verbatim>\<open>ipaddress\<close> module: an address as an integer and back to dotted-quad text;
  \<^verbatim>\<open>ip_address\<close> and \<^verbatim>\<open>ip_network\<close> reject text with a trailing newline, which the
  regular expressions let through.\<close>

definition ip_int :: "nat \<times> nat \<times> nat \<times> nat \<Rightarrow> int" where
  "ip_int q = (case q of (a, b, c, d) \<Rightarrow> int a * 16777216 + int b * 65536 + int c * 256 + int d)"

definition ip_str :: "int \<Rightarrow> string" where
  "ip_str n =
     str_nat (nat (n div 16777216 mod 256)) @ ''.'' @ str_nat (nat (n div 65536 mod 256)) @ ''.''
       @ str_nat (nat (n div 256 mod 256)) @ ''.'' @ str_nat (nat (n mod 256))"

definition ip_address :: "string \<Rightarrow> error + int" where
  "ip_address s = (case match_ip s of Some q \<Rightarrow> Inr (ip_int q) | None \<Rightarrow> Inl ValueError)"

definition ALL_ONES :: int where
  "ALL_ONES = 2 ^ 32 - 1"

definition ip_int_from_prefix :: "nat \<Rightarrow> int" where
  "ip_int_from_prefix prefixlen = ALL_ONES XOR (drop_bit prefixlen ALL_ONES)"

text \<open>\<^verbatim>\<open>ipaddress.ip_network(cidr, False)\<close> for text that \<^verbatim>\<open>cidr_regex\<close> matched with a
  prefix length of at most 32: the pair of the network address and the broadcast
  address.  Host bits of the address are masked out (\<^verbatim>\<open>strict=False\<close>).\<close>

definition ip_network :: "string \<Rightarrow> error + (int \<times> int)" where
  "ip_network cidr =
     (case match_cidr_body cidr of
        None \<Rightarrow> Inl ValueError
      | Some (q, m) \<Rightarrow>
          (case py_int m of
             Inl e \<Rightarrow> Inl e
           | Inr prefixlen \<Rightarrow>
               if prefixlen < 0 \<or> 32 < prefixlen then Inl ValueError
               else
                 (let netmask = ip_int_from_prefix (nat prefixlen);
                      hostmask = netmask XOR ALL_ONES;
                      network_address = ip_int q AND netmask;
                      broadcast_address = network_address OR hostmask
                  in Inr (network_address, broadcast_address))))"

text \<open>A generator is the list of what it yields together with the exception that ends
  it, if one does.\<close>

type_synonym 'a generator = "'a list \<times> error option"

definition get_target_ips_from_cidr :: "string \<Rightarrow> string generator" where
  "get_target_ips_from_cidr cidr =
     (case match_cidr cidr of
        None \<Rightarrow> ([], Some (SystemExit 0))
      | Some (q, m) \<Rightarrow>
          (case py_int m of
             Inl e \<Rightarrow> ([], Some e)
           | Inr n \<Rightarrow>
               if n > 32 then ([], Some (SystemExit 0))
               else if n < 8 then ([], Some (SystemExit 0))
               else
                 (case ip_network cidr of
                    Inl e \<Rightarrow> ([], Some e)
                  | Inr (network_address, broadcast_address) \<Rightarrow>
                      (map ip_str [network_address..broadcast_address], None))))"

definition get_targets_from_ip_range :: "string \<Rightarrow> string generator" where
  "get_targets_from_ip_range ip_range =
     (case match_ip_range ip_range of
        None \<Rightarrow> ([], Some (SystemExit 0))
      | Some _ \<Rightarrow>
          (case split_on CHR ''-'' ip_range of
             start_ip # end_ip # _ \<Rightarrow>
               (case ip_address start_ip of
                  Inl e \<Rightarrow> ([], Some e)
                | Inr ip_range_start \<Rightarrow>
                    (case ip_address end_ip of
                       Inl e \<Rightarrow> ([], Some e)
                     | Inr ip_range_end \<Rightarrow> (map ip_str [ip_range_start..ip_range_end], None)))
           | _ \<Rightarrow> ([], Some IndexError)))"

definition get_targets_from_string :: "string \<Rightarrow> string generator" where
  "get_targets_from_string target =
     (if match_ip_range target \<noteq> None then get_targets_from_ip_range target
      else if match_single_ip target \<noteq> None then ([target], None)
      else if match_cidr target \<noteq> None then get_target_ips_from_cidr target
      else ([], Some (SystemExit 0)))"

fun get_targets_from_list :: "string list \<Rightarrow> string generator" where
  "get_targets_from_list [] = ([], None)"
| "get_targets_from_list (target # targets) =
     (case get_targets_from_string target of
        (ts, Some e) \<Rightarrow> (ts, Some e)
      | (ts, None) \<Rightarrow>
          (case get_targets_from_list targets of (us, r) \<Rightarrow> (ts @ us, r)))"

text \<open>The lines of the targets file come from the environment (\<open>None\<close>: no such file).
  After \<^verbatim>\<open>strip()\<close> a line that is a comment, empty or all whitespace is skipped.\<close>

definition file_line_skipped :: "string \<Rightarrow> bool" where
  "file_line_skipped target =
     ((target \<noteq> [] \<and> hd target = CHR ''#'') \<or> target = [] \<or> list_all py_isspace target)"

definition get_targets_from_file :: "string list option \<Rightarrow> string generator" where
  "get_targets_from_file contents =
     (case contents of
        None \<Rightarrow> ([], Some (SystemExit 0))
      | Some lines \<Rightarrow>
          get_targets_from_list (filter (\<lambda>t. \<not> file_line_skipped t) (map py_strip lines)))"

text \<open>A canonical CIDR token \<^verbatim>\<open>A.B.C.D/N\<close>.\<close>

definition cidr_token :: "nat \<Rightarrow> nat \<Rightarrow> nat \<Rightarrow> nat \<Rightarrow> nat \<Rightarrow> string" where
  "cidr_token a b c d n =
     str_nat a @ ''.'' @ str_nat b @ ''.'' @ str_nat c @ ''.'' @ str_nat d @ ''/'' @ str_nat n"

subsection \<open>Setters of the scanner\<close>

text \<open>\<^verbatim>\<open>set_rtt\<close>; the argument is already a float when it comes from the command line.\<close>

definition set_rtt :: "rat \<Rightarrow> ScannerTCP \<Rightarrow> ScannerTCP" where
  "set_rtt rtt s =
     (let s1 = (if rtt < recv_interval s * 4 then s\<lparr>recv_interval := rtt / 4\<rparr> else s)
      in s1\<lparr>inter_packet_interval_per_host := Some rtt\<rparr>)"



definition is_odigit :: "char \<Rightarrow> bool" where
  "is_odigit ch = (48 \<le> (of_char ch :: nat) \<and> (of_char ch :: nat) \<le> 55)"













subsection \<open>The environment\<close>

text \<open>What the program cannot decide itself comes from the environment, as the sequence of
  answers to the calls it makes: the readings of \<^verbatim>\<open>time.time()\<close>, the lists reported by
  \<^verbatim>\<open>poller.poll(0)\<close>, the outcomes of \<^verbatim>\<open>socket.socket(...)\<close> and of
  \<^verbatim>\<open>sock.connect(...)\<close>.  Each call takes the next answer.  \<^verbatim>\<open>time.sleep\<close> shows only
  in later clock readings.  The send loop is modelled as Python 3 runs it.\<close>

datatype socket_result = NewSocket nat | SocketOSError int

datatype connect_result = ConnectBlockingIOError int | ConnectOSError int | ConnectReturned

record world =
  clock :: "nat \<Rightarrow> rat"
  clock_reads :: nat
  poll_results :: "nat \<Rightarrow> (nat \<times> event) list"
  poll_calls :: nat
  socket_results :: "nat \<Rightarrow> socket_result"
  socket_calls :: nat
  connect_results :: "nat \<Rightarrow> connect_result"
  connect_calls :: nat

definition time_time :: "world \<Rightarrow> rat \<times> world" where
  "time_time w = (clock w (clock_reads w), w\<lparr>clock_reads := clock_reads w + 1\<rparr>)"

definition poller_poll :: "world \<Rightarrow> (nat \<times> event) list \<times> world" where
  "poller_poll w = (poll_results w (poll_calls w), w\<lparr>poll_calls := poll_calls w + 1\<rparr>)"

definition socket_socket :: "world \<Rightarrow> socket_result \<times> world" where
  "socket_socket w = (socket_results w (socket_calls w), w\<lparr>socket_calls := socket_calls w + 1\<rparr>)"

definition sock_connect :: "world \<Rightarrow> connect_result \<times> world" where
  "sock_connect w = (connect_results w (connect_calls w), w\<lparr>connect_calls := connect_calls w + 1\<rparr>)"

text \<open>\<^verbatim>\<open>time.sleep(d)\<close> raises \<open>ValueError\<close> for a negative length.\<close>

definition time_sleep :: "rat \<Rightarrow> error + unit" where
  "time_sleep d = (if d < 0 then Inl ValueError else Inr ())"

subsection \<open>The rate governor\<close>

text \<open>A start time of \<^verbatim>\<open>None\<close> or \<open>0\<close> is falsy.  The clock is read only when it is set.\<close>

definition bytes_sent_target :: "world \<Rightarrow> ScannerTCP \<Rightarrow> error + (rat \<times> world)" where
  "bytes_sent_target w s =
     (case scan_start_time_internal s of
        None \<Rightarrow> Inr (0, w)
      | Some t0 \<Rightarrow>
          if t0 = 0 then Inr (0, w)
          else
            (case bandwidth_bits_per_second s of
               None \<Rightarrow> Inl TypeError
             | Some bw \<Rightarrow>
                 (case time_time w of (now, w1) \<Rightarrow> Inr (of_int bw * (now - t0) / 8, w1))))"

definition probes_sent_target :: "world \<Rightarrow> ScannerTCP \<Rightarrow> error + (rat \<times> world)" where
  "probes_sent_target w s =
     (case scan_start_time_internal s of
        None \<Rightarrow> Inr (0, w)
      | Some t0 \<Rightarrow>
          if t0 = 0 then Inr (0, w)
          else
            (case packet_rate s of
               None \<Rightarrow> Inl TypeError
             | Some pr \<Rightarrow>
                 (case time_time w of (now, w1) \<Rightarrow> Inr (of_int pr * (now - t0), w1))))"

definition get_available_bandwidth_quota_packets :: "world \<Rightarrow> ScannerTCP \<Rightarrow> error + (int \<times> world)" where
  "get_available_bandwidth_quota_packets w s =
     (if bandwidth_bits_per_second s = None then Inr (100, w)
      else
        (case bytes_sent_target w s of
           Inl e \<Rightarrow> Inl e
         | Inr (target, w1) \<Rightarrow>
             (let bytes_left = target - of_int (bytes_sent s) in
              if bytes_left \<le> 0 then Inr (0, w1)
              else if packet_overhead s = 0 then Inl ZeroDivisionError
              else Inr (py_int_of_float (8 * bytes_left / of_int (packet_overhead s)), w1))))"

definition get_available_packet_rate_quota_packets :: "world \<Rightarrow> ScannerTCP \<Rightarrow> error + (rat \<times> world)" where
  "get_available_packet_rate_quota_packets w s =
     (if packet_rate s = None \<or> packet_rate s = Some 0 then Inr (100, w)
      else
        (case probes_sent_target w s of
           Inl e \<Rightarrow> Inl e
         | Inr (target, w1) \<Rightarrow>
             (let packets_left = target - of_int (probes_sent_count s) in
              if packets_left \<le> 0 then Inr (0, w1) else Inr (packets_left, w1))))"

definition get_available_quota_packets :: "world \<Rightarrow> ScannerTCP \<Rightarrow> error + (int \<times> world)" where
  "get_available_quota_packets w s =
     (case get_available_bandwidth_quota_packets w s of
        Inl e \<Rightarrow> Inl e
      | Inr (b, w1) \<Rightarrow>
          (case get_available_packet_rate_quota_packets w1 s of
             Inl e \<Rightarrow> Inl e
           | Inr (p, w2) \<Rightarrow> Inr (py_int_of_float (min (of_int b) p), w2)))"

definition get_queue_length :: "ScannerTCP \<Rightarrow> int" where
  "get_queue_length s = count (probe_states_container s)"

definition queue_peek_first :: "ScannerTCP \<Rightarrow> error + nat option" where
  "queue_peek_first s = peekleft (probe_states_container s)"

definition get_socket_list :: "ScannerTCP \<Rightarrow> nat list" where
  "get_socket_list s = socket_list (probe_states_container s)"

subsection \<open>\<^verbatim>\<open>receive_packets\<close>\<close>

text \<open>The classification of one event; \<open>True\<close> counts a reply.  An unexpected event of the
  \<^verbatim>\<open>poll\<close> backend is remembered in \<^verbatim>\<open>warned_about_socket_events\<close>.\<close>

definition classify_event :: "event \<Rightarrow> ScannerTCP \<Rightarrow> error + ScannerTCP" where
  "classify_event ev s =
     (let pt = poll_type (probe_states_container s) in
      if pt = ''epoll'' then
        (if epollrdhup ev then Inr s else Inr (s\<lparr>replies := replies s + 1\<rparr>))
      else if pt = ''poll'' then
        (if pollhup ev \<and> pollerr ev then Inr s
         else if \<not> pollhup ev \<and> \<not> pollerr ev then Inr (s\<lparr>replies := replies s + 1\<rparr>)
         else if ev \<notin> set (warned_about_socket_events s)
              then Inr (s\<lparr>warned_about_socket_events := warned_about_socket_events s @ [ev]\<rparr>)
              else Inr s)
      else if pt = ''select'' then
        (if pollin ev \<and> pollout ev then Inr s
         else if pollout ev \<and> \<not> pollin ev then Inr (s\<lparr>replies := replies s + 1\<rparr>)
         else Inr s)
      else Inl GenericException)"

fun receive_loop :: "(nat \<times> event) list \<Rightarrow> ScannerTCP \<Rightarrow> error + ScannerTCP" where
  "receive_loop [] s = Inr s"
| "receive_loop ((fd, ev) # fd_event_tuples) s =
     (let s1 = s\<lparr>poll_result_count := poll_result_count s + 1\<rparr> in
      case probe_states_by_fd (probe_states_container s1) fd of
        None \<Rightarrow> Inl KeyError
      | Some r \<Rightarrow>
          if deleted (objs (probe_states_container s1) r) then
            receive_loop fd_event_tuples
              (s1\<lparr>poll_deleted_packet_count := poll_deleted_packet_count s1 + 1\<rparr>)
          else
            (case classify_event ev s1 of
               Inl e \<Rightarrow> Inl e
             | Inr s2 \<Rightarrow>
                 (case schedule_delete r (probe_states_container s2) of
                    Inl e \<Rightarrow> Inl e
                  | Inr c \<Rightarrow> receive_loop fd_event_tuples (s2\<lparr>probe_states_container := c\<rparr>))))"

definition receive_packets :: "nat list \<Rightarrow> world \<Rightarrow> ScannerTCP \<Rightarrow> error + (bool \<times> world \<times> ScannerTCP)" where
  "receive_packets sockets w s =
     (case (if sockets \<noteq> [] then
              (case poller_poll w of
                 (fd_event_tuples, w1) \<Rightarrow>
                   (case receive_loop fd_event_tuples s of
                      Inl e \<Rightarrow> Inl e
                    | Inr s1 \<Rightarrow> Inr (w1, s1)))
            else Inr (w, s)) of
        Inl e \<Rightarrow> Inl e
      | Inr (w1, s1) \<Rightarrow> Inr (count (probe_states_container s1) \<noteq> 0, w1, s1))"

subsection \<open>\<^verbatim>\<open>wait_for_quotas\<close>\<close>

text \<open>What \<^verbatim>\<open>wait_for_quotas\<close> has in its local variables when it returns: the two quota
  values of its last pass and, unless it returned early on an empty queue, the clock
  reading \<^verbatim>\<open>now\<close> against which the left-most record was checked.  The Python value
  returned is \<^verbatim>\<open>True\<close> on the early return and \<^verbatim>\<open>None\<close> otherwise.\<close>

record quota_view =
  bandwidth_quota_packets_left :: int
  packet_quota_packets_left :: rat
  checked_now :: "rat option"

datatype wait_pass =
    Returned quota_view world ScannerTCP
  | Sleeping world ScannerTCP

text \<open>The statistics update: which counter of \<^verbatim>\<open>sleep_reasons\<close> the three
  \<^verbatim>\<open>force_..._wait\<close> flags select.\<close>

definition sleep_reason :: "bool \<Rightarrow> bool \<Rightarrow> bool \<Rightarrow> string option" where
  "sleep_reason force_bandwidth_quota_wait force_packet_quota_wait force_probe_state_wait =
     (if force_bandwidth_quota_wait then Some ''bandwidth_quota''
      else if force_packet_quota_wait then Some ''packet_quota''
      else if force_probe_state_wait then Some ''port_states''
      else None)"

definition update_stats :: "string option \<Rightarrow> ScannerTCP \<Rightarrow> error + ScannerTCP" where
  "update_stats reason s =
     (case reason of
        None \<Rightarrow> Inr s
      | Some k \<Rightarrow>
          (case sleep_reasons s k of
             None \<Rightarrow> Inl KeyError
           | Some n \<Rightarrow> Inr (s\<lparr>sleep_reasons := (sleep_reasons s)(k \<mapsto> n + 1)\<rparr>)))"

text \<open>The end of a pass in which one of the three conditions failed: count the reason, then
  sleep, with a receive pass first when the wait is longer than \<^verbatim>\<open>recv_interval\<close>.\<close>

definition wait_and_receive :: "string option \<Rightarrow> rat \<Rightarrow> world \<Rightarrow> ScannerTCP \<Rightarrow> error + wait_pass" where
  "wait_and_receive reason wait_time0 w s =
     (case update_stats reason s of
        Inl e \<Rightarrow> Inl e
      | Inr s1 \<Rightarrow>
          (let wait_time = max (inter_packet_interval s1) wait_time0 in
           if wait_time > recv_interval s1 then
             (case receive_packets (get_socket_list s1) w s1 of
                Inl e \<Rightarrow> Inl e
              | Inr (b, w1, s2) \<Rightarrow>
                  (case time_sleep (recv_interval s2) of
                     Inl e \<Rightarrow> Inl e
                   | Inr u \<Rightarrow>
                       Inr (Sleeping w1 (s2\<lparr>sleep_total_raw := sleep_total_raw s2 + recv_interval s2\<rparr>))))
           else
             (case time_sleep wait_time of
                Inl e \<Rightarrow> Inl e
              | Inr u \<Rightarrow> Inr (Sleeping w (s1\<lparr>sleep_total_raw := sleep_total_raw s1 + wait_time\<rparr>)))))"

text \<open>One pass of the \<^verbatim>\<open>while\<close> loop.\<close>

definition wait_for_quotas_pass :: "world \<Rightarrow> ScannerTCP \<Rightarrow> error + wait_pass" where
  "wait_for_quotas_pass w s =
     (case get_available_bandwidth_quota_packets w s of
        Inl e \<Rightarrow> Inl e
      | Inr (bw_left, w1) \<Rightarrow>
          if bw_left > 0 then
            (case get_available_packet_rate_quota_packets w1 s of
               Inl e \<Rightarrow> Inl e
             | Inr (pk_left, w2) \<Rightarrow>
                 if pk_left > 0 then
                   (if get_queue_length s > 0 then
                      (case queue_peek_first s of
                         Inl e \<Rightarrow> Inl e
                       | Inr None \<Rightarrow> Inl AttributeError
                       | Inr (Some first) \<Rightarrow>
                           (case time_time w2 of
                              (now, w3) \<Rightarrow>
                                (case probe_sent_time (objs (probe_states_container s) first) of
                                   None \<Rightarrow>
                                     Inr (Returned \<lparr>bandwidth_quota_packets_left = bw_left,
                                                    packet_quota_packets_left = pk_left,
                                                    checked_now = Some now\<rparr> w3 s)
                                 | Some last_probe_time \<Rightarrow>
                                     (case inter_packet_interval_per_host s of
                                        None \<Rightarrow> Inl TypeError
                                      | Some ipi \<Rightarrow>
                                          if now > last_probe_time + ipi then
                                            Inr (Returned \<lparr>bandwidth_quota_packets_left = bw_left,
                                                           packet_quota_packets_left = pk_left,
                                                           checked_now = Some now\<rparr> w3 s)
                                          else
                                            wait_and_receive (sleep_reason False False True)
                                              (last_probe_time + ipi - now) w3 s))))
                    else
                      Inr (Returned \<lparr>bandwidth_quota_packets_left = bw_left,
                                     packet_quota_packets_left = pk_left,
                                     checked_now = None\<rparr> w2
                             (s\<lparr>probe_state_ready_last_result := Some True\<rparr>)))
                 else wait_and_receive (sleep_reason False False True) 0 w2 s)
          else wait_and_receive (sleep_reason True True True) 0 w1 s)"

partial_function (option) wait_for_quotas :: "world \<Rightarrow> ScannerTCP \<Rightarrow> (error + (quota_view \<times> world \<times> ScannerTCP)) option" where
  "wait_for_quotas w s =
     (case wait_for_quotas_pass w s of
        Inl e \<Rightarrow> Some (Inl e)
      | Inr (Returned v w1 s1) \<Rightarrow> Some (Inr (v, w1, s1))
      | Inr (Sleeping w1 s1) \<Rightarrow> wait_for_quotas w1 s1)"

subsection \<open>Predicates used in the statements\<close>

text \<open>What pacing and receiving leave alone in the registry: the queue, its counter, and of
  every record everything but its socket and its tombstone flag.\<close>

definition same_queue :: "ProbeStateContainer \<Rightarrow> ProbeStateContainer \<Rightarrow> bool" where
  "same_queue c c' =
     (probe_states c' = probe_states c \<and> count c' = count c
      \<and> next_probe_id c' = next_probe_id c \<and> poll_type c' = poll_type c
      \<and> (\<forall>r. probe_sent_time (objs c' r) = probe_sent_time (objs c r)
             \<and> probes_sent (objs c' r) = probes_sent (objs c r)
             \<and> probe_id (objs c' r) = probe_id (objs c r)))"

text \<open>The settings and send counters of the scanner.\<close>

definition same_settings :: "ScannerTCP \<Rightarrow> ScannerTCP \<Rightarrow> bool" where
  "same_settings s s' =
     (bandwidth_bits_per_second s' = bandwidth_bits_per_second s
      \<and> packet_rate s' = packet_rate s
      \<and> max_probes s' = max_probes s
      \<and> inter_packet_interval s' = inter_packet_interval s
      \<and> inter_packet_interval_per_host s' = inter_packet_interval_per_host s
      \<and> recv_interval s' = recv_interval s
      \<and> packet_overhead s' = packet_overhead s
      \<and> scan_start_time_internal s' = scan_start_time_internal s
      \<and> bytes_sent s' = bytes_sent s
      \<and> probes_sent_count s' = probes_sent_count s)"




text \<open>An environment whose clock stands at \<open>now\<close> and in which nothing else happens.\<close>

definition still_world :: "rat \<Rightarrow> world" where
  "still_world now =
     \<lparr>clock = (\<lambda>k. now), clock_reads = 0,
      poll_results = (\<lambda>k. []), poll_calls = 0,
      socket_results = (\<lambda>k. NewSocket (10 + k)), socket_calls = 0,
      connect_results = (\<lambda>k. ConnectBlockingIOError 115), connect_calls = 0\<rparr>"

text \<open>A scanner in the middle of a scan with one live record in its queue, sent at time 10,
  whose socket 5 is registered with the poller.\<close>

definition waiting_scanner :: ScannerTCP where
  "waiting_scanner =
     example_scanner
       \<lparr>scan_start_time_internal := Some 1,
        bytes_sent := 74,
        probes_sent_count := 1,
        sleep_reasons := [''packet_quota'' \<mapsto> 0, ''bandwidth_quota'' \<mapsto> 0, ''port_states'' \<mapsto> 0],
        probe_states_container :=
          \<lparr>objs = (\<lambda>i. (example_record i (Some 10) 1 False)\<lparr>socket := Some 5\<rparr>),
           probe_states = [0], socket_list = [5], probe_states_by_fd = [5 \<mapsto> 0],
           count = 1, next_probe_id = 1, poll_type = ''poll'', poller = [5]\<rparr>\<rparr>"

text \<open>An environment whose clock reads \<open>t1\<close> twice and \<open>t2\<close> from then on.\<close>

definition stepping_world :: "rat \<Rightarrow> rat \<Rightarrow> world" where
  "stepping_world t1 t2 = (still_world t2)\<lparr>clock := (\<lambda>k. if k < 2 then t1 else t2)\<rparr>"

subsection \<open>The send loop of \<^verbatim>\<open>start_scan\<close>\<close>

text \<open>One pass of \<^verbatim>\<open>while not sent\<close> for the record \<open>r\<close>: read the clock for
  \<^verbatim>\<open>last_send_time\<close>, create a socket, connect, attach the socket to the record.  Too many
  open files (errno 24) exits with status 1; after any other \<^verbatim>\<open>OSError\<close> from
  \<^verbatim>\<open>socket.socket\<close> the variable \<^verbatim>\<open>sock\<close> is still \<^verbatim>\<open>None\<close> and \<^verbatim>\<open>sock.setblocking\<close>
  raises \<open>AttributeError\<close>.  \<^verbatim>\<open>connect\<close> raises \<open>OverflowError\<close> for a port outside
  0..65535.  "In progress" (errno 115 or 10035) and "network unreachable" (errno 101) set
  \<^verbatim>\<open>sent\<close>; a connect that returns without an exception leaves it false, and the loop
  runs again.\<close>

definition attach_socket :: "bool \<Rightarrow> rat \<Rightarrow> nat \<Rightarrow> nat \<Rightarrow> world \<Rightarrow> ScannerTCP \<Rightarrow> error + (bool \<times> rat \<times> world \<times> ScannerTCP)" where
  "attach_socket sent t r fd w s =
     (case set_socket r fd (probe_states_container s) of
        Inl e \<Rightarrow> Inl e
      | Inr c \<Rightarrow> Inr (sent, t, w, s\<lparr>probe_states_container := c\<rparr>))"

definition connect_attempt :: "nat \<Rightarrow> world \<Rightarrow> ScannerTCP \<Rightarrow> error + (bool \<times> rat \<times> world \<times> ScannerTCP)" where
  "connect_attempt r w s =
     (case time_time w of
        (t, w1) \<Rightarrow>
          (case socket_socket w1 of
             (SocketOSError n, w2) \<Rightarrow> if n = 24 then Inl (SystemExit 1) else Inl AttributeError
           | (NewSocket fd, w2) \<Rightarrow>
               (let ps = objs (probe_states_container s) r in
                if target_port ps < 0 \<or> 65535 < target_port ps then Inl OverflowError
                else
                  (case sock_connect w2 of
                     (ConnectBlockingIOError n, w3) \<Rightarrow>
                       if n = 115 \<or> n = 10035 then attach_socket True t r fd w3 s
                       else Inl (BlockingIOError n)
                   | (ConnectOSError n, w3) \<Rightarrow>
                       if n = 101 then
                         attach_socket True t r fd w3
                           (if target_ip ps \<notin> set (warned_about_unreachable_network s)
                            then s\<lparr>warned_about_unreachable_network :=
                                     warned_about_unreachable_network s @ [target_ip ps]\<rparr>
                            else s)
                       else Inl (OSError n)
                   | (ConnectReturned, w3) \<Rightarrow> attach_socket False t r fd w3 s))))"

partial_function (option) connect_loop :: "nat \<Rightarrow> world \<Rightarrow> ScannerTCP \<Rightarrow> (error + (rat \<times> world \<times> ScannerTCP)) option" where
  "connect_loop r w s =
     (case connect_attempt r w s of
        Inl e \<Rightarrow> Some (Inl e)
      | Inr (sent, t, w1, s1) \<Rightarrow> if sent then Some (Inr (t, w1, s1)) else connect_loop r w1 s1)"

text \<open>The local variables of \<^verbatim>\<open>start_scan\<close> that live across passes of its loops.  The
  probe-state generator is the list of the (target, probe index) pairs it has yet to
  yield and the exception that ends it, if any; a record is created when its pair is
  pulled.\<close>

record scan_locals =
  gen :: "(string \<times> nat) list"
  gen_end :: "error option"
  last_send_time :: "rat option"
  scan_running :: bool
  more_hosts :: bool
  highest_probe_index_seen :: int

datatype loop_ctl = Continue | Break

text \<open>Lines 930-931: a live record that has used up its probes and whose last probe is more
  than the per-host interval old is tombstoned.\<close>

definition retire_overdue :: "rat \<Rightarrow> nat \<Rightarrow> ScannerTCP \<Rightarrow> error + ScannerTCP" where
  "retire_overdue now r s =
     (let ps = objs (probe_states_container s) r in
      if \<not> deleted ps \<and> probes_sent ps \<ge> max_probes s then
        (case probe_sent_time ps of
           None \<Rightarrow> Inl TypeError
         | Some t \<Rightarrow>
             (case inter_packet_interval_per_host s of
                None \<Rightarrow> Inl TypeError
              | Some ipi \<Rightarrow>
                  if now > t + ipi then
                    (case schedule_delete r (probe_states_container s) of
                       Inl e \<Rightarrow> Inl e
                     | Inr c \<Rightarrow> Inr (s\<lparr>probe_states_container := c\<rparr>))
                  else Inr s))
      else Inr s)"

text \<open>Lines 960-1021: connect, then update the statistics and rotate the record to the
  right end of the queue.\<close>

definition send_probe :: "nat \<Rightarrow> world \<Rightarrow> ScannerTCP \<Rightarrow> scan_locals \<Rightarrow> (error + (loop_ctl \<times> world \<times> ScannerTCP \<times> scan_locals)) option" where
  "send_probe r w s l =
     (case connect_loop r w s of
        None \<Rightarrow> None
      | Some (Inl e) \<Rightarrow> Some (Inl e)
      | Some (Inr (t, w1, s1)) \<Rightarrow>
          (case time_time w1 of
             (t2, w2) \<Rightarrow>
               (let c = upd_obj r (\<lambda>ps. ps\<lparr>probes_sent := probes_sent ps + 1,
                                              probe_sent_time := Some t2\<rparr>)
                          (probe_states_container s1);
                    s2 = s1\<lparr>probes_sent_count := probes_sent_count s1 + 1,
                            bytes_sent := bytes_sent s1 + (0 + packet_overhead s1)\<rparr>
                in case next_probe_state c of
                     Inl e \<Rightarrow> Some (Inl e)
                   | Inr (x, c1) \<Rightarrow>
                       Some (Inr (Continue, w2, s2\<lparr>probe_states_container := c1\<rparr>,
                                  l\<lparr>last_send_time := Some t\<rparr>)))))"

text \<open>One pass of the \<^verbatim>\<open>for packet_counter\<close> loop (lines 925-1026).\<close>

definition send_loop_body :: "world \<Rightarrow> ScannerTCP \<Rightarrow> scan_locals \<Rightarrow> (error + (loop_ctl \<times> world \<times> ScannerTCP \<times> scan_locals)) option" where
  "send_loop_body w s l =
     (case time_time w of
        (now, w1) \<Rightarrow>
          if count (probe_states_container s) > 0 then
            (case peekleft (probe_states_container s) of
               Inl e \<Rightarrow> Some (Inl e)
             | Inr None \<Rightarrow> Some (Inl AttributeError)
             | Inr (Some r) \<Rightarrow>
                 (case retire_overdue now r s of
                    Inl e \<Rightarrow> Some (Inl e)
                  | Inr s1 \<Rightarrow>
                      (let ps = objs (probe_states_container s1) r in
                       if deleted ps then
                         (case popleft (probe_states_container s1) of
                            Inl e \<Rightarrow> Some (Inl e)
                          | Inr (x, c) \<Rightarrow> Some (Inr (Continue, w1, s1\<lparr>probe_states_container := c\<rparr>, l)))
                       else if probes_sent ps \<ge> max_probes s1 then Some (Inr (Break, w1, s1, l))
                       else
                         (case probe_sent_time ps of
                            None \<Rightarrow> send_probe r w1 s1 l
                          | Some t \<Rightarrow>
                              (case inter_packet_interval_per_host s1 of
                                 None \<Rightarrow> Some (Inl TypeError)
                               | Some ipi \<Rightarrow>
                                   if t + ipi > now then Some (Inr (Break, w1, s1, l))
                                   else send_probe r w1 s1 l)))))
          else if \<not> more_hosts l then Some (Inr (Break, w1, s, l\<lparr>scan_running := False\<rparr>))
          else Some (Inr (Continue, w1, s, l)))"

subsection \<open>Filling the registry, receiving, finishing\<close>

text \<open>The \<^verbatim>\<open>for ps in probes_state_generator_function\<close> loop (lines 883-908).\<close>

fun fill_loop :: "(string \<times> nat) list \<Rightarrow> ScannerTCP \<Rightarrow> scan_locals \<Rightarrow> error + (ScannerTCP \<times> scan_locals)" where
  "fill_loop [] s l =
     (case gen_end l of
        Some e \<Rightarrow> Inl e
      | None \<Rightarrow> Inr (s, l\<lparr>gen := []\<rparr>))"
| "fill_loop ((target, idx) # rest) s l =
     (if idx < length (probes s) then
        (case ProbeStateTcp_init target (probes s ! idx) idx (probe_states_container s) of
           (r, c1) \<Rightarrow>
             if target \<in> set (blocklist s) then
               (case delete_probe_state r c1 of
                  Inl e \<Rightarrow> Inl e
                | Inr c2 \<Rightarrow> fill_loop rest (s\<lparr>probe_states_container := c2\<rparr>) l)
             else
               (let s1 = s\<lparr>probe_states_container := c1,
                           host_count := (if idx = 0 then host_count s + 1 else host_count s)\<rparr>;
                    l1 = (if int idx > highest_probe_index_seen l
                          then l\<lparr>highest_probe_index_seen := int idx\<rparr> else l)
                in case count_in_queue s1 idx of
                     None \<Rightarrow> Inl KeyError
                   | Some n \<Rightarrow>
                       (let s2 = s1\<lparr>count_in_queue := (count_in_queue s1)(idx \<mapsto> n + 1)\<rparr> in
                        if count (probe_states_container s2) \<ge> host_count_high_water s2
                        then Inr (s2, l1\<lparr>gen := rest, more_hosts := True\<rparr>)
                        else fill_loop rest s2 l1)))
      else Inl IndexError)"

text \<open>Lines 881-910.\<close>

definition fill_queue :: "world \<Rightarrow> ScannerTCP \<Rightarrow> scan_locals \<Rightarrow> error + (world \<times> ScannerTCP \<times> scan_locals)" where
  "fill_queue w s l =
     (if more_hosts l \<and> count (probe_states_container s) < host_count_low_water s then
        (case fill_loop (gen l) s (l\<lparr>more_hosts := False\<rparr>) of
           Inl e \<Rightarrow> Inl e
         | Inr (s1, l1) \<Rightarrow>
             (case time_time w of
                (now, w1) \<Rightarrow>
                  (case sort_probe_states (inter_packet_interval_per_host s1) now
                          (probe_states_container s1) of
                     Inl e \<Rightarrow> Inl e
                   | Inr c \<Rightarrow> Inr (w1, s1\<lparr>probe_states_container := c\<rparr>, l1))))
      else Inr (w, s, l))"

text \<open>Lines 1032-1036.\<close>

definition recv_some_packets :: "world \<Rightarrow> ScannerTCP \<Rightarrow> scan_locals \<Rightarrow> error + (world \<times> ScannerTCP \<times> scan_locals)" where
  "recv_some_packets w s l =
     (case time_time w of
        (now, w1) \<Rightarrow>
          if next_recv_time s < now then
            (let s1 = s\<lparr>next_recv_time := now + recv_interval s\<rparr> in
             case receive_packets (socket_list (probe_states_container s1)) w1 s1 of
               Inl e \<Rightarrow> Inl e
             | Inr (b, w2, s2) \<Rightarrow> Inr (w2, s2, l\<lparr>scan_running := (b \<or> more_hosts l)\<rparr>))
          else Inr (w1, s, l))"

text \<open>Lines 1038-1046, after the loop.\<close>

definition finish_scan :: "world \<Rightarrow> ScannerTCP \<Rightarrow> scan_locals \<Rightarrow> error + (world \<times> ScannerTCP \<times> scan_locals)" where
  "finish_scan w s l =
     (case receive_packets (socket_list (probe_states_container s)) w s of
        Inl e \<Rightarrow> Inl e
      | Inr (b, w1, s1) \<Rightarrow>
          (case last_send_time l of
             None \<Rightarrow> Inl TypeError
           | Some t \<Rightarrow>
               (case scan_start_time s1 of
                  None \<Rightarrow> Inl TypeError
                | Some t0 \<Rightarrow>
                    (let d = (if t - t0 = 0 then 1 / 1000 else t - t0) in
                     Inr (w1,
                          s1\<lparr>scan_duration := Some d,
                             scan_rate_bits_per_second :=
                               Some (py_int_of_float (8 * of_int (bytes_sent s1) / d))\<rparr>,
                          l)))))"

subsection \<open>The scan loop as a state machine\<close>

text \<open>The loop \<^verbatim>\<open>while scan_running\<close> of \<^verbatim>\<open>start_scan\<close> (lines 876-1036) and the lines
  after it, cut at the points where one of its parts ends: filling the registry, pacing
  (\<^verbatim>\<open>wait_for_quotas\<close> and the permit count), each pass of the send loop, receiving, and
  finishing.  \<open>SENDING k\<close> has \<open>k\<close> passes of the send loop left.\<close>

datatype phase = FILLING | PACING | SENDING nat | DRAINING | FINALIZING | FINISHED

record scan_state =
  phase :: phase
  env :: world
  scanner :: ScannerTCP
  locals :: scan_locals

definition sending :: "nat \<Rightarrow> phase" where
  "sending k = (if k = 0 then DRAINING else SENDING k)"

definition pace :: "world \<Rightarrow> ScannerTCP \<Rightarrow> (error + (nat \<times> world \<times> ScannerTCP)) option" where
  "pace w s =
     (case wait_for_quotas w s of
        None \<Rightarrow> None
      | Some (Inl e) \<Rightarrow> Some (Inl e)
      | Some (Inr (v, w1, s1)) \<Rightarrow>
          (case get_available_quota_packets w1 s1 of
             Inl e \<Rightarrow> Some (Inl e)
           | Inr (packet_count_to_send, w2) \<Rightarrow>
               Some (Inr (nat (min packet_count_to_send (count (probe_states_container s1))),
                          w2, s1))))"

definition scan_step :: "scan_state \<Rightarrow> (error + scan_state) option" where
  "scan_step st =
     (case phase st of
        FILLING \<Rightarrow>
          (case fill_queue (env st) (scanner st) (locals st) of
             Inl e \<Rightarrow> Some (Inl e)
           | Inr (w, s, l) \<Rightarrow> Some (Inr \<lparr>phase = PACING, env = w, scanner = s, locals = l\<rparr>))
      | PACING \<Rightarrow>
          (case pace (env st) (scanner st) of
             None \<Rightarrow> None
           | Some (Inl e) \<Rightarrow> Some (Inl e)
           | Some (Inr (k, w, s)) \<Rightarrow>
               Some (Inr \<lparr>phase = sending k, env = w, scanner = s, locals = locals st\<rparr>))
      | SENDING k \<Rightarrow>
          (case send_loop_body (env st) (scanner st) (locals st) of
             None \<Rightarrow> None
           | Some (Inl e) \<Rightarrow> Some (Inl e)
           | Some (Inr (ctl, w, s, l)) \<Rightarrow>
               Some (Inr \<lparr>phase = (case ctl of Continue \<Rightarrow> sending (k - 1) | Break \<Rightarrow> DRAINING),
                           env = w, scanner = s, locals = l\<rparr>))
      | DRAINING \<Rightarrow>
          (case recv_some_packets (env st) (scanner st) (locals st) of
             Inl e \<Rightarrow> Some (Inl e)
           | Inr (w, s, l) \<Rightarrow>
               Some (Inr \<lparr>phase = (if scan_running l then FILLING else FINALIZING),
                           env = w, scanner = s, locals = l\<rparr>))
      | FINALIZING \<Rightarrow>
          (case finish_scan (env st) (scanner st) (locals st) of
             Inl e \<Rightarrow> Some (Inl e)
           | Inr (w, s, l) \<Rightarrow> Some (Inr \<lparr>phase = FINISHED, env = w, scanner = s, locals = l\<rparr>))
      | FINISHED \<Rightarrow> Some (Inr st))"

partial_function (option) run_scan :: "scan_state \<Rightarrow> (error + scan_state) option" where
  "run_scan st =
     (if phase st = FINISHED then Some (Inr st)
      else Option.bind (scan_step st)
             (\<lambda>res. case res of Inl e \<Rightarrow> Some (Inl e) | Inr st1 \<Rightarrow> run_scan st1))"

text \<open>The states a scan passes through from \<open>st0\<close>.\<close>

inductive reachable :: "scan_state \<Rightarrow> scan_state \<Rightarrow> bool" for st0 :: scan_state where
  start: "reachable st0 st0"
| step: "reachable st0 st \<Longrightarrow> scan_step st = Some (Inr st1) \<Longrightarrow> reachable st0 st1"

subsection \<open>Invariants of the scan loop\<close>

text \<open>The byte counter is the packet overhead times the probe counter.\<close>

definition counters_consistent :: "ScannerTCP \<Rightarrow> bool" where
  "counters_consistent s = (bytes_sent s = packet_overhead s * probes_sent_count s)"

text \<open>No record created so far has been sent more probes than \<^verbatim>\<open>max_probes\<close>.\<close>

definition probes_bounded :: "ScannerTCP \<Rightarrow> bool" where
  "probes_bounded s =
     (\<forall>r < next_probe_id (probe_states_container s).
        probes_sent (objs (probe_states_container s) r) \<le> max_probes s)"

text \<open>The states in which a pass of the send loop reaches its send branch (line 950): the
  queue counter is positive, and the left-most record is live, has probes left and is not
  waiting for its per-host interval at the clock reading this pass takes.\<close>

definition send_due :: "scan_state \<Rightarrow> bool" where
  "send_due st =
     (case phase st of
        SENDING k \<Rightarrow>
          (let s = scanner st; c = probe_states_container s;
               now = clock (env st) (clock_reads (env st))
           in count c > 0 \<and>
              (case probe_states c of
                 [] \<Rightarrow> False
               | r # rest \<Rightarrow>
                   \<not> deleted (objs c r) \<and> probes_sent (objs c r) < max_probes s \<and>
                   (case probe_sent_time (objs c r) of
                      None \<Rightarrow> True
                    | Some t \<Rightarrow>
                        (case inter_packet_interval_per_host s of
                           None \<Rightarrow> False
                         | Some ipi \<Rightarrow> \<not> t + ipi > now))))
      | _ \<Rightarrow> False)"

text \<open>Lines 860-875 of \<^verbatim>\<open>start_scan\<close>: the state in which the loop is entered, given the
  probe-state generator.\<close>

definition scan_loop_entry :: "world \<Rightarrow> ScannerTCP \<Rightarrow> (string \<times> nat) generator \<Rightarrow> scan_state" where
  "scan_loop_entry w s g =
     (case time_time w of
        (t1, w1) \<Rightarrow>
          (case time_time w1 of
             (t2, w2) \<Rightarrow>
               \<lparr>phase = FILLING, env = w2,
                scanner = s\<lparr>count_in_queue :=
                              (\<lambda>i. if i < length (probes s) then Some 0 else count_in_queue s i),
                            scan_start_time := Some t1,
                            scan_start_time_internal := Some t2,
                            sleep_reasons := (sleep_reasons s)(''packet_quota'' \<mapsto> 0,
                              ''bandwidth_quota'' \<mapsto> 0, ''port_states'' \<mapsto> 0)\<rparr>,
                locals = \<lparr>gen = fst g, gen_end = snd g, last_send_time = None,
                          scan_running = True, more_hosts = True,
                          highest_probe_index_seen = - 1\<rparr>\<rparr>))"

text \<open>What a step that sends no probe leaves alone: the packet overhead, the probe limit,
  both send counters and the number of probes sent of every record that exists; records
  created by the step have been sent no probe.\<close>

definition no_send :: "ScannerTCP \<Rightarrow> ScannerTCP \<Rightarrow> bool" where
  "no_send s s' =
     (packet_overhead s' = packet_overhead s \<and> max_probes s' = max_probes s
      \<and> bytes_sent s' = bytes_sent s \<and> probes_sent_count s' = probes_sent_count s
      \<and> next_probe_id (probe_states_container s) \<le> next_probe_id (probe_states_container s')
      \<and> (\<forall>x < next_probe_id (probe_states_container s).
             probes_sent (objs (probe_states_container s') x)
               = probes_sent (objs (probe_states_container s) x))
      \<and> (\<forall>x. next_probe_id (probe_states_container s) \<le> x
               \<and> x < next_probe_id (probe_states_container s')
             \<longrightarrow> probes_sent (objs (probe_states_container s') x) = 0))"

text \<open>States for examples.  The scanner of \<open>waiting_scanner\<close> with a round-trip time of
  0.2, and the same after the third and last probe to its record; an environment with the
  clock at \<open>now\<close> in which every \<^verbatim>\<open>connect\<close> fails with "network is unreachable"; a state
  of the scan loop with one pass of the send loop left.\<close>

definition probing_scanner :: ScannerTCP where
  "probing_scanner = set_rtt (1 / 5) waiting_scanner"

definition spent_scanner :: ScannerTCP where
  "spent_scanner =
     probing_scanner
       \<lparr>bytes_sent := 222,
        probes_sent_count := 3,
        probe_states_container :=
          upd_obj 0 (\<lambda>ps. ps\<lparr>probes_sent := 3\<rparr>) (probe_states_container probing_scanner)\<rparr>"

definition unreachable_world :: "rat \<Rightarrow> world" where
  "unreachable_world now = (still_world now)\<lparr>connect_results := (\<lambda>k. ConnectOSError 101)\<rparr>"

definition sending_state :: "world \<Rightarrow> ScannerTCP \<Rightarrow> scan_state" where
  "sending_state w s =
     \<lparr>phase = SENDING 1, env = w, scanner = s,
      locals = \<lparr>gen = [], gen_end = None, last_send_time = None, scan_running = True,
                more_hosts = False, highest_probe_index_seen = 0\<rparr>\<rparr>"

text \<open>\<^verbatim>\<open>set_max_probes\<close>; \<^verbatim>\<open>main\<close> passes \<^verbatim>\<open>args.retries + 1\<close>, and \<^verbatim>\<open>-r\<close> takes any
  integer.\<close>

definition set_max_probes :: "int \<Rightarrow> ScannerTCP \<Rightarrow> ScannerTCP" where
  "set_max_probes n s = s\<lparr>max_probes := n\<rparr>"

text \<open>The scan of port 80 of one host with \<^verbatim>\<open>-r -2\<close>, when the loop is entered.\<close>

definition negative_retries_scanner :: ScannerTCP where
  "negative_retries_scanner = (set_max_probes (- 1) example_scanner)\<lparr>probes := [80]\<rparr>"

definition negative_retries_entry :: scan_state where
  "negative_retries_entry =
     scan_loop_entry (still_world 11) negative_retries_scanner ([(''10.0.0.1'', 0)], None)"

text \<open>The state after its first step: the registry holds the record of the one probe.\<close>

definition negative_retries_filled :: scan_state where
  "negative_retries_filled =
     negative_retries_entry
       \<lparr>phase := PACING,
        env := (env negative_retries_entry)\<lparr>clock_reads := 3\<rparr>,
        scanner :=
          (scanner negative_retries_entry)
            \<lparr>host_count := 1,
             count_in_queue := (count_in_queue (scanner negative_retries_entry))(0 \<mapsto> 1),
             probe_states_container :=
               (probe_states_container (scanner negative_retries_entry))
                 \<lparr>objs := (objs (probe_states_container (scanner negative_retries_entry)))
                            (0 := \<lparr>target_ip = ''10.0.0.1'', target_port = 80, probe_index = 0,
                                   probe_sent_time = None, probes_sent = 0, socket = None,
                                   deleted = False, probe_id = 0\<rparr>),
                  probe_states := [0], count := 1, next_probe_id := 1\<rparr>\<rparr>,
        locals := (locals negative_retries_entry)
                    \<lparr>gen := [], more_hosts := False, highest_probe_index_seen := 0\<rparr>\<rparr>"

section \<open>Theorems\<close>

subsection \<open>The registry's accessors on an empty queue\<close>

text \<open>
  Claim C8.  On an empty registry each of \<^verbatim>\<open>peekleft()\<close>, \<^verbatim>\<open>popleft()\<close>,
  \<^verbatim>\<open>pop()\<close> and \<^verbatim>\<open>next()\<close> returns \<^verbatim>\<open>None\<close> and raises nothing (the deque
  primitives underneath would raise \<open>IndexError\<close>); the registry is left as it was.
\<close>

theorem empty_registry_accessors_return_None:
  assumes "probe_states c = []"
  shows "peekleft c = Inr None \<and> popleft c = Inr (None, c) \<and> pop c = Inr (None, c)
         \<and> next_probe_state c = Inr (None, c)"
  using assms by (simp add: peekleft_def popleft_def pop_def next_probe_state_def)

theorem empty_registry_accessors_witness:
  "probe_states (example_container\<lparr>probe_states := []\<rparr>) = []
   \<and> peekleft (example_container\<lparr>probe_states := []\<rparr>) = Inr None
   \<and> popleft (example_container\<lparr>probe_states := []\<rparr>) = Inr (None, example_container\<lparr>probe_states := []\<rparr>)
   \<and> deque_popleft (probe_states (example_container\<lparr>probe_states := []\<rparr>)) = Inl IndexError"
  using empty_registry_accessors_return_None [of "example_container\<lparr>probe_states := []\<rparr>"]
  by (simp add: deque_popleft_def)

subsection \<open>Sorting the registry\<close>

lemma sort_func_key:
  "sort_func ipi now ps =
     (if deleted ps then - 1000
      else case probe_sent_time ps of None \<Rightarrow> 0 | Some t \<Rightarrow> t + ipi - now, probe_id ps)"
  by (simp add: sort_func_def Let_def)

lemma smaller_time_key_is_left:
  assumes srt: "sorted (map f q)"
    and i: "i < length q" and j: "j < length q"
    and kj: "fst (f (q ! j)) = (k::rat)" and ki: "k < fst (f (q ! i))"
  shows "j < i"
proof (rule ccontr)
  assume "\<not> j < i"
  then have "i \<le> j" by simp
  with srt j have "f (q ! i) \<le> f (q ! j)"
    by (simp add: sorted_iff_nth_mono)
  then have "fst (f (q ! i)) \<le> fst (f (q ! j))"
    by (cases "f (q ! i)"; cases "f (q ! j)") (auto simp: less_eq_prod_def)
  with kj ki show False by simp
qed

text \<open>
  Claim C2, as the code has it.  \<^verbatim>\<open>sort(per_host_interval, now)\<close> never fails when the
  interval is set; it permutes the queue and leaves the records alone; the queue is then
  sorted by the pair (time key, \<open>probe_id\<close>), compared lexicographically; records with
  equal keys keep their order (stability); the time key is \<open>probe_sent_time +
  per_host_interval - now\<close> for a live record that has been sent, \<open>0\<close> for a live record
  never sent, and the finite constant \<open>-1000\<close> for a tombstoned record.  So a tombstoned
  record precedes every live record whose time key is above \<open>-1000\<close>.
\<close>

theorem sort_probe_states_orders_queue:
  "\<exists>c'. sort_probe_states (Some ipi) now c = Inr c'
     \<and> objs c' = objs c
     \<and> mset (probe_states c') = mset (probe_states c)
     \<and> sorted (map (sort_func ipi now) (queue_records c'))
     \<and> (\<forall>k. filter (\<lambda>r. sort_func ipi now (objs c r) = k) (probe_states c')
            = filter (\<lambda>r. sort_func ipi now (objs c r) = k) (probe_states c))
     \<and> (\<forall>ps. sort_func ipi now ps =
            (if deleted ps then - 1000
             else case probe_sent_time ps of None \<Rightarrow> 0 | Some t \<Rightarrow> t + ipi - now, probe_id ps))
     \<and> (\<forall>i j. i < length (queue_records c') \<and> j < length (queue_records c')
            \<and> deleted (queue_records c' ! j) \<and> \<not> deleted (queue_records c' ! i)
            \<and> - 1000 < fst (sort_func ipi now (queue_records c' ! i)) \<longrightarrow> j < i)"
proof -
  define key where "key = (\<lambda>r. sort_func ipi now (objs c r))"
  define c' where "c' = c\<lparr>probe_states := sort_key key (probe_states c)\<rparr>"
  have res: "sort_probe_states (Some ipi) now c = Inr c'"
    by (simp add: sort_probe_states_def c'_def key_def)
  have o: "objs c' = objs c" by (simp add: c'_def)
  have m: "mset (probe_states c') = mset (probe_states c)" by (simp add: c'_def)
  have "map (sort_func ipi now) (queue_records c') = map key (sort_key key (probe_states c))"
    by (simp add: queue_records_def c'_def key_def)
  then have s: "sorted (map (sort_func ipi now) (queue_records c'))"
    by simp
  have st: "\<forall>k. filter (\<lambda>r. sort_func ipi now (objs c r) = k) (probe_states c')
            = filter (\<lambda>r. sort_func ipi now (objs c r) = k) (probe_states c)"
    using sort_key_stable [of key _ "probe_states c"] by (simp add: c'_def key_def)
  have d: "j < i"
    if "i < length (queue_records c')" "j < length (queue_records c')"
       "deleted (queue_records c' ! j)" "- 1000 < fst (sort_func ipi now (queue_records c' ! i))"
    for i j
    using smaller_time_key_is_left [OF s that(1) that(2) _ that(4)] that(3)
    by (simp add: sort_func_key)
  show ?thesis
    using res o m s st d sort_func_key by blast
qed

text \<open>At time \<open>1/4\<close> the live record of the example has time key \<open>1/4\<close>, and the sort moves
  the tombstoned record in front of it.\<close>

theorem sort_probe_states_witness:
  "sort_probe_states (Some (1/2)) (1/4) example_container
     = Inr (example_container\<lparr>probe_states := [0, 1]\<rparr>)
   \<and> deleted (objs example_container 0) \<and> \<not> deleted (objs example_container 1)
   \<and> - 1000 < fst (sort_func (1/2) (1/4) (objs example_container 1))"
  using sort_probe_states_orders_queue [of "1/2" "1/4" example_container]
  by (simp add: sort_probe_states_def example_container_def example_record_def sort_func_def)

text \<open>Against C2 as stated (the tombstone key is below every live key, so every deleted
  record precedes every live one): at time \<open>2000\<close> the live record, last sent at time \<open>0\<close>,
  has time key \<open>-1999.5\<close>, below the tombstone's \<open>-1000\<close>, and the sort puts the live
  record first.\<close>

theorem sort_live_before_deleted_counterexample:
  "sort_probe_states (Some (1/2)) 2000 (example_container\<lparr>probe_states := [0, 1]\<rparr>)
     = Inr (example_container\<lparr>probe_states := [1, 0]\<rparr>)
   \<and> deleted (objs example_container 0) \<and> \<not> deleted (objs example_container 1)"
  by (simp add: sort_probe_states_def example_container_def example_record_def sort_func_def)

subsection \<open>Port specifications\<close>

lemma popularity_loop_apply: "popularity_loop xs i d p = rank_from p xs i (d p)"
  by (induction xs arbitrary: i d) auto

lemma popularity_loop_append:
  "popularity_loop (xs @ ys) i d = popularity_loop ys (i + length xs) (popularity_loop xs i d)"
  by (induction xs arbitrary: i d) auto

lemma popularity_loop_avoids:
  "avoids ps xs \<Longrightarrow> p \<in> set ps \<Longrightarrow> popularity_loop xs i d p = d p"
  by (induction xs arbitrary: i d) auto

lemma avoids_append: "avoids ps (xs @ ys) = (avoids ps xs \<and> avoids ps ys)"
  by (induction xs) auto

lemma avoids_concat: "list_all (avoids ps) xss \<Longrightarrow> avoids ps (concat xss)"
  by (induction xss) (auto simp: avoids_append)

lemma avoids_02_09:
  "list_all (avoids sample_ports)
     [port_popularity_nmap_02,
      port_popularity_nmap_03,
      port_popularity_nmap_04,
      port_popularity_nmap_05,
      port_popularity_nmap_06,
      port_popularity_nmap_07,
      port_popularity_nmap_08,
      port_popularity_nmap_09]"
  by (simp add: sample_ports_def
      port_popularity_nmap_02_def
      port_popularity_nmap_03_def
      port_popularity_nmap_04_def
      port_popularity_nmap_05_def
      port_popularity_nmap_06_def
      port_popularity_nmap_07_def
      port_popularity_nmap_08_def
      port_popularity_nmap_09_def)

lemma avoids_10_17:
  "list_all (avoids sample_ports)
     [port_popularity_nmap_10,
      port_popularity_nmap_11,
      port_popularity_nmap_12,
      port_popularity_nmap_13,
      port_popularity_nmap_14,
      port_popularity_nmap_15,
      port_popularity_nmap_16,
      port_popularity_nmap_17]"
  by (simp add: sample_ports_def
      port_popularity_nmap_10_def
      port_popularity_nmap_11_def
      port_popularity_nmap_12_def
      port_popularity_nmap_13_def
      port_popularity_nmap_14_def
      port_popularity_nmap_15_def
      port_popularity_nmap_16_def
      port_popularity_nmap_17_def)

lemma avoids_18_25:
  "list_all (avoids sample_ports)
     [port_popularity_nmap_18,
      port_popularity_nmap_19,
      port_popularity_nmap_20,
      port_popularity_nmap_21,
      port_popularity_nmap_22,
      port_popularity_nmap_23,
      port_popularity_nmap_24,
      port_popularity_nmap_25]"
  by (simp add: sample_ports_def
      port_popularity_nmap_18_def
      port_popularity_nmap_19_def
      port_popularity_nmap_20_def
      port_popularity_nmap_21_def
      port_popularity_nmap_22_def
      port_popularity_nmap_23_def
      port_popularity_nmap_24_def
      port_popularity_nmap_25_def)

lemma avoids_26_33:
  "list_all (avoids sample_ports)
     [port_popularity_nmap_26,
      port_popularity_nmap_27,
      port_popularity_nmap_28,
      port_popularity_nmap_29,
      port_popularity_nmap_30,
      port_popularity_nmap_31,
      port_popularity_nmap_32,
      port_popularity_nmap_33]"
  by (simp add: sample_ports_def
      port_popularity_nmap_26_def
      port_popularity_nmap_27_def
      port_popularity_nmap_28_def
      port_popularity_nmap_29_def
      port_popularity_nmap_30_def
      port_popularity_nmap_31_def
      port_popularity_nmap_32_def
      port_popularity_nmap_33_def)

lemma avoids_34_41:
  "list_all (avoids sample_ports)
     [port_popularity_nmap_34,
      port_popularity_nmap_35,
      port_popularity_nmap_36,
      port_popularity_nmap_37,
      port_popularity_nmap_38,
      port_popularity_nmap_39,
      port_popularity_nmap_40,
      port_popularity_nmap_41]"
  by (simp add: sample_ports_def
      port_popularity_nmap_34_def
      port_popularity_nmap_35_def
      port_popularity_nmap_36_def
      port_popularity_nmap_37_def
      port_popularity_nmap_38_def
      port_popularity_nmap_39_def
      port_popularity_nmap_40_def
      port_popularity_nmap_41_def)

lemma avoids_42_49:
  "list_all (avoids sample_ports)
     [port_popularity_nmap_42,
      port_popularity_nmap_43,
      port_popularity_nmap_44,
      port_popularity_nmap_45,
      port_popularity_nmap_46,
      port_popularity_nmap_47,
      port_popularity_nmap_48,
      port_popularity_nmap_49]"
  by (simp add: sample_ports_def
      port_popularity_nmap_42_def
      port_popularity_nmap_43_def
      port_popularity_nmap_44_def
      port_popularity_nmap_45_def
      port_popularity_nmap_46_def
      port_popularity_nmap_47_def
      port_popularity_nmap_48_def
      port_popularity_nmap_49_def)

lemma avoids_50_57:
  "list_all (avoids sample_ports)
     [port_popularity_nmap_50,
      port_popularity_nmap_51,
      port_popularity_nmap_52,
      port_popularity_nmap_53,
      port_popularity_nmap_54,
      port_popularity_nmap_55,
      port_popularity_nmap_56,
      port_popularity_nmap_57]"
  by (simp add: sample_ports_def
      port_popularity_nmap_50_def
      port_popularity_nmap_51_def
      port_popularity_nmap_52_def
      port_popularity_nmap_53_def
      port_popularity_nmap_54_def
      port_popularity_nmap_55_def
      port_popularity_nmap_56_def
      port_popularity_nmap_57_def)

lemma avoids_58_65:
  "list_all (avoids sample_ports)
     [port_popularity_nmap_58,
      port_popularity_nmap_59,
      port_popularity_nmap_60,
      port_popularity_nmap_61,
      port_popularity_nmap_62,
      port_popularity_nmap_63,
      port_popularity_nmap_64,
      port_popularity_nmap_65]"
  by (simp add: sample_ports_def
      port_popularity_nmap_58_def
      port_popularity_nmap_59_def
      port_popularity_nmap_60_def
      port_popularity_nmap_61_def
      port_popularity_nmap_62_def
      port_popularity_nmap_63_def
      port_popularity_nmap_64_def
      port_popularity_nmap_65_def)

lemma avoids_tail: "avoids sample_ports port_popularity_tail"
  unfolding port_popularity_tail_def
  using avoids_02_09 avoids_10_17 avoids_18_25 avoids_26_33 avoids_34_41 avoids_42_49 avoids_50_57 avoids_58_65
  by (intro avoids_concat) simp

lemma port_popularity_nmap_split:
  "port_popularity_nmap = (port_popularity_nmap_00 @ port_popularity_nmap_01) @ port_popularity_tail"
  by (simp add: port_popularity_nmap_def port_popularity_tail_def)

lemma popularity_dict_sample:
  assumes "p \<in> set sample_ports"
  shows "popularity_dict p
           = popularity_loop (port_popularity_nmap_00 @ port_popularity_nmap_01) 0 Map.empty p"
  unfolding popularity_dict_def port_popularity_nmap_split
  by (subst popularity_loop_append) (rule popularity_loop_avoids [OF avoids_tail assms])

lemma rank_00:
  "rank_from 80 port_popularity_nmap_00 0 None = Some 0"
  "rank_from 443 port_popularity_nmap_00 0 None = Some 2"
  "rank_from 8080 port_popularity_nmap_00 0 None = Some 14"
  "rank_from 8081 port_popularity_nmap_00 0 None = Some 54"
  "rank_from 8082 port_popularity_nmap_00 0 None = None"
  by (simp_all add: port_popularity_nmap_00_def)

lemma rank_01:
  "rank_from 80 port_popularity_nmap_01 128 (Some 0) = Some 0"
  "rank_from 443 port_popularity_nmap_01 128 (Some 2) = Some 2"
  "rank_from 8080 port_popularity_nmap_01 128 (Some 14) = Some 14"
  "rank_from 8081 port_popularity_nmap_01 128 (Some 54) = Some 54"
  "rank_from 8082 port_popularity_nmap_01 128 None = Some 237"
  by (simp_all add: port_popularity_nmap_01_def)

lemma length_00: "length port_popularity_nmap_00 = 128"
  by (simp add: port_popularity_nmap_00_def)

lemma port_sort_sample:
  "port_sort 80 = 0" "port_sort 443 = 2" "port_sort 8080 = 14" "port_sort 8081 = 54"
  "port_sort 8082 = 237"
  by (simp_all add: port_sort_def popularity_dict_sample sample_ports_def
        popularity_loop_append popularity_loop_apply length_00 rank_00 rank_01)

lemma py_int_samples:
  "py_int ''80'' = Inr 80" "py_int ''443'' = Inr 443" "py_int ''8080'' = Inr 8080"
  "py_int ''8082'' = Inr 8082" "py_int ''1'' = Inr 1" "py_int ''65535'' = Inr 65535"
  "py_int ''all'' = Inl ValueError"
  by (simp_all add: py_int_def py_int_strip_def py_int_isspace_def py_int_digits_def is_digit_def
        digit_val_def)

lemma set_probes_loop_acc:
  "set_probes_loop toks acc = Inr ps \<Longrightarrow>
     \<exists>pss. map ports_of_token toks = map Inr pss \<and> ps = acc @ concat pss"
proof (induction toks arbitrary: acc)
  case Nil
  then show ?case by simp
next
  case (Cons t toks)
  from Cons.prems obtain qs where t: "ports_of_token t = Inr qs"
    and rest: "set_probes_loop toks (acc @ qs) = Inr ps"
    by (auto split: sum.splits)
  from Cons.IH [OF rest] obtain pss where
    "map ports_of_token toks = map Inr pss" "ps = (acc @ qs) @ concat pss"
    by blast
  with t have "map ports_of_token (t # toks) = map Inr (qs # pss) \<and> ps = acc @ concat (qs # pss)"
    by simp
  then show ?case by blast
qed

lemma set_probes_sample:
  "set_probes ''80,443,8080-8082,80'' s
     = Inr (s\<lparr>probes := [80, 80, 443, 8080, 8081, 8082],
             target_ports_unprocessed := Some ''80,443,8080-8082,80''\<rparr>)"
  by (simp add: set_probes_def ports_of_token_def py_int_samples port_sort_sample)

text \<open>
  Claim C4, as the code has it.  \<^verbatim>\<open>set_probes\<close> does not deduplicate: when it accepts a
  port specification, \<^verbatim>\<open>self.probes\<close> holds every port the comma-separated tokens name,
  each as often as it is named, stably sorted by popularity rank.  The specification
  \<^verbatim>\<open>80,443,8080-8082,80\<close> yields the six entries 80, 80, 443, 8080, 8081, 8082: port 80
  twice, and 80 and 443 before 8080..8082.
\<close>

theorem set_probes_sorts_without_dedup:
  "(\<forall>s s'. set_probes port_list_str s = Inr s' \<longrightarrow>
      (\<exists>pss. map ports_of_token (split_on CHR '','' port_list_str) = map Inr pss
         \<and> mset (probes s') = mset (concat pss)
         \<and> sorted (map port_sort (probes s'))
         \<and> (\<forall>k. filter (\<lambda>p. port_sort p = k) (probes s')
                = filter (\<lambda>p. port_sort p = k) (concat pss))))
   \<and> (\<forall>s. set_probes ''80,443,8080-8082,80'' s
          = Inr (s\<lparr>probes := [80, 80, 443, 8080, 8081, 8082],
                  target_ports_unprocessed := Some ''80,443,8080-8082,80''\<rparr>))"
proof (intro conjI allI impI)
  fix s s'
  assume ok: "set_probes port_list_str s = Inr s'"
  then obtain ps where loop: "set_probes_loop (split_on CHR '','' port_list_str) [] = Inr ps"
    and s': "probes s' = sort_key port_sort ps"
    by (auto simp: set_probes_def split: sum.splits)
  from set_probes_loop_acc [OF loop] obtain pss where
    pss: "map ports_of_token (split_on CHR '','' port_list_str) = map Inr pss" "ps = concat pss"
    by auto
  have "mset (probes s') = mset (concat pss)" using s' pss by simp
  moreover have "sorted (map port_sort (probes s'))" using s' by simp
  moreover have "\<forall>k. filter (\<lambda>p. port_sort p = k) (probes s')
                = filter (\<lambda>p. port_sort p = k) (concat pss)"
    using s' pss by (simp add: sort_key_stable)
  ultimately show "\<exists>pss. map ports_of_token (split_on CHR '','' port_list_str) = map Inr pss
         \<and> mset (probes s') = mset (concat pss)
         \<and> sorted (map port_sort (probes s'))
         \<and> (\<forall>k. filter (\<lambda>p. port_sort p = k) (probes s')
                = filter (\<lambda>p. port_sort p = k) (concat pss))"
    using pss by blast
next
  fix s :: ScannerTCP
  show "set_probes ''80,443,8080-8082,80'' s
          = Inr (s\<lparr>probes := [80, 80, 443, 8080, 8081, 8082],
                  target_ports_unprocessed := Some ''80,443,8080-8082,80''\<rparr>)"
    by (rule set_probes_sample)
qed

theorem set_probes_witness:
  "set_probes ''80,443,8080-8082,80'' example_scanner
     = Inr (example_scanner\<lparr>probes := [80, 80, 443, 8080, 8081, 8082],
             target_ports_unprocessed := Some ''80,443,8080-8082,80''\<rparr>)
   \<and> map ports_of_token (split_on CHR '','' ''80,443,8080-8082,80'')
       = map Inr [[80], [443], [8080, 8081, 8082], [80]]
   \<and> mset [80, 80, 443, 8080, 8081, 8082 :: int]
       = mset (concat [[80], [443], [8080, 8081, 8082], [80]])"
  using set_probes_sorts_without_dedup [of "''80,443,8080-8082,80''"]
  by (simp add: ports_of_token_def py_int_samples)

text \<open>Against C4 as stated (each port at most once; exactly five ports): the result has six
  entries and is not distinct.\<close>

theorem set_probes_duplicate_counterexample:
  "set_probes ''80,443,8080-8082,80'' example_scanner
     = Inr (example_scanner\<lparr>probes := [80, 80, 443, 8080, 8081, 8082],
             target_ports_unprocessed := Some ''80,443,8080-8082,80''\<rparr>)
   \<and> \<not> distinct [80, 80, 443, 8080, 8081, 8082 :: int]
   \<and> length [80, 80, 443, 8080, 8081, 8082 :: int] = 6"
  by (simp add: set_probes_sample)

text \<open>
  Claim C5.  The help text of \<^verbatim>\<open>-p\<close> promises that \<^verbatim>\<open>all\<close> is accepted, but
  \<^verbatim>\<open>set_probes\<close> hands the token to \<^verbatim>\<open>int\<close>, which raises \<open>ValueError\<close>; the default
  \<^verbatim>\<open>1-65535\<close> gives the sorted full range.
\<close>

theorem set_probes_all_raises:
  "set_probes ''all'' s = Inl ValueError
   \<and> set_probes ''1-65535'' s
       = Inr (s\<lparr>probes := sort_key port_sort [1..65535],
               target_ports_unprocessed := Some ''1-65535''\<rparr>)"
  by (simp add: set_probes_def ports_of_token_def py_int_samples del: upto_rec_numeral)

subsection \<open>CIDR enumeration\<close>


lemma is_digit_char_of: "k < 10 \<Longrightarrow> is_digit (char_of (48 + k :: nat))"
  by (simp add: is_digit_def)

lemma digit_val_char_of: "k < 10 \<Longrightarrow> digit_val (char_of (48 + k :: nat)) = k"
  by (simp add: digit_val_def)

lemma char_of_digit_eq:
  "k < 10 \<Longrightarrow> (char_of (48 + k :: nat) = ch) = (of_char ch = 48 + k)"
  by (auto simp: char_of_eq_iff take_bit_eq_mod)

lemma digit_val_literals:
  "digit_val CHR ''0'' = 0" "digit_val CHR ''1'' = 1" "digit_val CHR ''2'' = 2"
  "digit_val CHR ''5'' = 5"
  by (simp_all add: digit_val_def)

lemma str_nat_digits: "list_all is_digit (str_nat n)"
proof (induction n rule: str_nat.induct)
  case (1 n)
  show ?case
  proof (cases "n < 10")
    case True
    then show ?thesis by (subst str_nat.simps) (simp add: is_digit_char_of)
  next
    case False
    with 1 show ?thesis by (subst str_nat.simps) (simp add: is_digit_char_of)
  qed
qed

lemma str_nat_no_sep:
  assumes "\<not> is_digit ch"
  shows "ch \<notin> set (str_nat n)"
  using str_nat_digits [of n] assms by (auto simp: list_all_iff)

lemma str_nat_nonempty: "str_nat n \<noteq> []"
  by (subst str_nat.simps) simp

lemma str_nat_1: "n < 10 \<Longrightarrow> str_nat n = [char_of (48 + n)]"
  by (subst str_nat.simps) simp

lemma str_nat_2: "10 \<le> n \<Longrightarrow> n < 100 \<Longrightarrow> str_nat n = [char_of (48 + n div 10), char_of (48 + n mod 10)]"
  by (subst str_nat.simps) (simp add: str_nat_1)

lemma str_nat_3:
  "100 \<le> n \<Longrightarrow> n < 1000 \<Longrightarrow>
     str_nat n = [char_of (48 + n div 100), char_of (48 + n div 10 mod 10), char_of (48 + n mod 10)]"
  by (subst str_nat.simps) (simp add: str_nat_2 div_mult2_eq)

lemma str_nat_long: "100 \<le> n \<Longrightarrow> 3 \<le> length (str_nat n)"
proof (induction n rule: str_nat.induct)
  case (1 n)
  show ?case
  proof (cases "n < 1000")
    case True
    with 1 show ?thesis by (simp add: str_nat_3)
  next
    case False
    then have "100 \<le> n div 10" by simp
    with 1 False show ?thesis by (subst str_nat.simps) simp
  qed
qed


lemma octet_of_3:
  assumes "h = 1 \<or> h = 2 \<and> (t \<le> 4 \<or> t = 5 \<and> u \<le> 5)" and "t < 10" and "u < 10"
  shows "octet_of [char_of (48 + h), char_of (48 + t), char_of (48 + u :: nat)]
           = Some (100 * h + 10 * t + u)"
proof -
  have h: "h < 10" using assms by auto
  show ?thesis
    using assms h
    by (auto simp: octet_of_def is_digit_char_of digit_val_char_of char_of_digit_eq)
qed

lemma octet_of_str_nat: "n < 256 \<Longrightarrow> octet_of (str_nat n) = Some n"
proof -
  assume n: "n < 256"
  consider "n < 10" | "10 \<le> n" "n < 100" | "100 \<le> n"
    by linarith
  then show ?thesis
  proof cases
    case 1
    then show ?thesis by (simp add: str_nat_1 octet_of_def is_digit_char_of digit_val_char_of)
  next
    case 2
    then have d: "n div 10 < 10" "0 < n div 10" by simp_all
    with 2 show ?thesis
      by (simp add: str_nat_2 octet_of_def is_digit_char_of digit_val_char_of char_of_digit_eq)
  next
    case 3
    define h t u where "h = n div 100" and "t = n div 10 mod 10" and "u = n mod 10"
    have hm: "h = n div 10 div 10" by (simp add: h_def div_mult2_eq)
    have tu: "t < 10" "u < 10" by (simp_all add: t_def u_def)
    have "n = 10 * (n div 10) + u" by (simp add: u_def)
    moreover have "n div 10 = 10 * h + t" by (simp add: hm t_def)
    ultimately have dec: "n = 100 * h + 10 * t + u" by simp
    have "h = 1 \<or> h = 2 \<and> (t \<le> 4 \<or> t = 5 \<and> u \<le> 5)"
      using n 3 dec tu by linarith
    with dec tu
    have "octet_of [char_of (48 + h), char_of (48 + t), char_of (48 + u)] = Some n"
      using octet_of_3 [of h t u] by simp
    moreover have "str_nat n = [char_of (48 + h), char_of (48 + t), char_of (48 + u)]"
      using 3 n by (simp add: str_nat_3 h_def t_def u_def)
    ultimately show ?thesis by simp
  qed
qed

lemma split_on_no_sep: "sep \<notin> set xs \<Longrightarrow> split_on sep xs = [xs]"
  by (induction xs) auto

lemma split_on_append:
  "sep \<notin> set xs \<Longrightarrow> split_on sep (xs @ sep # ys) = xs # split_on sep ys"
  by (induction xs) auto

lemma not_digit_seps:
  "\<not> is_digit CHR ''.''" "\<not> is_digit CHR ''/''" "\<not> is_digit CHR ''-''" "\<not> is_digit CHR 0x0A"
  by (simp_all add: is_digit_def)

lemma match_ip_str:
  assumes "a < 256" "b < 256" "c < 256" "d < 256"
  shows "match_ip (str_nat a @ ''.'' @ str_nat b @ ''.'' @ str_nat c @ ''.'' @ str_nat d)
           = Some (a, b, c, d)"
  using assms
  by (simp add: match_ip_def split_on_append split_on_no_sep str_nat_no_sep not_digit_seps
        octet_of_str_nat)

lemma split_cidr_token:
  "split_on CHR ''/'' (cidr_token a b c d n)
     = [str_nat a @ ''.'' @ str_nat b @ ''.'' @ str_nat c @ ''.'' @ str_nat d, str_nat n]"
proof -
  have "CHR ''/'' \<notin> set (str_nat a @ ''.'' @ str_nat b @ ''.'' @ str_nat c @ ''.'' @ str_nat d)"
    by (simp add: str_nat_no_sep not_digit_seps)
  then show ?thesis
    unfolding cidr_token_def
    using split_on_append [of "CHR ''/''" "str_nat a @ ''.'' @ str_nat b @ ''.'' @ str_nat c @ ''.'' @ str_nat d" "str_nat n"]
    by (simp add: split_on_no_sep str_nat_no_sep not_digit_seps)
qed

lemma length_str_nat_le_2: "(length (str_nat n) = 1 \<or> length (str_nat n) = 2) = (n < 100)"
proof (cases "n < 10")
  case True
  then show ?thesis by (simp add: str_nat_1)
next
  case False
  show ?thesis
  proof (cases "n < 100")
    case True
    with False show ?thesis by (simp add: str_nat_2)
  next
    case False
    then have "3 \<le> length (str_nat n)" by (simp add: str_nat_long)
    with False show ?thesis by simp
  qed
qed

lemma match_cidr_body_token:
  assumes "a < 256" "b < 256" "c < 256" "d < 256"
  shows "match_cidr_body (cidr_token a b c d n)
           = (if n < 100 then Some ((a, b, c, d), str_nat n) else None)"
  using match_ip_str [OF assms] length_str_nat_le_2 [of n]
  by (simp add: match_cidr_body_def split_cidr_token str_nat_digits)

lemma chop_newline_token: "chop_newline (cidr_token a b c d n) = cidr_token a b c d n"
proof -
  have "last (cidr_token a b c d n) = last (str_nat n)"
    by (simp add: cidr_token_def str_nat_nonempty)
  moreover have "last (str_nat n) \<in> set (str_nat n)"
    by (simp add: str_nat_nonempty)
  ultimately have "last (cidr_token a b c d n) \<noteq> CHR 0x0A"
    using str_nat_no_sep [of "CHR 0x0A" n] not_digit_seps by metis
  then show ?thesis by (simp add: chop_newline_def)
qed

lemma match_cidr_token:
  assumes "a < 256" "b < 256" "c < 256" "d < 256"
  shows "match_cidr (cidr_token a b c d n)
           = (if n < 100 then Some ((a, b, c, d), str_nat n) else None)"
  using assms
  by (simp add: match_cidr_def anchored_def match_cidr_body_token chop_newline_token)

lemma py_int_strip_digits: "list_all is_digit s \<Longrightarrow> py_int_strip s = s"
proof -
  assume d: "list_all is_digit s"
  have ns: "\<not> py_int_isspace ch" if "is_digit ch" for ch
    using that by (auto simp: py_int_isspace_def is_digit_def)
  have 1: "dropWhile py_int_isspace s = s"
    using d ns by (cases s) auto
  have "list_all is_digit (rev s)" using d by (simp add: list_all_iff)
  then have 2: "dropWhile py_int_isspace (rev s) = rev s"
    using ns by (cases "rev s") auto
  show ?thesis by (simp add: py_int_strip_def 1 2)
qed

lemma py_int_str_nat: "n < 100 \<Longrightarrow> py_int (str_nat n) = Inr (int n)"
proof -
  assume n: "n < 100"
  have sgn: "char_of (48 + k) \<noteq> CHR ''-''" "char_of (48 + k) \<noteq> CHR ''+''" if "k < 10" for k :: nat
    using that by (simp_all add: char_of_digit_eq)
  show ?thesis
  proof (cases "n < 10")
    case True
    then show ?thesis
      using py_int_strip_digits [OF str_nat_digits, of n]
      by (simp add: py_int_def str_nat_1 py_int_digits_def sgn is_digit_char_of digit_val_char_of)
  next
    case False
    with n have "n div 10 < 10" by simp
    with False n show ?thesis
      using py_int_strip_digits [OF str_nat_digits, of n]
      by (simp add: py_int_def str_nat_2 py_int_digits_def sgn is_digit_char_of digit_val_char_of)
  qed
qed

lemma ALL_ONES_mask: "ALL_ONES = mask 32"
  by (simp add: ALL_ONES_def mask_eq_exp_minus_1)

lemma netmask_bits:
  "N \<le> 32 \<Longrightarrow> bit (ip_int_from_prefix N) k = (32 - N \<le> k \<and> k < 32)"
  by (auto simp: ip_int_from_prefix_def ALL_ONES_mask bit_simps)

lemma hostmask_eq: "N \<le> 32 \<Longrightarrow> ip_int_from_prefix N XOR ALL_ONES = mask (32 - N)"
  by (rule bit_eqI) (auto simp: netmask_bits ALL_ONES_mask bit_simps)

lemma network_address_eq:
  assumes "0 \<le> x" "x < 2 ^ 32" "N \<le> 32"
  shows "x AND ip_int_from_prefix N = x - x mod 2 ^ (32 - N)"
proof -
  have x: "take_bit 32 x = x" using assms by (simp add: take_bit_int_eq_self)
  have "x AND ip_int_from_prefix N = push_bit (32 - N) (drop_bit (32 - N) x)"
  proof (rule bit_eqI)
    fix k
    have "bit x k \<Longrightarrow> k < 32"
      using x by (metis bit_take_bit_iff)
    then show "bit (x AND ip_int_from_prefix N) k = bit (push_bit (32 - N) (drop_bit (32 - N) x)) k"
      using assms by (auto simp: netmask_bits bit_simps)
  qed
  also have "\<dots> = x - x mod 2 ^ (32 - N)"
    by (simp add: push_bit_eq_mult drop_bit_eq_div minus_mod_eq_mult_div)
  finally show ?thesis .
qed

lemma broadcast_address_eq:
  assumes "0 \<le> x" "x < 2 ^ 32" "N \<le> 32"
  shows "(x - x mod 2 ^ (32 - N)) OR (ip_int_from_prefix N XOR ALL_ONES)
           = x - x mod 2 ^ (32 - N) + 2 ^ (32 - N) - 1"
proof -
  have "(x AND ip_int_from_prefix N) AND mask (32 - N) = 0"
    using assms by (intro bit_eqI) (auto simp: netmask_bits bit_simps)
  then have "(x AND ip_int_from_prefix N) OR mask (32 - N)
               = (x AND ip_int_from_prefix N) + mask (32 - N)"
    by (simp add: disjunctive_add_eq_or)
  then show ?thesis
    using assms network_address_eq [OF assms] by (simp add: hostmask_eq mask_eq_exp_minus_1)
qed

lemma ip_int_bounds:
  assumes "a < 256" "b < 256" "c < 256" "d < 256"
  shows "0 \<le> ip_int (a, b, c, d)" "ip_int (a, b, c, d) < 2 ^ 32"
  using assms by (simp_all add: ip_int_def)

lemma ip_network_token:
  assumes "a < 256" "b < 256" "c < 256" "d < 256" "n \<le> 32"
  shows "ip_network (cidr_token a b c d n)
           = Inr (ip_int (a, b, c, d) - ip_int (a, b, c, d) mod 2 ^ (32 - n),
                  ip_int (a, b, c, d) - ip_int (a, b, c, d) mod 2 ^ (32 - n) + 2 ^ (32 - n) - 1)"
proof -
  have n: "n < 100" using assms by simp
  have m: "match_cidr_body (cidr_token a b c d n) = Some ((a, b, c, d), str_nat n)"
    using match_cidr_body_token [of a b c d n] assms n by simp
  show ?thesis
    using assms ip_int_bounds [of a b c d]
    by (simp add: ip_network_def m py_int_str_nat n Let_def network_address_eq
          broadcast_address_eq)
qed

lemma octet_of_digits: "octet_of s = Some k \<Longrightarrow> list_all is_digit s"
  by (auto simp: octet_of_def is_digit_def split: list.splits if_splits)

lemma ip_address_ip_str:
  assumes "0 \<le> k" "k < 2 ^ 32"
  shows "ip_address (ip_str k) = Inr k"
proof -
  define a b c d where "a = nat (k div 16777216 mod 256)" and "b = nat (k div 65536 mod 256)"
    and "c = nat (k div 256 mod 256)" and "d = nat (k mod 256)"
  have lt: "a < 256" "b < 256" "c < 256" "d < 256"
    by (simp_all add: a_def b_def c_def d_def nat_less_iff)
  have m: "match_ip (ip_str k) = Some (a, b, c, d)"
    using match_ip_str [OF lt] by (simp add: ip_str_def a_def b_def c_def d_def)
  define q3 q2 q1 where "q3 = k div 16777216" and "q2 = k div 65536" and "q1 = k div 256"
  define r2 r1 r0 where "r2 = q2 mod 256" and "r1 = q1 mod 256" and "r0 = k mod 256"
  have "q3 = q2 div 256" "q2 = q1 div 256"
    using zdiv_zmult2_eq [of 256 k 65536] zdiv_zmult2_eq [of 256 k 256]
    by (simp_all add: q3_def q2_def q1_def)
  then have e: "q2 = 256 * q3 + r2" "q1 = 256 * q2 + r1" "k = 256 * q1 + r0"
    by (simp_all add: r2_def r1_def r0_def q1_def)
  have "0 \<le> q3" "q3 < 256" using assms by (simp_all add: q3_def)
  then have "int a = q3" "int b = r2" "int c = r1" "int d = r0"
    by (simp_all add: a_def b_def c_def d_def q3_def q2_def q1_def r2_def r1_def r0_def)
  then have "ip_int (a, b, c, d) = 16777216 * q3 + 65536 * r2 + 256 * r1 + r0"
    by (simp add: ip_int_def)
  also have "\<dots> = k" using e by linarith
  finally have "ip_int (a, b, c, d) = k" .
  with m show ?thesis by (simp add: ip_address_def)
qed

lemma cidr_block_below_2_32:
  fixes x :: int
  assumes "0 \<le> x" "x < 2 ^ 32" "n \<le> 32"
  shows "x - x mod 2 ^ (32 - n) + 2 ^ (32 - n) \<le> 2 ^ 32"
proof -
  let ?m = "(2::int) ^ (32 - n)"
  have p: "(2::int) ^ 32 = ?m * 2 ^ n"
    using assms by (simp flip: power_add)
  have le: "?m * (x div ?m) \<le> x"
    using pos_mod_sign [of ?m x] by (simp flip: minus_mod_eq_mult_div)
  have "x div ?m < 2 ^ n"
  proof (rule ccontr)
    assume "\<not> x div ?m < 2 ^ n"
    then have "?m * 2 ^ n \<le> ?m * (x div ?m)"
      by (intro mult_left_mono) simp_all
    with le assms p show False by simp
  qed
  then have "x div ?m + 1 \<le> 2 ^ n" by simp
  then have "?m * (x div ?m + 1) \<le> ?m * 2 ^ n"
    by (intro mult_left_mono) simp_all
  then have "?m * (x div ?m + 1) \<le> 2 ^ 32"
    by (simp only: p)
  then show ?thesis
    by (simp add: minus_mod_eq_mult_div algebra_simps)
qed

lemma cidr_dispatch:
  assumes "a < 256" "b < 256" "c < 256" "d < 256"
  shows "get_targets_from_string (cidr_token a b c d n) = get_target_ips_from_cidr (cidr_token a b c d n)"
proof -
  let ?ip = "str_nat a @ ''.'' @ str_nat b @ ''.'' @ str_nat c @ ''.'' @ str_nat d"
  let ?t = "cidr_token a b c d n"
  have "CHR ''-'' \<notin> set ?t"
    by (simp add: cidr_token_def str_nat_no_sep not_digit_seps)
  then have "match_range_body ?t = None"
    by (simp add: match_range_body_def split_on_no_sep)
  then have r: "match_ip_range ?t = None"
    by (simp add: match_ip_range_def anchored_def chop_newline_token)
  have "\<not> list_all is_digit (str_nat d @ ''/'' @ str_nat n)"
    by (simp add: not_digit_seps)
  then have "octet_of (str_nat d @ ''/'' @ str_nat n) = None"
    using octet_of_digits [of "str_nat d @ ''/'' @ str_nat n"] by (cases "octet_of (str_nat d @ ''/'' @ str_nat n)") auto
  moreover have "split_on CHR ''.'' ?t = [str_nat a, str_nat b, str_nat c, str_nat d @ ''/'' @ str_nat n]"
    by (simp add: cidr_token_def split_on_append split_on_no_sep str_nat_no_sep not_digit_seps)
  ultimately have "match_ip ?t = None"
    by (simp add: match_ip_def split: option.splits)
  then have s: "match_single_ip ?t = None"
    by (simp add: match_single_ip_def anchored_def chop_newline_token)
  show ?thesis
    using assms
    by (simp add: get_targets_from_string_def r s get_target_ips_from_cidr_def match_cidr_token)
qed

lemma cidr_token_example: "cidr_token 10 0 0 0 30 = ''10.0.0.0/30''" "cidr_token 10 0 0 0 7 = ''10.0.0.0/7''"
  by (simp_all add: cidr_token_def str_nat_1 str_nat_2 char_of_eq_iff)

lemma ip_str_examples:
  "ip_str 167772160 = ''10.0.0.0''" "ip_str 167772161 = ''10.0.0.1''"
  "ip_str 167772162 = ''10.0.0.2''" "ip_str 167772163 = ''10.0.0.3''"
  by (simp_all add: ip_str_def str_nat_1 str_nat_2 char_of_eq_iff)

text \<open>
  Claim C6.  For a token \<^verbatim>\<open>A.B.C.D/N\<close> (octets below 256, written in decimal) with
  \<open>8 \<le> N \<le> 32\<close> the enumerator yields the dotted-quad text of every address from the
  network address \<open>x - x mod 2^(32-N)\<close> through the broadcast address, inclusive, in
  ascending order of the 32-bit integers, and raises nothing; read back, the texts are
  exactly those integers.  For every other \<open>N\<close> it yields nothing and ends with
  \<^verbatim>\<open>sys.exit(0)\<close>.  \<^verbatim>\<open>_get_targets_from_string\<close> hands such a token to
  \<^verbatim>\<open>_get_target_ips_from_cidr\<close>.  \<^verbatim>\<open>10.0.0.0/30\<close> yields 10.0.0.0, 10.0.0.1, 10.0.0.2,
  10.0.0.3 in that order.
\<close>

theorem cidr_yields_network_through_broadcast:
  assumes "a < 256" "b < 256" "c < 256" "d < 256"
  shows "get_target_ips_from_cidr (cidr_token a b c d n)
           = (if 8 \<le> n \<and> n \<le> 32
              then (map ip_str [ip_int (a, b, c, d) - ip_int (a, b, c, d) mod 2 ^ (32 - n) ..
                                ip_int (a, b, c, d) - ip_int (a, b, c, d) mod 2 ^ (32 - n)
                                  + 2 ^ (32 - n) - 1], None)
              else ([], Some (SystemExit 0)))
         \<and> (8 \<le> n \<and> n \<le> 32 \<longrightarrow>
              map ip_address (fst (get_target_ips_from_cidr (cidr_token a b c d n)))
                = map Inr [ip_int (a, b, c, d) - ip_int (a, b, c, d) mod 2 ^ (32 - n) ..
                           ip_int (a, b, c, d) - ip_int (a, b, c, d) mod 2 ^ (32 - n)
                             + 2 ^ (32 - n) - 1])
         \<and> get_targets_from_string (cidr_token a b c d n)
              = get_target_ips_from_cidr (cidr_token a b c d n)
         \<and> get_target_ips_from_cidr ''10.0.0.0/30''
              = ([''10.0.0.0'', ''10.0.0.1'', ''10.0.0.2'', ''10.0.0.3''], None)"
proof -
  let ?x = "ip_int (a, b, c, d)"
  let ?net = "?x - ?x mod 2 ^ (32 - n)"
  let ?bc = "?net + 2 ^ (32 - n) - 1"
  have gen: "get_target_ips_from_cidr (cidr_token a' b' c' d' n')
           = (if 8 \<le> n' \<and> n' \<le> 32
              then (map ip_str [ip_int (a', b', c', d') - ip_int (a', b', c', d') mod 2 ^ (32 - n') ..
                                ip_int (a', b', c', d') - ip_int (a', b', c', d') mod 2 ^ (32 - n')
                                  + 2 ^ (32 - n') - 1], None)
              else ([], Some (SystemExit 0)))"
    if "a' < 256" "b' < 256" "c' < 256" "d' < 256" for a' b' c' d' n'
  proof (cases "n' < 100")
    case False
    then show ?thesis
      using that by (simp add: get_target_ips_from_cidr_def match_cidr_token)
  next
    case True
    show ?thesis
    proof (cases "8 \<le> n' \<and> n' \<le> 32")
      case False
      then show ?thesis
        using that True by (auto simp: get_target_ips_from_cidr_def match_cidr_token py_int_str_nat)
    next
      case True
      then show ?thesis
        using that \<open>n' < 100\<close> ip_network_token [of a' b' c' d' n']
        by (simp add: get_target_ips_from_cidr_def match_cidr_token py_int_str_nat)
    qed
  qed
  have 1: "get_target_ips_from_cidr (cidr_token a b c d n)
           = (if 8 \<le> n \<and> n \<le> 32 then (map ip_str [?net..?bc], None) else ([], Some (SystemExit 0)))"
    using gen [OF assms] .
  have 2: "map ip_address (fst (get_target_ips_from_cidr (cidr_token a b c d n))) = map Inr [?net..?bc]"
    if n: "8 \<le> n \<and> n \<le> 32"
  proof -
    have x: "0 \<le> ?x" "?x < 2 ^ 32" using ip_int_bounds [OF assms] by simp_all
    have lo: "0 \<le> ?net"
      using x zmod_le_nonneg_dividend [of ?x "2 ^ (32 - n)"] by simp
    have hi: "?bc < 2 ^ 32"
      using cidr_block_below_2_32 [of ?x n] x n by simp
    have "ip_address (ip_str k) = Inr k" if "k \<in> set [?net..?bc]" for k
      using that lo hi by (intro ip_address_ip_str) auto
    then show ?thesis
      using n by (simp add: 1)
  qed
  have 3: "get_target_ips_from_cidr ''10.0.0.0/30''
              = ([''10.0.0.0'', ''10.0.0.1'', ''10.0.0.2'', ''10.0.0.3''], None)"
    using gen [of 10 0 0 0 30]
    by (simp add: cidr_token_example ip_int_def ip_str_examples)
  show ?thesis
    using 1 2 3 cidr_dispatch [OF assms] by blast
qed

theorem cidr_enumeration_witness:
  "(10::nat) < 256 \<and> (0::nat) < 256
   \<and> get_target_ips_from_cidr ''10.0.0.0/30''
       = ([''10.0.0.0'', ''10.0.0.1'', ''10.0.0.2'', ''10.0.0.3''], None)
   \<and> get_target_ips_from_cidr ''10.0.0.0/7'' = ([], Some (SystemExit 0))
   \<and> get_targets_from_string ''10.0.0.0/7'' = ([], Some (SystemExit 0))"
  using cidr_yields_network_through_broadcast [of 10 0 0 0 30]
    cidr_yields_network_through_broadcast [of 10 0 0 0 7]
  by (simp add: cidr_token_example)

subsection \<open>The constructed scanner\<close>

lemma example_scanner_init: "ScannerTCP_init ''linux'' 0 = Inr example_scanner"
  by (simp add: example_scanner_def ScannerTCP_init_def ProbeStateContainer_new_def
        container_set_poll_type_def set_inter_packet_interval_def)

lemma example_scanner_fields:
  "recv_interval example_scanner = 1 / 10" "blocklist example_scanner = []"
  "packet_overhead example_scanner = 74" "bytes_sent example_scanner = 0"
  "probes_sent_count example_scanner = 0" "max_probes example_scanner = 3"
  by (simp_all add: example_scanner_def ScannerTCP_init_def ProbeStateContainer_new_def
        container_set_poll_type_def set_inter_packet_interval_def)

lemma ScannerTCP_init_recv_interval:
  "ScannerTCP_init platform now = Inr s \<Longrightarrow> recv_interval s = 1 / 10"
  by (auto simp: ScannerTCP_init_def set_inter_packet_interval_def split: sum.splits if_splits)

subsection \<open>The block list\<close>




lemma is_odigit_zero: "is_odigit (char_of (48 :: nat))"
  by (simp add: is_odigit_def)












subsection \<open>Pacing: \<^verbatim>\<open>wait_for_quotas\<close>\<close>

lemma delete_socket_same_queue: "delete_socket r c = Inr c' \<Longrightarrow> same_queue c c'"
  by (auto simp: delete_socket_def same_queue_def upd_obj_def poller_unregister_def py_remove_def
        Let_def split: option.splits sum.splits if_splits)

lemma schedule_delete_same_queue: "schedule_delete r c = Inr c' \<Longrightarrow> same_queue c c'"
  by (auto simp: schedule_delete_def upd_obj_def same_queue_def split: sum.splits
        dest!: delete_socket_same_queue)

lemma same_queue_refl: "same_queue c c"
  by (simp add: same_queue_def)

lemma same_queue_trans: "same_queue a b \<Longrightarrow> same_queue b c \<Longrightarrow> same_queue a c"
  by (simp add: same_queue_def)

lemma same_settings_refl: "same_settings s s"
  by (simp add: same_settings_def)

lemma same_settings_trans: "same_settings a b \<Longrightarrow> same_settings b c \<Longrightarrow> same_settings a c"
  by (simp add: same_settings_def)

lemma classify_event_frame:
  "classify_event ev s = Inr s' \<Longrightarrow>
     same_settings s s' \<and> probe_states_container s' = probe_states_container s"
  by (auto simp: classify_event_def same_settings_def Let_def split: if_splits)

lemma receive_loop_frame:
  "receive_loop evs s = Inr s' \<Longrightarrow>
     same_settings s s' \<and> same_queue (probe_states_container s) (probe_states_container s')"
proof (induction evs arbitrary: s)
  case Nil
  then show ?case by (simp add: same_settings_refl same_queue_refl)
next
  case (Cons fe evs)
  obtain fd ev where fe: "fe = (fd, ev)" by (cases fe)
  let ?s1 = "s\<lparr>poll_result_count := poll_result_count s + 1\<rparr>"
  have s1: "same_settings s ?s1" "probe_states_container ?s1 = probe_states_container s"
    by (simp_all add: same_settings_def)
  from Cons.prems fe obtain r where r: "probe_states_by_fd (probe_states_container s) fd = Some r"
    by (auto simp: Let_def split: option.splits)
  show ?case
  proof (cases "deleted (objs (probe_states_container s) r)")
    case True
    let ?s2 = "?s1\<lparr>poll_deleted_packet_count := poll_deleted_packet_count ?s1 + 1\<rparr>"
    from Cons.prems fe r True have "receive_loop evs ?s2 = Inr s'"
      by (simp add: Let_def)
    from Cons.IH [OF this] show ?thesis
      by (simp add: same_settings_def)
  next
    case False
    from Cons.prems fe r False obtain s2 c where
      cl: "classify_event ev ?s1 = Inr s2" and
      sd: "schedule_delete r (probe_states_container s2) = Inr c" and
      rest: "receive_loop evs (s2\<lparr>probe_states_container := c\<rparr>) = Inr s'"
      by (auto simp: Let_def split: sum.splits)
    from classify_event_frame [OF cl] have f2: "same_settings ?s1 s2"
      "probe_states_container s2 = probe_states_container s" by simp_all
    from schedule_delete_same_queue [OF sd] f2 have q: "same_queue (probe_states_container s) c"
      by simp
    from Cons.IH [OF rest] have
      "same_settings (s2\<lparr>probe_states_container := c\<rparr>) s'" "same_queue c (probe_states_container s')"
      by simp_all
    with f2 q s1 show ?thesis
      by (auto simp: same_settings_def intro: same_queue_trans)
  qed
qed

lemma receive_packets_frame:
  "receive_packets sl w s = Inr (b, w', s') \<Longrightarrow>
     same_settings s s' \<and> same_queue (probe_states_container s) (probe_states_container s')"
  by (auto simp: receive_packets_def poller_poll_def same_settings_refl same_queue_refl
        split: if_splits sum.splits prod.splits dest: receive_loop_frame)

lemma update_stats_frame:
  "update_stats reason s = Inr s' \<Longrightarrow>
     same_settings s s' \<and> probe_states_container s' = probe_states_container s"
  by (auto simp: update_stats_def same_settings_def split: option.splits)

lemma wait_and_receive_frame:
  assumes "wait_and_receive reason wt w s = Inr p"
  shows "\<exists>w' s'. p = Sleeping w' s' \<and> same_settings s s'
           \<and> same_queue (probe_states_container s) (probe_states_container s')"
proof -
  from assms obtain s1 where us: "update_stats reason s = Inr s1"
    by (auto simp: wait_and_receive_def split: sum.splits)
  note f1 = update_stats_frame [OF us]
  show ?thesis
  proof (cases "max (inter_packet_interval s1) wt > recv_interval s1")
    case True
    with assms us obtain b w1 s2 where
      rp: "receive_packets (get_socket_list s1) w s1 = Inr (b, w1, s2)" and
      p: "p = Sleeping w1 (s2\<lparr>sleep_total_raw := sleep_total_raw s2 + recv_interval s2\<rparr>)"
      by (auto simp: wait_and_receive_def Let_def split: sum.splits if_splits)
    from receive_packets_frame [OF rp] f1 p show ?thesis
      by (auto simp: same_settings_def)
  next
    case False
    with assms us have
      "p = Sleeping w (s1\<lparr>sleep_total_raw := sleep_total_raw s1 + max (inter_packet_interval s1) wt\<rparr>)"
      by (auto simp: wait_and_receive_def Let_def split: sum.splits if_splits)
    with f1 show ?thesis
      by (auto simp: same_settings_def same_queue_refl)
  qed
qed


lemma quota_same_settings:
  assumes "same_settings s s'"
  shows "get_available_bandwidth_quota_packets w s' = get_available_bandwidth_quota_packets w s"
    and "get_available_packet_rate_quota_packets w s' = get_available_packet_rate_quota_packets w s"
proof -
  have b: "bytes_sent_target w s' = bytes_sent_target w s"
    using assms by (simp add: bytes_sent_target_def same_settings_def split: option.splits)
  have p: "probes_sent_target w s' = probes_sent_target w s"
    using assms by (simp add: probes_sent_target_def same_settings_def split: option.splits)
  show "get_available_bandwidth_quota_packets w s' = get_available_bandwidth_quota_packets w s"
    using assms by (simp add: get_available_bandwidth_quota_packets_def b same_settings_def Let_def split: sum.splits)
  show "get_available_packet_rate_quota_packets w s' = get_available_packet_rate_quota_packets w s"
    using assms by (simp add: get_available_packet_rate_quota_packets_def p same_settings_def Let_def split: sum.splits)
qed

lemma peekleft_Some: "peekleft c = Inr (Some r) \<Longrightarrow> \<exists>rest. probe_states c = r # rest"
  by (auto simp: peekleft_def deque_first_def split: if_splits list.splits)

lemma wait_for_quotas_pass_returned:
  assumes "wait_for_quotas_pass w s = Inr (Returned v w' s')"
  shows "0 < bandwidth_quota_packets_left v \<and> 0 < packet_quota_packets_left v
     \<and> same_settings s s' \<and> probe_states_container s' = probe_states_container s
     \<and> (\<exists>w1 w2. get_available_bandwidth_quota_packets w s = Inr (bandwidth_quota_packets_left v, w1)
            \<and> get_available_packet_rate_quota_packets w1 s = Inr (packet_quota_packets_left v, w2))
     \<and> (count (probe_states_container s) \<le> 0
        \<or> (\<exists>first rest now. probe_states (probe_states_container s) = first # rest
              \<and> checked_now v = Some now
              \<and> (probe_sent_time (objs (probe_states_container s) first) = None
                 \<or> (\<exists>t ipi. probe_sent_time (objs (probe_states_container s) first) = Some t
                       \<and> inter_packet_interval_per_host s = Some ipi \<and> t + ipi < now))))"
proof -
  from assms obtain bw w1 where bw: "get_available_bandwidth_quota_packets w s = Inr (bw, w1)"
    by (auto simp: wait_for_quotas_pass_def split: sum.splits)
  have bpos: "0 < bw"
    using assms bw wait_and_receive_frame
    by (fastforce simp: wait_for_quotas_pass_def split: if_splits)
  from assms bw bpos obtain pk w2 where
    pk: "get_available_packet_rate_quota_packets w1 s = Inr (pk, w2)"
    by (auto simp: wait_for_quotas_pass_def split: sum.splits)
  have ppos: "0 < pk"
    using assms bw bpos pk wait_and_receive_frame
    by (fastforce simp: wait_for_quotas_pass_def split: if_splits)
  show ?thesis
  proof (cases "get_queue_length s > 0")
    case False
    with assms bw bpos pk ppos show ?thesis
      by (auto simp: wait_for_quotas_pass_def get_queue_length_def same_settings_def)
  next
    case True
    with assms bw bpos pk ppos obtain first where
      pf: "queue_peek_first s = Inr (Some first)"
      by (auto simp: wait_for_quotas_pass_def split: sum.splits option.splits)
    then obtain rest where q: "probe_states (probe_states_container s) = first # rest"
      using peekleft_Some by (auto simp: queue_peek_first_def)
    show ?thesis
    proof (cases "probe_sent_time (objs (probe_states_container s) first)")
      case None
      with assms bw bpos pk ppos True pf q show ?thesis
        by (auto simp: wait_for_quotas_pass_def time_time_def same_settings_refl)
    next
      case (Some t)
      with assms bw bpos pk ppos True pf obtain ipi where
        ipi: "inter_packet_interval_per_host s = Some ipi"
        by (auto simp: wait_for_quotas_pass_def time_time_def split: option.splits)
      have "clock w2 (clock_reads w2) > t + ipi"
        using assms bw bpos pk ppos True pf Some ipi wait_and_receive_frame
        by (fastforce simp: wait_for_quotas_pass_def time_time_def split: if_splits)
      with assms bw bpos pk ppos True pf q Some ipi show ?thesis
        by (auto simp: wait_for_quotas_pass_def time_time_def same_settings_refl)
    qed
  qed
qed

lemma wait_for_quotas_pass_sleeping:
  assumes "wait_for_quotas_pass w s = Inr (Sleeping w' s')"
  shows "same_settings s s' \<and> same_queue (probe_states_container s) (probe_states_container s')"
  using assms wait_and_receive_frame
  by (fastforce simp: wait_for_quotas_pass_def time_time_def
        split: sum.splits if_splits option.splits prod.splits)



lemma wait_for_quotas_partial:
  assumes "wait_for_quotas w s = Some y"
  shows "(\<forall>v w' s'. y = Inr (v, w', s') \<longrightarrow>
        same_settings s s' \<and> same_queue (probe_states_container s) (probe_states_container s')
        \<and> 0 < bandwidth_quota_packets_left v \<and> 0 < packet_quota_packets_left v
        \<and> (\<exists>w1 w2 w3. get_available_bandwidth_quota_packets w1 s' = Inr (bandwidth_quota_packets_left v, w2)
              \<and> get_available_packet_rate_quota_packets w2 s' = Inr (packet_quota_packets_left v, w3))
        \<and> (count (probe_states_container s') \<le> 0
           \<or> (\<exists>first rest now. probe_states (probe_states_container s') = first # rest
                 \<and> checked_now v = Some now
                 \<and> (probe_sent_time (objs (probe_states_container s') first) = None
                    \<or> (\<exists>t ipi. probe_sent_time (objs (probe_states_container s') first) = Some t
                          \<and> inter_packet_interval_per_host s' = Some ipi \<and> t + ipi < now)))))"
proof (rule wait_for_quotas.raw_induct [OF _ assms], goal_cases)
  case (1 f w s y)
  show ?case
  proof (intro allI impI)
    fix v w' s'
    assume y: "y = Inr (v, w', s')"
    from 1(2) y obtain p where p: "wait_for_quotas_pass w s = Inr p"
      by (auto split: sum.splits)
    show "same_settings s s' \<and> same_queue (probe_states_container s) (probe_states_container s')
        \<and> 0 < bandwidth_quota_packets_left v \<and> 0 < packet_quota_packets_left v
        \<and> (\<exists>w1 w2 w3. get_available_bandwidth_quota_packets w1 s' = Inr (bandwidth_quota_packets_left v, w2)
              \<and> get_available_packet_rate_quota_packets w2 s' = Inr (packet_quota_packets_left v, w3))
        \<and> (count (probe_states_container s') \<le> 0
           \<or> (\<exists>first rest now. probe_states (probe_states_container s') = first # rest
                 \<and> checked_now v = Some now
                 \<and> (probe_sent_time (objs (probe_states_container s') first) = None
                    \<or> (\<exists>t ipi. probe_sent_time (objs (probe_states_container s') first) = Some t
                          \<and> inter_packet_interval_per_host s' = Some ipi \<and> t + ipi < now))))"
    proof (cases p)
      case (Returned v1 w1 s1)
      with 1(2) p y have eq: "v1 = v" "w1 = w'" "s1 = s'" by simp_all
      from wait_for_quotas_pass_returned [OF p [unfolded Returned eq]]
      have r: "0 < bandwidth_quota_packets_left v" "0 < packet_quota_packets_left v"
        "same_settings s s'" "probe_states_container s' = probe_states_container s"
        "\<exists>w1 w2. get_available_bandwidth_quota_packets w s = Inr (bandwidth_quota_packets_left v, w1)
            \<and> get_available_packet_rate_quota_packets w1 s = Inr (packet_quota_packets_left v, w2)"
        "count (probe_states_container s) \<le> 0
        \<or> (\<exists>first rest now. probe_states (probe_states_container s) = first # rest
              \<and> checked_now v = Some now
              \<and> (probe_sent_time (objs (probe_states_container s) first) = None
                 \<or> (\<exists>t ipi. probe_sent_time (objs (probe_states_container s) first) = Some t
                       \<and> inter_packet_interval_per_host s = Some ipi \<and> t + ipi < now)))"
        by blast+
      have ipi: "inter_packet_interval_per_host s' = inter_packet_interval_per_host s"
        using r(3) by (simp add: same_settings_def)
      from r(5) have "\<exists>w1 w2 w3. get_available_bandwidth_quota_packets w1 s' = Inr (bandwidth_quota_packets_left v, w2)
              \<and> get_available_packet_rate_quota_packets w2 s' = Inr (packet_quota_packets_left v, w3)"
        unfolding quota_same_settings [OF r(3)] by blast
      with r ipi show ?thesis
        by (simp add: same_queue_refl)
    next
      case (Sleeping w1 s1)
      have fy: "f w1 s1 = Some y" using 1(2) p Sleeping by simp
      note ih0 = 1(1) [OF fy, rule_format, OF y]
      have ih: "same_settings s1 s'" "same_queue (probe_states_container s1) (probe_states_container s')"
        using ih0 by blast+
      from wait_for_quotas_pass_sleeping [OF p [unfolded Sleeping]] ih(1,2)
      have "same_settings s s'" "same_queue (probe_states_container s) (probe_states_container s')"
        by (blast intro: same_settings_trans same_queue_trans)+
      with ih0 show ?thesis by blast
    qed
  qed
qed



lemmas example_scanner_unfold =
  example_scanner_def ScannerTCP_init_def ProbeStateContainer_new_def
  container_set_poll_type_def set_inter_packet_interval_def

lemmas wait_for_quotas_unfold =
  wait_for_quotas_pass_def get_available_bandwidth_quota_packets_def bytes_sent_target_def
  get_available_packet_rate_quota_packets_def probes_sent_target_def get_queue_length_def
  queue_peek_first_def peekleft_def deque_first_def time_time_def py_int_of_float_def





subsection \<open>The receive interval and pacing\<close>

lemma classify_event_sleep_total:
  "classify_event ev s = Inr s' \<Longrightarrow> sleep_total_raw s' = sleep_total_raw s"
  by (auto simp: classify_event_def Let_def split: if_splits)

lemma receive_loop_sleep_total:
  "receive_loop evs s = Inr s' \<Longrightarrow> sleep_total_raw s' = sleep_total_raw s"
proof (induction evs arbitrary: s)
  case Nil
  then show ?case by simp
next
  case (Cons fe evs)
  obtain fd ev where fe: "fe = (fd, ev)" by (cases fe)
  let ?s1 = "s\<lparr>poll_result_count := poll_result_count s + 1\<rparr>"
  from Cons.prems fe obtain r where r: "probe_states_by_fd (probe_states_container s) fd = Some r"
    by (auto simp: Let_def split: option.splits)
  show ?case
  proof (cases "deleted (objs (probe_states_container s) r)")
    case True
    let ?s2 = "?s1\<lparr>poll_deleted_packet_count := poll_deleted_packet_count ?s1 + 1\<rparr>"
    from Cons.prems fe r True have "receive_loop evs ?s2 = Inr s'"
      by (simp add: Let_def)
    from Cons.IH [OF this] show ?thesis by simp
  next
    case False
    from Cons.prems fe r False obtain s2 c where
      cl: "classify_event ev ?s1 = Inr s2" and
      rest: "receive_loop evs (s2\<lparr>probe_states_container := c\<rparr>) = Inr s'"
      by (auto simp: Let_def split: sum.splits)
    from Cons.IH [OF rest] classify_event_sleep_total [OF cl] show ?thesis by simp
  qed
qed

lemma receive_packets_sleep_total:
  "receive_packets sl w s = Inr (b, w', s') \<Longrightarrow>
     sleep_total_raw s' = sleep_total_raw s
     \<and> poll_calls w' = poll_calls w + (if sl = [] then 0 else 1)"
  by (auto simp: receive_packets_def poller_poll_def
        split: if_splits sum.splits prod.splits dest: receive_loop_sleep_total)

lemma update_stats_sleep_total:
  "update_stats reason s = Inr s' \<Longrightarrow>
     sleep_total_raw s' = sleep_total_raw s \<and> recv_interval s' = recv_interval s
     \<and> inter_packet_interval s' = inter_packet_interval s
     \<and> probe_states_container s' = probe_states_container s"
  by (auto simp: update_stats_def split: option.splits)

lemma wait_and_receive_sleep:
  assumes "wait_and_receive reason wt w s = Inr (Sleeping w' s')"
  shows "if recv_interval s < max (inter_packet_interval s) wt
         then sleep_total_raw s' = sleep_total_raw s + recv_interval s
              \<and> poll_calls w' = poll_calls w + (if get_socket_list s = [] then 0 else 1)
         else sleep_total_raw s' = sleep_total_raw s + max (inter_packet_interval s) wt \<and> w' = w"
proof -
  from assms obtain s1 where us: "update_stats reason s = Inr s1"
    by (auto simp: wait_and_receive_def split: sum.splits)
  note f = update_stats_sleep_total [OF us]
  show ?thesis
  proof (cases "recv_interval s < max (inter_packet_interval s) wt")
    case True
    with assms us f obtain b s2 where rp: "receive_packets (get_socket_list s1) w' s1 = Inr (b, w', s2)
        \<or> receive_packets (get_socket_list s1) w s1 = Inr (b, w', s2)"
      and rp': "receive_packets (get_socket_list s1) w s1 = Inr (b, w', s2)"
      and s': "s' = s2\<lparr>sleep_total_raw := sleep_total_raw s2 + recv_interval s2\<rparr>"
      by (auto simp: wait_and_receive_def Let_def split: sum.splits if_splits)
    from receive_packets_sleep_total [OF rp'] receive_packets_frame [OF rp'] f s' True
    show ?thesis
      by (simp add: same_settings_def get_socket_list_def)
  next
    case False
    with assms us f show ?thesis
      by (auto simp: wait_and_receive_def Let_def split: sum.splits if_splits)
  qed
qed

lemma wait_and_receive_sleep_bound:
  assumes "wait_and_receive reason wt w s = Inr (Sleeping w' s')"
  shows "sleep_total_raw s' \<le> sleep_total_raw s + recv_interval s
         \<and> poll_calls w' \<le> poll_calls w + 1"
  using wait_and_receive_sleep [OF assms]
  by (auto split: if_splits)

lemma wait_for_quotas_pass_sleep_bound:
  assumes "wait_for_quotas_pass w s = Inr (Sleeping w' s')"
  shows "sleep_total_raw s' \<le> sleep_total_raw s + recv_interval s"
  using assms wait_and_receive_sleep_bound
  by (fastforce simp: wait_for_quotas_pass_def time_time_def
        split: sum.splits if_splits option.splits prod.splits)

text \<open>
  Claim C10, as the code has it.  \<^verbatim>\<open>set_rtt(rtt)\<close> sets the per-host interval to \<open>rtt\<close>;
  when \<open>rtt < 4 * recv_interval\<close> it lowers \<^verbatim>\<open>recv_interval\<close> to \<open>rtt / 4\<close> and otherwise
  leaves it; either way the receive interval is at most a quarter of the round-trip time
  afterwards (\<open>rtt\<close> a number).  A freshly constructed scanner has
  \<^verbatim>\<open>recv_interval = 0.1\<close>, so there the threshold is \<open>rtt < 0.4\<close>.  For pacing this bounds
  the sleeps, not the time between receive passes: a pass of \<^verbatim>\<open>wait_for_quotas\<close> that
  sleeps adds at most \<open>rtt / 4\<close> to the time slept; it runs a receive pass, and then sleeps
  for \<^verbatim>\<open>recv_interval\<close>, only when its wait (the larger of \<^verbatim>\<open>inter_packet_interval\<close> and
  the time until the left-most record is due) is longer than \<^verbatim>\<open>recv_interval\<close>, and
  otherwise sleeps for the wait without receiving.
\<close>

theorem set_rtt_quarter_interval:
  "inter_packet_interval_per_host (set_rtt rtt s) = Some rtt
   \<and> (rtt < 4 * recv_interval s \<longrightarrow> recv_interval (set_rtt rtt s) = rtt / 4)
   \<and> (\<not> rtt < 4 * recv_interval s \<longrightarrow> recv_interval (set_rtt rtt s) = recv_interval s)
   \<and> recv_interval (set_rtt rtt s) \<le> rtt / 4
   \<and> (\<forall>platform now s0. ScannerTCP_init platform now = Inr s0 \<longrightarrow>
         recv_interval s0 = 1 / 10
         \<and> (rtt < 4 / 10 \<longrightarrow> recv_interval (set_rtt rtt s0) = rtt / 4))
   \<and> (\<forall>w w' s'. wait_for_quotas_pass w (set_rtt rtt s) = Inr (Sleeping w' s') \<longrightarrow>
         sleep_total_raw s' \<le> sleep_total_raw (set_rtt rtt s) + rtt / 4)
   \<and> (\<forall>reason wt w w' s'.
         wait_and_receive reason wt w (set_rtt rtt s) = Inr (Sleeping w' s') \<longrightarrow>
         (if recv_interval (set_rtt rtt s) < max (inter_packet_interval (set_rtt rtt s)) wt
          then sleep_total_raw s' = sleep_total_raw (set_rtt rtt s) + recv_interval (set_rtt rtt s)
               \<and> poll_calls w' = poll_calls w + (if get_socket_list (set_rtt rtt s) = [] then 0 else 1)
          else sleep_total_raw s'
                 = sleep_total_raw (set_rtt rtt s) + max (inter_packet_interval (set_rtt rtt s)) wt
               \<and> w' = w))"
proof -
  have a: "recv_interval s0 = 1 / 10 \<and> (rtt < 4 / 10 \<longrightarrow> recv_interval (set_rtt rtt s0) = rtt / 4)"
    if "ScannerTCP_init platform now = Inr s0" for platform now s0
    using ScannerTCP_init_recv_interval [OF that] by (simp add: set_rtt_def)
  have q: "recv_interval (set_rtt rtt s) \<le> rtt / 4"
    by (simp add: set_rtt_def Let_def)
  have b: "sleep_total_raw s' \<le> sleep_total_raw (set_rtt rtt s) + rtt / 4"
    if "wait_for_quotas_pass w (set_rtt rtt s) = Inr (Sleeping w' s')" for w w' s'
    using wait_for_quotas_pass_sleep_bound [OF that] q by simp
  have c: "if recv_interval (set_rtt rtt s) < max (inter_packet_interval (set_rtt rtt s)) wt
          then sleep_total_raw s' = sleep_total_raw (set_rtt rtt s) + recv_interval (set_rtt rtt s)
               \<and> poll_calls w' = poll_calls w + (if get_socket_list (set_rtt rtt s) = [] then 0 else 1)
          else sleep_total_raw s'
                 = sleep_total_raw (set_rtt rtt s) + max (inter_packet_interval (set_rtt rtt s)) wt
               \<and> w' = w"
    if "wait_and_receive reason wt w (set_rtt rtt s) = Inr (Sleeping w' s')" for reason wt w w' s'
    using that by (rule wait_and_receive_sleep)
  have "inter_packet_interval_per_host (set_rtt rtt s) = Some rtt
   \<and> (rtt < 4 * recv_interval s \<longrightarrow> recv_interval (set_rtt rtt s) = rtt / 4)
   \<and> (\<not> rtt < 4 * recv_interval s \<longrightarrow> recv_interval (set_rtt rtt s) = recv_interval s)"
    by (auto simp: set_rtt_def Let_def)
  with a q b c show ?thesis
    by blast
qed

lemma floor_examples_waiting:
  "\<lfloor>146104 / 37 :: rat\<rfloor> = 3948" "\<lfloor>147064 / 37 :: rat\<rfloor> = 3974"
  by (rule floor_unique; simp)+

lemma waiting_scanner_fields:
  "recv_interval waiting_scanner = 1 / 10" "sleep_total_raw waiting_scanner = 0"
  "inter_packet_interval waiting_scanner = 37 / 2000"
  "get_socket_list waiting_scanner = [5]"
  by (simp_all add: waiting_scanner_def example_scanner_unfold get_socket_list_def)

lemma waiting_pass_short:
  "wait_for_quotas_pass (stepping_world (203 / 20) (1021 / 100)) (set_rtt (1 / 5) waiting_scanner)
     = Inr (Sleeping ((stepping_world (203 / 20) (1021 / 100))\<lparr>clock_reads := 2\<rparr>)
              ((set_rtt (1 / 5) waiting_scanner)
                 \<lparr>sleep_reasons := [''packet_quota'' \<mapsto> 0, ''bandwidth_quota'' \<mapsto> 0,
                                    ''port_states'' \<mapsto> 1],
                  sleep_total_raw := 1 / 20\<rparr>))"
  by (simp add: wait_for_quotas_unfold waiting_scanner_def stepping_world_def still_world_def
        example_scanner_unfold example_record_def floor_examples_waiting set_rtt_def
        wait_and_receive_def update_stats_def sleep_reason_def time_sleep_def fun_upd_twist
        Let_def)

lemma waiting_receive_long:
  "wait_and_receive (Some ''port_states'') (1 / 10) (stepping_world (203 / 20) (1021 / 100))
       (set_rtt (1 / 5) waiting_scanner)
     = Inr (Sleeping ((stepping_world (203 / 20) (1021 / 100))\<lparr>poll_calls := 1\<rparr>)
              ((set_rtt (1 / 5) waiting_scanner)
                 \<lparr>sleep_reasons := [''packet_quota'' \<mapsto> 0, ''bandwidth_quota'' \<mapsto> 0,
                                    ''port_states'' \<mapsto> 1],
                  sleep_total_raw := 1 / 20\<rparr>))"
  by (simp add: waiting_scanner_def stepping_world_def still_world_def
        example_scanner_unfold example_record_def set_rtt_def get_socket_list_def
        wait_and_receive_def update_stats_def time_sleep_def fun_upd_twist
        receive_packets_def poller_poll_def Let_def)

theorem set_rtt_witness:
  "ScannerTCP_init ''linux'' 0 = Inr example_scanner
   \<and> (1/5 :: rat) < 4 * recv_interval example_scanner
   \<and> recv_interval (set_rtt (1/5) example_scanner) = 1 / 20
   \<and> inter_packet_interval_per_host (set_rtt (1/5) example_scanner) = Some (1/5)
   \<and> \<not> (1/2 :: rat) < 4 * recv_interval example_scanner
   \<and> recv_interval (set_rtt (1/2) example_scanner) = 1 / 10
   \<and> (\<exists>w' s'. wait_for_quotas_pass (stepping_world (203 / 20) (1021 / 100))
                  (set_rtt (1 / 5) waiting_scanner) = Inr (Sleeping w' s')
         \<and> sleep_total_raw s' = 1 / 20)
   \<and> (\<exists>w' s'. wait_and_receive (Some ''port_states'') (1 / 10)
                  (stepping_world (203 / 20) (1021 / 100))
                  (set_rtt (1 / 5) waiting_scanner) = Inr (Sleeping w' s')
         \<and> poll_calls w' = 1 \<and> sleep_total_raw s' = 1 / 20)"
proof -
  note a = set_rtt_quarter_interval [of "1/5" example_scanner]
  note b = set_rtt_quarter_interval [of "1/2" example_scanner]
  note c = set_rtt_quarter_interval [of "1/5" waiting_scanner]
  have 1: "ScannerTCP_init ''linux'' 0 = Inr example_scanner
   \<and> (1/5 :: rat) < 4 * recv_interval example_scanner
   \<and> recv_interval (set_rtt (1/5) example_scanner) = 1 / 20
   \<and> inter_packet_interval_per_host (set_rtt (1/5) example_scanner) = Some (1/5)
   \<and> \<not> (1/2 :: rat) < 4 * recv_interval example_scanner
   \<and> recv_interval (set_rtt (1/2) example_scanner) = 1 / 10"
    using a b example_scanner_init by (simp add: example_scanner_fields)
  from c waiting_pass_short
  have 2: "sleep_total_raw ((set_rtt (1 / 5) waiting_scanner)
                 \<lparr>sleep_reasons := [''packet_quota'' \<mapsto> 0, ''bandwidth_quota'' \<mapsto> 0,
                                    ''port_states'' \<mapsto> 1],
                  sleep_total_raw := 1 / 20\<rparr>)
          \<le> sleep_total_raw (set_rtt (1 / 5) waiting_scanner) + (1 / 5) / 4"
    by blast
  from c have c7: "\<forall>reason wt w w' s'.
         wait_and_receive reason wt w (set_rtt (1 / 5) waiting_scanner) = Inr (Sleeping w' s') \<longrightarrow>
         (if recv_interval (set_rtt (1 / 5) waiting_scanner)
               < max (inter_packet_interval (set_rtt (1 / 5) waiting_scanner)) wt
          then sleep_total_raw s' = sleep_total_raw (set_rtt (1 / 5) waiting_scanner)
                                    + recv_interval (set_rtt (1 / 5) waiting_scanner)
               \<and> poll_calls w' = poll_calls w
                     + (if get_socket_list (set_rtt (1 / 5) waiting_scanner) = [] then 0 else 1)
          else sleep_total_raw s'
                 = sleep_total_raw (set_rtt (1 / 5) waiting_scanner)
                   + max (inter_packet_interval (set_rtt (1 / 5) waiting_scanner)) wt
               \<and> w' = w)"
    by blast
  note 3 = c7 [rule_format, OF waiting_receive_long]
  from 1 2 3 waiting_pass_short waiting_receive_long show ?thesis
    by simp
qed

text \<open>Against C10 as stated (receive passes during pacing happen at least every quarter of
  the round-trip time): after \<^verbatim>\<open>set_rtt(0.2)\<close> the receive interval is 0.05.  The
  left-most record was sent at time 10 and its socket is registered; pacing starts at
  10.15, so the wait is 0.05, which is not longer than the receive interval: the pass
  sleeps for 0.05 without a receive pass, and the next pass, at 10.21, returns.  Pacing
  has taken more than a quarter of the round-trip time and \<^verbatim>\<open>poll\<close> was never called.\<close>

theorem pacing_without_receive_counterexample:
  "map_option (map_sum id (\<lambda>(v, w', s'). (checked_now v, poll_calls w', sleep_total_raw s')))
     (wait_for_quotas (stepping_world (203 / 20) (1021 / 100)) (set_rtt (1 / 5) waiting_scanner))
     = Some (Inr (Some (1021 / 100), 0, 1 / 20))
   \<and> poll_calls (stepping_world (203 / 20) (1021 / 100)) = 0
   \<and> get_socket_list (set_rtt (1 / 5) waiting_scanner) = [5]
   \<and> recv_interval (set_rtt (1 / 5) waiting_scanner) = (1 / 5) / 4
   \<and> (1021 / 100 :: rat) - 203 / 20 > (1 / 5) / 4"
proof -
  let ?s1 = "(set_rtt (1 / 5) waiting_scanner)
                 \<lparr>sleep_reasons := [''packet_quota'' \<mapsto> 0, ''bandwidth_quota'' \<mapsto> 0,
                                    ''port_states'' \<mapsto> 1],
                  sleep_total_raw := 1 / 20\<rparr>"
  let ?w1 = "(stepping_world (203 / 20) (1021 / 100))\<lparr>clock_reads := 2\<rparr>"
  have 2: "wait_for_quotas ?w1 ?s1
     = Some (Inr (\<lparr>bandwidth_quota_packets_left = 3974, packet_quota_packets_left = 100,
                    checked_now = Some (1021 / 100)\<rparr>,
                  ?w1\<lparr>clock_reads := 4\<rparr>, ?s1))"
    by (subst wait_for_quotas.simps)
       (simp add: wait_for_quotas_unfold waiting_scanner_def stepping_world_def still_world_def
          example_scanner_unfold example_record_def floor_examples_waiting set_rtt_def)
  have 1: "wait_for_quotas (stepping_world (203 / 20) (1021 / 100)) (set_rtt (1 / 5) waiting_scanner)
     = wait_for_quotas ?w1 ?s1"
    by (subst wait_for_quotas.simps) (simp add: waiting_pass_short)
  show ?thesis
    unfolding 1 2
    by (simp add: stepping_world_def still_world_def waiting_scanner_fields set_rtt_def
          get_socket_list_def waiting_scanner_def example_scanner_unfold)
qed

subsection \<open>The scan loop\<close>

lemma set_socket_same_queue: "set_socket r fd c = Inr c' \<Longrightarrow> same_queue c c'"
proof -
  assume a: "set_socket r fd c = Inr c'"
  then obtain c1 where c1: "(if socket (objs c r) \<noteq> None then delete_socket r c else Inr c) = Inr c1"
    by (auto simp: set_socket_def split: sum.splits)
  then have q1: "same_queue c c1"
    by (auto split: if_splits dest: delete_socket_same_queue simp: same_queue_refl)
  from a c1 have "same_queue c1 c'"
    by (auto simp: set_socket_def Let_def upd_obj_def poller_register_def same_queue_def
          split: if_splits)
  with q1 show ?thesis by (rule same_queue_trans)
qed

lemma attach_socket_frame:
  "attach_socket sent t r fd w s = Inr (b, t', w', s') \<Longrightarrow>
     same_settings s s' \<and> same_queue (probe_states_container s) (probe_states_container s')"
  by (auto simp: attach_socket_def same_settings_def split: sum.splits
        dest: set_socket_same_queue)

lemma connect_attempt_frame:
  assumes "connect_attempt r w s = Inr (b, t, w', s')"
  shows "same_settings s s' \<and> same_queue (probe_states_container s) (probe_states_container s')"
proof -
  from assms obtain sent t0 fd w0 s0 where
    a: "attach_socket sent t0 r fd w0 s0 = Inr (b, t, w', s')" and
    s0: "same_settings s s0" "probe_states_container s0 = probe_states_container s"
    by (auto simp: connect_attempt_def Let_def time_time_def socket_socket_def sock_connect_def
          same_settings_def
          split: prod.splits socket_result.splits connect_result.splits if_splits)
  from attach_socket_frame [OF a] s0 show ?thesis
    by (auto intro: same_settings_trans)
qed

lemma connect_loop_frame:
  assumes "connect_loop r w s = Some y"
  shows "\<forall>t w' s'. y = Inr (t, w', s') \<longrightarrow>
           same_settings s s' \<and> same_queue (probe_states_container s) (probe_states_container s')"
proof (rule connect_loop.raw_induct [OF _ assms], goal_cases)
  case (1 f r w s y)
  show ?case
  proof (intro allI impI)
    fix t w' s'
    assume y: "y = Inr (t, w', s')"
    from 1(2) y obtain sent t1 w1 s1 where ca: "connect_attempt r w s = Inr (sent, t1, w1, s1)"
      by (auto split: sum.splits)
    note f1 = connect_attempt_frame [OF ca]
    show "same_settings s s' \<and> same_queue (probe_states_container s) (probe_states_container s')"
    proof (cases sent)
      case True
      with 1(2) ca y have "s1 = s'" by simp
      with f1 show ?thesis by simp
    next
      case False
      with 1(2) ca have "f r w1 s1 = Some y" by simp
      from 1(1) [OF this, rule_format, OF y] f1 show ?thesis
        by (blast intro: same_settings_trans same_queue_trans)
    qed
  qed
qed

lemma retire_overdue_frame:
  "retire_overdue now r s = Inr s' \<Longrightarrow>
     same_settings s s' \<and> same_queue (probe_states_container s) (probe_states_container s')"
  by (auto simp: retire_overdue_def Let_def same_settings_def same_queue_refl
        split: if_splits option.splits sum.splits dest: schedule_delete_same_queue)


lemma next_probe_state_frame:
  "next_probe_state c = Inr (x, c') \<Longrightarrow> objs c' = objs c \<and> next_probe_id c' = next_probe_id c"
  by (auto simp: next_probe_state_def deque_popleft_def split: if_splits list.splits)

lemma popleft_frame:
  "popleft c = Inr (x, c') \<Longrightarrow> objs c' = objs c \<and> next_probe_id c' = next_probe_id c"
  by (auto simp: popleft_def deque_popleft_def split: if_splits list.splits)

lemma send_probe_effect:
  assumes "send_probe r w s l = Some (Inr (ctl, w', s', l'))"
  shows "ctl = Continue \<and> packet_overhead s' = packet_overhead s \<and> max_probes s' = max_probes s
     \<and> probes_sent_count s' = probes_sent_count s + 1
     \<and> bytes_sent s' = bytes_sent s + packet_overhead s
     \<and> next_probe_id (probe_states_container s') = next_probe_id (probe_states_container s)
     \<and> (\<forall>x. probes_sent (objs (probe_states_container s') x)
            = (if x = r then probes_sent (objs (probe_states_container s) r) + 1
               else probes_sent (objs (probe_states_container s) x)))"
proof -
  from assms obtain t w1 s1 where cl: "connect_loop r w s = Some (Inr (t, w1, s1))"
    by (auto simp: send_probe_def split: option.splits sum.splits)
  note f = connect_loop_frame [OF cl, rule_format, OF refl]
  let ?c = "upd_obj r (\<lambda>ps. ps\<lparr>probes_sent := probes_sent ps + 1,
                 probe_sent_time := Some (clock w1 (clock_reads w1))\<rparr>) (probe_states_container s1)"
  from assms cl obtain x c1 where np: "next_probe_state ?c = Inr (x, c1)"
    and s': "s' = s1\<lparr>probes_sent_count := probes_sent_count s1 + 1,
                    bytes_sent := bytes_sent s1 + (0 + packet_overhead s1),
                    probe_states_container := c1\<rparr>"
    and ctl: "ctl = Continue"
    by (auto simp: send_probe_def time_time_def Let_def split: sum.splits)
  from next_probe_state_frame [OF np] have c1: "objs c1 = objs ?c" "next_probe_id c1 = next_probe_id ?c"
    by simp_all
  from f have q: "same_queue (probe_states_container s) (probe_states_container s1)"
    and st: "same_settings s s1" by simp_all
  show ?thesis
    using ctl s' c1 q st
    by (auto simp: same_settings_def same_queue_def upd_obj_def)
qed

text \<open>The condition of the send branch, on the arguments of \<open>send_loop_body\<close>.\<close>

lemma send_loop_body_effect:
  assumes "send_loop_body w s l = Some (Inr (ctl, w', s', l'))"
  defines "c \<equiv> probe_states_container s"
  defines "due \<equiv> count c > 0 \<and>
              (case probe_states c of
                 [] \<Rightarrow> False
               | r # rest \<Rightarrow>
                   \<not> deleted (objs c r) \<and> probes_sent (objs c r) < max_probes s \<and>
                   (case probe_sent_time (objs c r) of
                      None \<Rightarrow> True
                    | Some t \<Rightarrow>
                        (case inter_packet_interval_per_host s of
                           None \<Rightarrow> False
                         | Some ipi \<Rightarrow> \<not> t + ipi > clock w (clock_reads w))))"
  shows "packet_overhead s' = packet_overhead s \<and> max_probes s' = max_probes s
     \<and> next_probe_id (probe_states_container s') = next_probe_id c
     \<and> (if due
         then probes_sent_count s' = probes_sent_count s + 1
              \<and> bytes_sent s' = bytes_sent s + packet_overhead s
              \<and> (\<forall>x. probes_sent (objs (probe_states_container s') x)
                     = (if x = hd (probe_states c) then probes_sent (objs c x) + 1
                        else probes_sent (objs c x)))
         else probes_sent_count s' = probes_sent_count s \<and> bytes_sent s' = bytes_sent s
              \<and> (\<forall>x. probes_sent (objs (probe_states_container s') x) = probes_sent (objs c x)))"
proof (cases "count c > 0")
  case False
  with assms(1) show ?thesis
    by (auto simp: send_loop_body_def time_time_def c_def due_def split: if_splits)
next
  case True
  with assms(1) obtain r where pk: "peekleft c = Inr (Some r)"
    by (auto simp: send_loop_body_def time_time_def c_def split: sum.splits option.splits)
  then obtain rest where q: "probe_states c = r # rest"
    using peekleft_Some by blast
  let ?now = "clock w (clock_reads w)"
  let ?w1 = "w\<lparr>clock_reads := Suc (clock_reads w)\<rparr>"
  from assms(1) True pk obtain s1 where ro: "retire_overdue ?now r s = Inr s1"
    by (auto simp: send_loop_body_def time_time_def c_def split: sum.splits)
  note f1 = retire_overdue_frame [OF ro]
  have st1: "same_settings s s1" and q1: "same_queue c (probe_states_container s1)"
    using f1 by (simp_all add: c_def)
  have ps1: "probes_sent (objs (probe_states_container s1) x) = probes_sent (objs c x)"
    "probe_sent_time (objs (probe_states_container s1) x) = probe_sent_time (objs c x)"
    "next_probe_id (probe_states_container s1) = next_probe_id c" for x
    using q1 by (simp_all add: same_queue_def)
  have set1: "max_probes s1 = max_probes s" "packet_overhead s1 = packet_overhead s"
    "bytes_sent s1 = bytes_sent s" "probes_sent_count s1 = probes_sent_count s"
    "inter_packet_interval_per_host s1 = inter_packet_interval_per_host s"
    using st1 by (simp_all add: same_settings_def)
  have del1: "deleted (objs c r) \<Longrightarrow> deleted (objs (probe_states_container s1) r)"
    using ro by (auto simp: retire_overdue_def Let_def c_def split: if_splits)
  have live1: "\<not> deleted (objs c r) \<Longrightarrow> probes_sent (objs c r) < max_probes s \<Longrightarrow> s1 = s"
    using ro by (auto simp: retire_overdue_def Let_def c_def split: if_splits)
  let ?ps = "objs (probe_states_container s1) r"
  from assms(1) True pk ro have body:
    "(if deleted ?ps then
        (case popleft (probe_states_container s1) of
           Inl e \<Rightarrow> Some (Inl e)
         | Inr (x, c) \<Rightarrow> Some (Inr (Continue, ?w1, s1\<lparr>probe_states_container := c\<rparr>, l)))
      else if probes_sent ?ps \<ge> max_probes s1 then Some (Inr (Break, ?w1, s1, l))
      else
        (case probe_sent_time ?ps of
           None \<Rightarrow> send_probe r ?w1 s1 l
         | Some t \<Rightarrow>
             (case inter_packet_interval_per_host s1 of
                None \<Rightarrow> Some (Inl TypeError)
              | Some ipi \<Rightarrow>
                  if t + ipi > ?now then Some (Inr (Break, ?w1, s1, l))
                  else send_probe r ?w1 s1 l)))
     = Some (Inr (ctl, w', s', l'))"
    by (simp add: send_loop_body_def time_time_def c_def Let_def split del: if_split)
  show ?thesis
  proof (cases due)
    case False
    have nosend: "send_probe r ?w1 s1 l \<noteq> Some (Inr (ctl, w', s', l'))
        \<or> deleted ?ps \<or> probes_sent ?ps \<ge> max_probes s1
        \<or> (\<exists>t ipi. probe_sent_time ?ps = Some t \<and> inter_packet_interval_per_host s1 = Some ipi
              \<and> t + ipi > ?now)
        \<or> (\<exists>t. probe_sent_time ?ps = Some t \<and> inter_packet_interval_per_host s1 = None)"
      using False True q del1
      by (auto simp: due_def ps1 set1 split: option.splits)
    have "probes_sent_count s' = probes_sent_count s1 \<and> bytes_sent s' = bytes_sent s1
        \<and> packet_overhead s' = packet_overhead s1 \<and> max_probes s' = max_probes s1
        \<and> next_probe_id (probe_states_container s') = next_probe_id (probe_states_container s1)
        \<and> (\<forall>x. probes_sent (objs (probe_states_container s') x)
               = probes_sent (objs (probe_states_container s1) x))"
      using body nosend
      by (auto split: if_splits sum.splits option.splits dest!: popleft_frame)
    with False show ?thesis
      by (simp add: ps1 set1)
  next
    case True
    then have d: "\<not> deleted (objs c r)" "probes_sent (objs c r) < max_probes s"
      using q by (simp_all add: due_def)
    from live1 [OF d] have s1: "s1 = s" .
    from True q have due': "probe_sent_time (objs c r) = None
        \<or> (\<exists>t ipi. probe_sent_time (objs c r) = Some t \<and> inter_packet_interval_per_host s = Some ipi
              \<and> \<not> t + ipi > ?now)"
      by (auto simp: due_def split: option.splits)
    from body d due' have "send_probe r ?w1 s l = Some (Inr (ctl, w', s', l'))"
      by (auto simp: s1 c_def split: if_splits)
    from send_probe_effect [OF this] True q show ?thesis
      by (simp add: c_def)
  qed
qed


lemma no_send_refl: "no_send s s"
  by (simp add: no_send_def)

lemma no_send_trans: "no_send s s1 \<Longrightarrow> no_send s1 s2 \<Longrightarrow> no_send s s2"
  unfolding no_send_def
  by (metis (no_types, lifting) le_trans not_le_imp_less order.strict_trans2)

lemma frame_no_send:
  "same_settings s s' \<Longrightarrow> same_queue (probe_states_container s) (probe_states_container s')
     \<Longrightarrow> no_send s s'"
  by (simp add: no_send_def same_settings_def same_queue_def)

lemma delete_probe_state_frame:
  "delete_probe_state r c = Inr c' \<Longrightarrow>
     next_probe_id c' = next_probe_id c \<and> (\<forall>x. probes_sent (objs c' x) = probes_sent (objs c x))"
  by (auto simp: delete_probe_state_def same_queue_def split: sum.splits
        dest!: delete_socket_same_queue)

lemma fill_loop_no_send:
  "fill_loop g s l = Inr (s', l') \<Longrightarrow> no_send s s'"
proof (induction g arbitrary: s l)
  case Nil
  then show ?case by (auto simp: no_send_refl split: option.splits)
next
  case (Cons a rest)
  obtain target idx where a: "a = (target, idx)" by (cases a)
  let ?c = "probe_states_container s"
  obtain r c1 where init: "ProbeStateTcp_init target (probes s ! idx) idx ?c = (r, c1)"
    by (cases "ProbeStateTcp_init target (probes s ! idx) idx ?c")
  then have r: "r = next_probe_id ?c" and n1: "next_probe_id c1 = next_probe_id ?c + 1"
    and o1: "\<forall>x. probes_sent (objs c1 x) = (if x = r then 0 else probes_sent (objs ?c x))"
    by (auto simp: ProbeStateTcp_init_def add_probe_state_def upd_obj_def Let_def)
  from Cons.prems a have idx: "idx < length (probes s)"
    by (simp split: if_splits)
  have c1: "no_send s (s\<lparr>probe_states_container := c1\<rparr>)"
    using r n1 o1 by (auto simp: no_send_def)
  show ?case
  proof (cases "target \<in> set (blocklist s)")
    case True
    with Cons.prems a idx init obtain c2 where d: "delete_probe_state r c1 = Inr c2"
      and rec: "fill_loop rest (s\<lparr>probe_states_container := c2\<rparr>) l = Inr (s', l')"
      by (auto split: sum.splits)
    from delete_probe_state_frame [OF d] c1
    have "no_send s (s\<lparr>probe_states_container := c2\<rparr>)"
      by (auto simp: no_send_def)
    with Cons.IH [OF rec] show ?thesis by (blast intro: no_send_trans)
  next
    case False
    from Cons.prems a idx init False obtain n where n: "count_in_queue s idx = Some n"
      by (auto simp: Let_def split: option.splits)
    let ?s2 = "s\<lparr>probe_states_container := c1,
                 host_count := (if idx = 0 then host_count s + 1 else host_count s),
                 count_in_queue := (count_in_queue s)(idx \<mapsto> n + 1)\<rparr>"
    have b: "no_send s ?s2"
      using c1 by (simp add: no_send_def)
    from Cons.prems a idx init False n
    have "s' = ?s2 \<or> (\<exists>lx. fill_loop rest ?s2 lx = Inr (s', l'))"
      by (auto simp: Let_def split: if_splits)
    then show ?thesis
    proof
      assume "s' = ?s2"
      with b show ?thesis by simp
    next
      assume "\<exists>lx. fill_loop rest ?s2 lx = Inr (s', l')"
      then obtain lx where "fill_loop rest ?s2 lx = Inr (s', l')" by blast
      from b Cons.IH [OF this] show ?thesis by (rule no_send_trans)
    qed
  qed
qed

lemma sort_probe_states_frame:
  "sort_probe_states ipi now c = Inr c' \<Longrightarrow> objs c' = objs c \<and> next_probe_id c' = next_probe_id c"
  by (auto simp: sort_probe_states_def split: option.splits if_splits)

lemma fill_queue_no_send:
  assumes "fill_queue w s l = Inr (w', s', l')"
  shows "no_send s s'"
proof (cases "more_hosts l \<and> count (probe_states_container s) < host_count_low_water s")
  case False
  with assms show ?thesis by (auto simp: fill_queue_def no_send_refl)
next
  case True
  with assms obtain s1 l1 c where fl: "fill_loop (gen l) s (l\<lparr>more_hosts := False\<rparr>) = Inr (s1, l1)"
    and srt: "sort_probe_states (inter_packet_interval_per_host s1) (clock w (clock_reads w))
                (probe_states_container s1) = Inr c"
    and s': "s' = s1\<lparr>probe_states_container := c\<rparr>"
    by (auto simp: fill_queue_def time_time_def split: sum.splits)
  from sort_probe_states_frame [OF srt] s' have "no_send s1 s'"
    by (simp add: no_send_def)
  with fill_loop_no_send [OF fl] show ?thesis by (rule no_send_trans)
qed

lemma pace_no_send:
  assumes "pace w s = Some (Inr (k, w', s'))"
  shows "no_send s s'"
proof -
  from assms obtain v w1 where "wait_for_quotas w s = Some (Inr (v, w1, s'))"
    by (auto simp: pace_def split: option.splits sum.splits)
  from wait_for_quotas_partial [OF this, rule_format, OF refl] show ?thesis
    by (blast intro: frame_no_send)
qed

lemma recv_some_packets_no_send:
  assumes "recv_some_packets w s l = Inr (w', s', l')"
  shows "no_send s s'"
proof (cases "next_recv_time s < clock w (clock_reads w)")
  case False
  with assms show ?thesis by (auto simp: recv_some_packets_def time_time_def no_send_refl)
next
  case True
  let ?s1 = "s\<lparr>next_recv_time := clock w (clock_reads w) + recv_interval s\<rparr>"
  from True assms obtain b w2 where
    rp: "receive_packets (socket_list (probe_states_container ?s1))
           (w\<lparr>clock_reads := Suc (clock_reads w)\<rparr>) ?s1 = Inr (b, w2, s')"
    by (auto simp: recv_some_packets_def time_time_def Let_def split: sum.splits)
  have "no_send s ?s1" by (simp add: no_send_def)
  moreover from receive_packets_frame [OF rp] have "no_send ?s1 s'"
    by (blast intro: frame_no_send)
  ultimately show ?thesis by (rule no_send_trans)
qed

lemma finish_scan_no_send:
  assumes "finish_scan w s l = Inr (w', s', l')"
  shows "no_send s s'"
proof -
  from assms obtain b w1 s1 d r where
    rp: "receive_packets (socket_list (probe_states_container s)) w s = Inr (b, w1, s1)"
    and s': "s' = s1\<lparr>scan_duration := Some d, scan_rate_bits_per_second := Some r\<rparr>"
    by (auto simp: finish_scan_def Let_def split: sum.splits option.splits)
  from receive_packets_frame [OF rp] have "no_send s s1"
    by (blast intro: frame_no_send)
  moreover have "no_send s1 s'" using s' by (simp add: no_send_def)
  ultimately show ?thesis by (rule no_send_trans)
qed


lemma scan_step_effect:
  assumes "scan_step st = Some (Inr st')"
  shows "if send_due st
         then packet_overhead (scanner st') = packet_overhead (scanner st)
              \<and> max_probes (scanner st') = max_probes (scanner st)
              \<and> next_probe_id (probe_states_container (scanner st'))
                  = next_probe_id (probe_states_container (scanner st))
              \<and> probes_sent_count (scanner st') = probes_sent_count (scanner st) + 1
              \<and> bytes_sent (scanner st') = bytes_sent (scanner st) + packet_overhead (scanner st)
              \<and> (\<forall>x. probes_sent (objs (probe_states_container (scanner st')) x)
                     = (if x = hd (probe_states (probe_states_container (scanner st)))
                        then probes_sent (objs (probe_states_container (scanner st)) x) + 1
                        else probes_sent (objs (probe_states_container (scanner st)) x)))
         else no_send (scanner st) (scanner st')"
proof (cases "phase st")
  case FILLING
  with assms show ?thesis
    by (auto simp: scan_step_def send_due_def split: sum.splits dest: fill_queue_no_send)
next
  case PACING
  with assms show ?thesis
    by (auto simp: scan_step_def send_due_def split: sum.splits option.splits dest: pace_no_send)
next
  case (SENDING k)
  with assms obtain ctl w s l where
    b: "send_loop_body (env st) (scanner st) (locals st) = Some (Inr (ctl, w, s, l))"
    and s: "scanner st' = s"
    by (auto simp: scan_step_def split: sum.splits option.splits)
  from send_loop_body_effect [OF b] s SENDING show ?thesis
    by (simp add: send_due_def Let_def no_send_def split: if_splits)
next
  case DRAINING
  with assms show ?thesis
    by (auto simp: scan_step_def send_due_def split: sum.splits dest: recv_some_packets_no_send)
next
  case FINALIZING
  with assms show ?thesis
    by (auto simp: scan_step_def send_due_def split: sum.splits dest: finish_scan_no_send)
next
  case FINISHED
  with assms show ?thesis
    by (auto simp: scan_step_def send_due_def no_send_refl)
qed

lemma send_due_head:
  assumes "send_due st"
  shows "probes_sent (objs (probe_states_container (scanner st))
                        (hd (probe_states (probe_states_container (scanner st)))))
           < max_probes (scanner st)"
  using assms
  by (auto simp: send_due_def Let_def split: phase.splits list.splits)

lemma counters_consistent_step:
  assumes "scan_step st = Some (Inr st')" and "counters_consistent (scanner st)"
  shows "counters_consistent (scanner st')
         \<and> packet_overhead (scanner st') = packet_overhead (scanner st)"
proof (cases "send_due st")
  case True
  with scan_step_effect [OF assms(1)] assms(2) show ?thesis
    by (simp add: counters_consistent_def algebra_simps)
next
  case False
  with scan_step_effect [OF assms(1)] assms(2) show ?thesis
    by (simp add: counters_consistent_def no_send_def)
qed

lemma probes_bounded_step:
  assumes "scan_step st = Some (Inr st')" and "0 \<le> max_probes (scanner st)"
    and "probes_bounded (scanner st)"
  shows "probes_bounded (scanner st') \<and> max_probes (scanner st') = max_probes (scanner st)"
proof (cases "send_due st")
  case True
  note e = scan_step_effect [OF assms(1)]
  from e True have m: "max_probes (scanner st') = max_probes (scanner st)"
    and n: "next_probe_id (probe_states_container (scanner st'))
              = next_probe_id (probe_states_container (scanner st))"
    and p: "\<And>x. probes_sent (objs (probe_states_container (scanner st')) x)
                 = (if x = hd (probe_states (probe_states_container (scanner st)))
                    then probes_sent (objs (probe_states_container (scanner st)) x) + 1
                    else probes_sent (objs (probe_states_container (scanner st)) x))"
    by simp_all
  have "probes_sent (objs (probe_states_container (scanner st')) x) \<le> max_probes (scanner st')"
    if "x < next_probe_id (probe_states_container (scanner st'))" for x
    using that assms(3) send_due_head [OF True] unfolding probes_bounded_def n m p
    by auto
  with m show ?thesis by (simp add: probes_bounded_def)
next
  case False
  with scan_step_effect [OF assms(1)] have e: "no_send (scanner st) (scanner st')" by simp
  then have m: "max_probes (scanner st') = max_probes (scanner st)" by (simp add: no_send_def)
  have "probes_sent (objs (probe_states_container (scanner st')) x) \<le> max_probes (scanner st')"
    if "x < next_probe_id (probe_states_container (scanner st'))" for x
  proof (cases "x < next_probe_id (probe_states_container (scanner st))")
    case True
    with e assms(3) show ?thesis by (simp add: no_send_def probes_bounded_def)
  next
    case False
    with e that assms(2) show ?thesis by (simp add: no_send_def)
  qed
  with m show ?thesis by (simp add: probes_bounded_def)
qed

lemma reachable_counters_consistent:
  assumes "reachable st0 st" and "counters_consistent (scanner st0)"
  shows "counters_consistent (scanner st)
         \<and> packet_overhead (scanner st) = packet_overhead (scanner st0)"
  using assms
proof (induction rule: reachable.induct)
  case start
  then show ?case by simp
next
  case (step st st1)
  with counters_consistent_step [OF step.hyps(2)] show ?case by simp
qed

lemma reachable_probes_bounded:
  assumes "reachable st0 st" and "0 \<le> max_probes (scanner st0)"
    and "probes_bounded (scanner st0)"
  shows "probes_bounded (scanner st) \<and> max_probes (scanner st) = max_probes (scanner st0)"
  using assms
proof (induction rule: reachable.induct)
  case start
  then show ?case by simp
next
  case (step st st1)
  with probes_bounded_step [OF step.hyps(2)] show ?case by simp
qed


lemma delete_socket_registered:
  assumes "\<forall>fd. socket (objs c r) = Some fd \<longrightarrow> fd \<in> set (socket_list c) \<and> probe_states_by_fd c fd \<noteq> None"
  shows "\<exists>c1. delete_socket r c = Inr c1"
  using assms
  by (auto simp: delete_socket_def py_remove_def poller_unregister_def Let_def split: option.splits)

lemma retire_overdue_overdue:
  assumes "max_probes s \<le> probes_sent (objs (probe_states_container s) r)"
    and "probe_sent_time (objs (probe_states_container s) r) = Some t"
    and "inter_packet_interval_per_host s = Some ipi" and "t + ipi < now"
    and "\<forall>fd. socket (objs (probe_states_container s) r) = Some fd \<longrightarrow>
           fd \<in> set (socket_list (probe_states_container s))
           \<and> probe_states_by_fd (probe_states_container s) fd \<noteq> None"
  shows "\<exists>s1. retire_overdue now r s = Inr s1 \<and> deleted (objs (probe_states_container s1) r)
           \<and> same_settings s s1
           \<and> same_queue (probe_states_container s) (probe_states_container s1)"
proof (cases "deleted (objs (probe_states_container s) r)")
  case True
  then show ?thesis
    by (simp add: retire_overdue_def Let_def same_settings_refl same_queue_refl)
next
  case False
  from delete_socket_registered [OF assms(5)] obtain c1
    where d: "delete_socket r (probe_states_container s) = Inr c1" by blast
  let ?c2 = "upd_obj r (\<lambda>ps. ps\<lparr>deleted := True\<rparr>) c1"
  have sd: "schedule_delete r (probe_states_container s) = Inr ?c2"
    by (simp add: schedule_delete_def d)
  have ro: "retire_overdue now r s = Inr (s\<lparr>probe_states_container := ?c2\<rparr>)"
    using False assms(1-4) by (simp add: retire_overdue_def Let_def sd)
  have "deleted (objs ?c2 r)" by (simp add: upd_obj_def)
  moreover have "same_settings s (s\<lparr>probe_states_container := ?c2\<rparr>)"
    by (simp add: same_settings_def)
  moreover have "same_queue (probe_states_container s) ?c2"
    using schedule_delete_same_queue [OF sd] .
  ultimately show ?thesis using ro by simp
qed

lemma overdue_record_step:
  assumes ph: "phase st = SENDING k"
    and cnt: "0 < count (probe_states_container (scanner st))"
    and q: "probe_states (probe_states_container (scanner st)) = r # rest"
    and mx: "max_probes (scanner st) \<le> probes_sent (objs (probe_states_container (scanner st)) r)"
    and t: "probe_sent_time (objs (probe_states_container (scanner st)) r) = Some t"
    and ipi: "inter_packet_interval_per_host (scanner st) = Some ipi"
    and late: "t + ipi < clock (env st) (clock_reads (env st))"
    and reg: "\<forall>fd. socket (objs (probe_states_container (scanner st)) r) = Some fd \<longrightarrow>
           fd \<in> set (socket_list (probe_states_container (scanner st)))
           \<and> probe_states_by_fd (probe_states_container (scanner st)) fd \<noteq> None"
  shows "\<exists>st'. scan_step st = Some (Inr st')
           \<and> phase st' = sending (k - 1)
           \<and> deleted (objs (probe_states_container (scanner st')) r)
           \<and> probe_states (probe_states_container (scanner st')) = rest
           \<and> count (probe_states_container (scanner st'))
               = count (probe_states_container (scanner st)) - 1
           \<and> probes_sent (objs (probe_states_container (scanner st')) r)
               = probes_sent (objs (probe_states_container (scanner st)) r)
           \<and> probes_sent_count (scanner st') = probes_sent_count (scanner st)
           \<and> bytes_sent (scanner st') = bytes_sent (scanner st)"
proof -
  let ?s = "scanner st" and ?w = "env st"
  let ?now = "clock ?w (clock_reads ?w)"
  from retire_overdue_overdue [OF mx t ipi late reg] obtain s1 where
    ro: "retire_overdue ?now r ?s = Inr s1" and del: "deleted (objs (probe_states_container s1) r)"
    and st1: "same_settings ?s s1"
    and q1: "same_queue (probe_states_container ?s) (probe_states_container s1)"
    by blast
  let ?c = "(probe_states_container s1)\<lparr>count := count (probe_states_container s1) - 1,
                                         probe_states := rest\<rparr>"
  have q1': "probe_states (probe_states_container s1) = r # rest"
    "count (probe_states_container s1) = count (probe_states_container ?s)"
    "probes_sent (objs (probe_states_container s1) r)
       = probes_sent (objs (probe_states_container ?s) r)"
    using q1 q by (simp_all add: same_queue_def)
  have pk: "peekleft (probe_states_container ?s) = Inr (Some r)"
    using q by (simp add: peekleft_def deque_first_def)
  have pl: "popleft (probe_states_container s1) = Inr (Some r, ?c)"
    using q1' by (simp add: popleft_def deque_popleft_def)
  have b: "send_loop_body ?w ?s (locals st)
     = Some (Inr (Continue, ?w\<lparr>clock_reads := clock_reads ?w + 1\<rparr>,
                  s1\<lparr>probe_states_container := ?c\<rparr>, locals st))"
    using cnt by (simp add: send_loop_body_def time_time_def pk ro del pl Let_def)
  let ?st' = "\<lparr>phase = sending (k - 1), env = ?w\<lparr>clock_reads := clock_reads ?w + 1\<rparr>,
               scanner = s1\<lparr>probe_states_container := ?c\<rparr>, locals = locals st\<rparr>"
  have "scan_step st = Some (Inr ?st')"
    using ph by (simp add: scan_step_def b)
  moreover have "deleted (objs (probe_states_container (scanner ?st')) r)"
    using del by simp
  moreover have "probes_sent_count (scanner ?st') = probes_sent_count ?s"
    "bytes_sent (scanner ?st') = bytes_sent ?s"
    using st1 by (simp_all add: same_settings_def)
  ultimately show ?thesis
    using q1' by (intro exI [of _ ?st']) simp
qed


lemma probing_scanner_fields:
  "packet_overhead probing_scanner = 74" "bytes_sent probing_scanner = 74"
  "probes_sent_count probing_scanner = 1" "max_probes probing_scanner = 3"
  "inter_packet_interval_per_host probing_scanner = Some (1 / 5)"
  "count (probe_states_container probing_scanner) = 1"
  "probe_states (probe_states_container probing_scanner) = [0]"
  "next_probe_id (probe_states_container probing_scanner) = 1"
  "socket_list (probe_states_container probing_scanner) = [5]"
  "probe_states_by_fd (probe_states_container probing_scanner) 5 = Some 0"
  "objs (probe_states_container probing_scanner) 0
     = \<lparr>target_ip = ''10.0.0.1'', target_port = 80, probe_index = 0, probe_sent_time = Some 10,
        probes_sent = 1, socket = Some 5, deleted = False, probe_id = 0\<rparr>"
  by (simp_all add: probing_scanner_def set_rtt_def waiting_scanner_def example_scanner_unfold
        example_record_def)

lemma unreachable_send_step:
  "\<exists>st'. scan_step (sending_state (unreachable_world 11) probing_scanner) = Some (Inr st')
         \<and> warned_about_unreachable_network (scanner st') = [''10.0.0.1'']
         \<and> phase st' = DRAINING"
  by (simp add: scan_step_def sending_state_def send_loop_body_def time_time_def peekleft_def
        deque_first_def retire_overdue_def send_probe_def connect_loop.simps connect_attempt_def
        socket_socket_def sock_connect_def attach_socket_def set_socket_def delete_socket_def
        poller_unregister_def poller_register_def py_remove_def upd_obj_def next_probe_state_def
        deque_popleft_def unreachable_world_def still_world_def probing_scanner_def set_rtt_def
        waiting_scanner_def example_scanner_unfold example_record_def sending_def Let_def)

end
